theory Spec2Isabelle
  imports Main "HOL-Library.AList"
begin

section \<open>JavaScript values\<close>

text \<open>
  The node moves untyped JavaScript values (\<^verbatim>\<open>IDataObject\<close>, \<^verbatim>\<open>unknown\<close>) from the
  parameter bag of an item into a request.  Objects are association lists in insertion
  order; a property write is \<^const>\<open>AList.update\<close> (overwrite in place, else append).
  Numbers are integers plus \<open>NaN\<close>; fractions and infinities are outside the model.
\<close>

datatype jsvalue =
    JUndefined
  | JNull
  | JBool bool
  | JNum int
  | JNaN
  | JStr string
  | JArr "jsvalue list"
  | JObj "(string \<times> jsvalue) list"

text \<open>\<^verbatim>\<open>if (v)\<close>, \<^verbatim>\<open>!v\<close>, \<^verbatim>\<open>a || b\<close>, \<^verbatim>\<open>a && b\<close>: JavaScript truthiness.\<close>

fun truthy :: "jsvalue \<Rightarrow> bool" where
  "truthy JUndefined = False"
| "truthy JNull = False"
| "truthy (JBool b) = b"
| "truthy (JNum n) = (n \<noteq> 0)"
| "truthy JNaN = False"
| "truthy (JStr s) = (s \<noteq> [])"
| "truthy (JArr xs) = True"
| "truthy (JObj kvs) = True"

text \<open>\<^verbatim>\<open>typeof v === 'object'\<close> (true of \<^verbatim>\<open>null\<close>, arrays and objects).\<close>

fun typeof_object :: "jsvalue \<Rightarrow> bool" where
  "typeof_object JNull = True"
| "typeof_object (JArr xs) = True"
| "typeof_object (JObj kvs) = True"
| "typeof_object v = False"

subsection \<open>Numbers and strings\<close>

definition digit_char :: "nat \<Rightarrow> char" where
  "digit_char d =
     (if d = 0 then CHR ''0'' else if d = 1 then CHR ''1'' else if d = 2 then CHR ''2''
      else if d = 3 then CHR ''3'' else if d = 4 then CHR ''4'' else if d = 5 then CHR ''5''
      else if d = 6 then CHR ''6'' else if d = 7 then CHR ''7'' else if d = 8 then CHR ''8''
      else CHR ''9'')"

function string_of_nat :: "nat \<Rightarrow> string" where
  "string_of_nat n =
     (if n < 10 then [digit_char n] else string_of_nat (n div 10) @ [digit_char (n mod 10)])"
  by pat_completeness auto
termination
  by (relation "measure id") auto

declare string_of_nat.simps [simp del]

definition string_of_int :: "int \<Rightarrow> string" where
  "string_of_int z = (if z < 0 then CHR ''-'' # string_of_nat (nat (- z)) else string_of_nat (nat z))"

fun join_comma :: "string list \<Rightarrow> string" where
  "join_comma [] = []"
| "join_comma [s] = s"
| "join_comma (s # t # ss) = s @ '','' @ join_comma (t # ss)"

text \<open>String conversion as a template literal \<^verbatim>\<open>`${v}`\<close> performs it.\<close>

fun to_string :: "jsvalue \<Rightarrow> string" where
  "to_string JUndefined = ''undefined''"
| "to_string JNull = ''null''"
| "to_string (JBool b) = (if b then ''true'' else ''false'')"
| "to_string (JNum n) = string_of_int n"
| "to_string JNaN = ''NaN''"
| "to_string (JStr s) = s"
| "to_string (JArr xs) =
     join_comma (map (\<lambda>x. if x = JUndefined \<or> x = JNull then [] else to_string x) xs)"
| "to_string (JObj kvs) = ''[object Object]''"

definition is_space :: "char \<Rightarrow> bool" where
  "is_space c = (c \<in> set [CHR '' '', CHR 0x09, CHR 0x0A, CHR 0x0B, CHR 0x0C, CHR 0x0D])"

text \<open>\<^verbatim>\<open>String.prototype.trim\<close> on the ASCII white space.\<close>

definition trim :: "string \<Rightarrow> string" where
  "trim s = rev (dropWhile is_space (rev (dropWhile is_space s)))"

text \<open>\<^verbatim>\<open>s.split(c)\<close> for a one-character separator.\<close>

fun split_on :: "char \<Rightarrow> string \<Rightarrow> string list" where
  "split_on c [] = [[]]"
| "split_on c (x # xs) =
     (if x = c then [] # split_on c xs
      else (case split_on c xs of [] \<Rightarrow> [[x]] | y # ys \<Rightarrow> (x # y) # ys))"

definition is_digit :: "char \<Rightarrow> bool" where
  "is_digit c = (c \<in> set ''0123456789'')"

definition digit_val :: "char \<Rightarrow> nat" where
  "digit_val c = of_char c - 48"

definition nat_of_digits :: "string \<Rightarrow> nat" where
  "nat_of_digits ds = foldl (\<lambda>n c. 10 * n + digit_val c) 0 ds"

text \<open>
  \<^verbatim>\<open>parseInt(s, 10)\<close>: leading white space, an optional sign, then the longest run of
  decimal digits; \<open>NaN\<close> when there is no digit.
\<close>

definition parseInt10 :: "string \<Rightarrow> jsvalue" where
  "parseInt10 s =
     (let t = dropWhile is_space s;
          neg = (case t of [] \<Rightarrow> False | c # _ \<Rightarrow> c = CHR ''-'');
          u = (case t of [] \<Rightarrow> [] | c # r \<Rightarrow> if c = CHR ''-'' \<or> c = CHR ''+'' then r else t);
          ds = takeWhile is_digit u
      in if ds = [] then JNaN
         else if neg then JNum (- int (nat_of_digits ds)) else JNum (int (nat_of_digits ds)))"

subsection \<open>Objects\<close>

text \<open>\<^verbatim>\<open>Object.keys(v)\<close>: the own enumerable keys (indices for arrays and strings).\<close>

fun object_keys :: "jsvalue \<Rightarrow> string list" where
  "object_keys (JObj kvs) = remdups (map fst kvs)"
| "object_keys (JArr xs) = map string_of_nat [0..<length xs]"
| "object_keys (JStr s) = map string_of_nat [0..<length s]"
| "object_keys v = []"

text \<open>The own enumerable properties that a spread \<^verbatim>\<open>{...v}\<close> or \<^verbatim>\<open>Object.assign\<close> copies.\<close>

fun own_entries :: "jsvalue \<Rightarrow> (string \<times> jsvalue) list" where
  "own_entries (JObj kvs) = kvs"
| "own_entries (JArr xs) = zip (map string_of_nat [0..<length xs]) xs"
| "own_entries (JStr s) = zip (map string_of_nat [0..<length s]) (map (\<lambda>c. JStr [c]) s)"
| "own_entries v = []"

text \<open>\<^verbatim>\<open>Object.assign(target, source)\<close>: sequential key assignment, in the source's order.\<close>

definition object_assign :: "(string \<times> jsvalue) list \<Rightarrow> jsvalue \<Rightarrow> (string \<times> jsvalue) list" where
  "object_assign target source = fold (\<lambda>(k, v) t. AList.update k v t) (own_entries source) target"

text \<open>Reading a property of an object value; \<^verbatim>\<open>undefined\<close> when it is absent.\<close>

definition get_prop :: "jsvalue \<Rightarrow> string \<Rightarrow> jsvalue" where
  "get_prop v k = (case v of JObj kvs \<Rightarrow> (case map_of kvs k of None \<Rightarrow> JUndefined | Some x \<Rightarrow> x)
               | _ \<Rightarrow> JUndefined)"

section \<open>Errors and the host\<close>

text \<open>
  \<open>NodeOperationError message itemIndex\<close> is the error the node itself raises.
  \<open>TypeError\<close> is the JavaScript runtime's (a member read on \<^verbatim>\<open>null\<close>, a method missing
  on the value at hand); \<open>CouldNotGetParameter\<close> is the host's, for a parameter read
  without fallback that the item does not have.
\<close>

datatype error =
    NodeOperationError string nat
  | TypeError
  | CouldNotGetParameter string

text \<open>
  \<^verbatim>\<open>IExecuteFunctions\<close>, as far as the node uses it: the number of input items, the
  parameter bag of each item, the platform's \<^verbatim>\<open>JSON.parse\<close> (\<open>None\<close> when it throws a
  \<^verbatim>\<open>SyntaxError\<close>), the \<^verbatim>\<open>baseUrl\<close> field of the resolved credentials, and the host's
  authenticated HTTP call, which receives the request options.
\<close>

record http_request_options =
  opt_method :: string
  opt_url :: string
  opt_json :: bool
  opt_qs :: "jsvalue option"
  opt_body :: "jsvalue option"

record execute_functions =
  input_length :: nat
  parameters :: "nat \<Rightarrow> string \<Rightarrow> jsvalue option"
  json_parse :: "string \<Rightarrow> jsvalue option"
  credentials_baseUrl :: jsvalue
  httpRequestWithAuthentication :: "http_request_options \<Rightarrow> error + jsvalue"

text \<open>\<^verbatim>\<open>this.getNodeParameter(name, itemIndex, fallback)\<close>.\<close>

definition getNodeParameter :: "execute_functions \<Rightarrow> string \<Rightarrow> nat \<Rightarrow> jsvalue \<Rightarrow> jsvalue" where
  "getNodeParameter ex parameterName itemIndex fallback =
     (case parameters ex itemIndex parameterName of
        None \<Rightarrow> fallback
      | Some JUndefined \<Rightarrow> fallback
      | Some v \<Rightarrow> v)"

text \<open>\<^verbatim>\<open>this.getNodeParameter(name, itemIndex)\<close>, without fallback.\<close>

definition getNodeParameterRequired :: "execute_functions \<Rightarrow> string \<Rightarrow> nat \<Rightarrow> error + jsvalue" where
  "getNodeParameterRequired ex parameterName itemIndex =
     (case parameters ex itemIndex parameterName of
        None \<Rightarrow> Inl (CouldNotGetParameter parameterName)
      | Some JUndefined \<Rightarrow> Inl (CouldNotGetParameter parameterName)
      | Some v \<Rightarrow> Inr v)"

text \<open>A member read \<^verbatim>\<open>v.k\<close> for a named member \<open>k\<close> (the source reads no index).\<close>

definition get_member :: "jsvalue \<Rightarrow> string \<Rightarrow> error + jsvalue" where
  "get_member v k =
     (case v of
        JUndefined \<Rightarrow> Inl TypeError
      | JNull \<Rightarrow> Inl TypeError
      | JObj kvs \<Rightarrow> Inr (get_prop v k)
      | JArr xs \<Rightarrow> Inr (if k = ''length'' then JNum (int (length xs)) else JUndefined)
      | JStr s \<Rightarrow> Inr (if k = ''length'' then JNum (int (length s)) else JUndefined)
      | _ \<Rightarrow> Inr JUndefined)"

section \<open>Helpers of the node\<close>

definition invalid_json_message :: "string \<Rightarrow> string" where
  \<open>invalid_json_message parameterName = ''Parameter "'' @ parameterName @ ''" is not valid JSON.''\<close>

definition getJsonParameter :: "execute_functions \<Rightarrow> string \<Rightarrow> nat \<Rightarrow> jsvalue \<Rightarrow> error + jsvalue" where
  "getJsonParameter ex parameterName itemIndex defaultValue =
     (let v = getNodeParameter ex parameterName itemIndex defaultValue in
      if v = JStr '''' \<or> v = JUndefined \<or> v = JNull then Inr defaultValue
      else (case v of
              JStr s \<Rightarrow>
                (case json_parse ex s of
                   None \<Rightarrow> Inl (NodeOperationError (invalid_json_message parameterName) itemIndex)
                 | Some parsed \<Rightarrow>
                     if truthy parsed \<and> typeof_object parsed then Inr parsed else Inr v)
            | _ \<Rightarrow> Inr v))"

definition addIfNotEmpty :: "(string \<times> jsvalue) list \<Rightarrow> string \<Rightarrow> jsvalue \<Rightarrow> (string \<times> jsvalue) list" where
  "addIfNotEmpty target key v =
     (if v \<noteq> JUndefined \<and> v \<noteq> JNull \<and> v \<noteq> JStr '''' then AList.update key v target else target)"

text \<open>
  The loop of \<^verbatim>\<open>getAdditionalFields\<close> over the entries: an entry with a truthy
  \<^verbatim>\<open>field\<close> assigns \<^verbatim>\<open>entry.value ?? ''\<close> under the field's name.
\<close>

fun additional_loop :: "jsvalue list \<Rightarrow> (string \<times> jsvalue) list \<Rightarrow> error + (string \<times> jsvalue) list" where
  "additional_loop [] additional = Inr additional"
| "additional_loop (entry # entries) additional =
     (case get_member entry ''field'' of
        Inl e \<Rightarrow> Inl e
      | Inr field \<Rightarrow>
          if truthy field
          then (let v = get_prop entry ''value'' in
                additional_loop entries
                  (AList.update (to_string field)
                     (if v = JUndefined \<or> v = JNull then JStr '''' else v) additional))
          else additional_loop entries additional)"

definition getAdditionalFields :: "execute_functions \<Rightarrow> string \<Rightarrow> nat \<Rightarrow> error + jsvalue" where
  "getAdditionalFields ex parameterName itemIndex =
     (case getNodeParameter ex parameterName itemIndex (JArr []) of
        JArr entries \<Rightarrow> map_sum id JObj (additional_loop entries [])
      | JStr s \<Rightarrow> Inr (JObj [])
      | _ \<Rightarrow> Inl TypeError)"

definition parseCsv :: "jsvalue \<Rightarrow> error + string list" where
  "parseCsv v =
     (if \<not> truthy v then Inr []
      else (case v of
              JStr s \<Rightarrow> Inr (filter (\<lambda>item. length item > 0) (map trim (split_on CHR '','' s)))
            | _ \<Rightarrow> Inl TypeError))"

text \<open>The statement \<^verbatim>\<open>if (c) { target.key = v; }\<close>.\<close>

definition assign_if :: "bool \<Rightarrow> (string \<times> jsvalue) list \<Rightarrow> string \<Rightarrow> jsvalue \<Rightarrow> (string \<times> jsvalue) list" where
  "assign_if c target key v = (if c then AList.update key v target else target)"

text \<open>\<^verbatim>\<open>xs.map(f)\<close> for an \<open>f\<close> that may throw: the first error ends the traversal.\<close>

fun map_result :: "('a \<Rightarrow> error + 'b) \<Rightarrow> 'a list \<Rightarrow> error + 'b list" where
  "map_result f [] = Inr []"
| "map_result f (x # xs) =
     (case f x of Inl e \<Rightarrow> Inl e
      | Inr y \<Rightarrow> (case map_result f xs of Inl e \<Rightarrow> Inl e | Inr ys \<Rightarrow> Inr (y # ys)))"

text \<open>\<^verbatim>\<open>(v.member ?? []).map(f)\<close>: only an array has \<^verbatim>\<open>map\<close>.\<close>

definition map_member :: "jsvalue \<Rightarrow> string \<Rightarrow> (jsvalue \<Rightarrow> error + jsvalue) \<Rightarrow> error + jsvalue list" where
  "map_member v member f =
     (case get_member v member of Inl e \<Rightarrow> Inl e
      | Inr m \<Rightarrow>
          (case (if m = JUndefined \<or> m = JNull then JArr [] else m) of
             JArr xs \<Rightarrow> map_result f xs
           | _ \<Rightarrow> Inl TypeError))"

section \<open>The request bodies of \<^verbatim>\<open>execute\<close>\<close>

text \<open>
  The callback of the \<^verbatim>\<open>accounts\<close> map of company import (lines 5937 to 5959).  The
  first member read throws on \<^verbatim>\<open>null\<close> and \<^verbatim>\<open>undefined\<close>; the later ones read the
  same value.
\<close>

definition companyImportAccount :: "jsvalue \<Rightarrow> error + jsvalue" where
  "companyImportAccount account =
     (case get_member account ''name'' of Inl e \<Rightarrow> Inl e | Inr name \<Rightarrow>
     (let accountData = [];
          accountData = addIfNotEmpty accountData ''Name'' name;
          accountData = addIfNotEmpty accountData ''Website'' (get_prop account ''website'');
          accountData = addIfNotEmpty accountData ''Industry'' (get_prop account ''industry'');
          accountData = addIfNotEmpty accountData ''Country'' (get_prop account ''country'');
          accountData = addIfNotEmpty accountData ''Phone'' (get_prop account ''phone'');
          accountData = addIfNotEmpty accountData ''AnnualRevenue'' (get_prop account ''annualRevenue'');
          accountData = addIfNotEmpty accountData ''Linkedin'' (get_prop account ''linkedin'');
          numberOfEmployees = get_prop account ''numberOfEmployees'';
          accountData = assign_if (truthy numberOfEmployees) accountData ''NumberOfEmployees'' numberOfEmployees;
          externalValues = get_prop account ''externalValues'';
          accountData = assign_if (truthy externalValues \<and> length (object_keys externalValues) \<noteq> 0)
                          accountData ''ExternalValues'' externalValues;
          listId = get_prop account ''listId'';
          accountData = assign_if (truthy listId) accountData ''ListId'' listId;
          accountData = addIfNotEmpty accountData ''Owner'' (get_prop account ''owner'')
      in Inr (JObj accountData)))"

definition companyImportAccounts_map :: "jsvalue \<Rightarrow> error + jsvalue list" where
  "companyImportAccounts_map accountsValue = map_member accountsValue ''account'' companyImportAccount"

text \<open>The callback of the \<^verbatim>\<open>prospects\<close> map of contact import (lines 6493 to 6533).\<close>

definition contactImportProspect :: "jsvalue \<Rightarrow> error + jsvalue" where
  "contactImportProspect prospect =
     (case get_member prospect ''firstName'' of Inl e \<Rightarrow> Inl e | Inr firstName \<Rightarrow>
     (let prospectData = [];
          prospectData = addIfNotEmpty prospectData ''FirstName'' firstName;
          prospectData = addIfNotEmpty prospectData ''LastName'' (get_prop prospect ''lastName'');
          prospectData = addIfNotEmpty prospectData ''Email'' (get_prop prospect ''email'');
          prospectData = addIfNotEmpty prospectData ''Phone'' (get_prop prospect ''phone'');
          prospectData = addIfNotEmpty prospectData ''MobilePhone'' (get_prop prospect ''mobilePhone'');
          prospectData = addIfNotEmpty prospectData ''Title'' (get_prop prospect ''title'');
          prospectData = addIfNotEmpty prospectData ''Location'' (get_prop prospect ''location'');
          prospectData = addIfNotEmpty prospectData ''Linkedin'' (get_prop prospect ''linkedin'');
          prospectData = addIfNotEmpty prospectData ''Company'' (get_prop prospect ''company'');
          prospectData = addIfNotEmpty prospectData ''CompanyWebsite'' (get_prop prospect ''companyWebsite'');
          prospectData = addIfNotEmpty prospectData ''CompanyLinkedin'' (get_prop prospect ''companyLinkedin'');
          prospectData = addIfNotEmpty prospectData ''CompanyCountry'' (get_prop prospect ''companyCountry'');
          prospectData = addIfNotEmpty prospectData ''CompanyIndustry'' (get_prop prospect ''companyIndustry'');
          prospectData = addIfNotEmpty prospectData ''CompanyAnnualRevenue'' (get_prop prospect ''companyAnnualRevenue'');
          companyNumberOfEmployees = get_prop prospect ''companyNumberOfEmployees'';
          prospectData = assign_if (truthy companyNumberOfEmployees) prospectData ''CompanyNumberOfEmployees'' companyNumberOfEmployees;
          externalValues = get_prop prospect ''externalValues'';
          prospectData = assign_if (truthy externalValues \<and> length (object_keys externalValues) \<noteq> 0)
                           prospectData ''ExternalValues'' externalValues;
          accountExternalValues = get_prop prospect ''accountExternalValues'';
          prospectData = assign_if (truthy accountExternalValues \<and> length (object_keys accountExternalValues) \<noteq> 0)
                           prospectData ''AccountExternalValues'' accountExternalValues;
          prospectData = addIfNotEmpty prospectData ''Owner'' (get_prop prospect ''owner'');
          prospectData = addIfNotEmpty prospectData ''SalesNavigatorUrl'' (get_prop prospect ''salesNavigatorUrl'');
          listId = get_prop prospect ''listId'';
          prospectData = assign_if (truthy listId) prospectData ''ListId'' listId;
          strategyId = get_prop prospect ''strategyId'';
          prospectData = assign_if (truthy strategyId) prospectData ''StrategyId'' strategyId
      in Inr (JObj prospectData)))"

definition contactImportProspects_map :: "jsvalue \<Rightarrow> error + jsvalue list" where
  "contactImportProspects_map prospectsValue = map_member prospectsValue ''prospect'' contactImportProspect"

text \<open>The structured fields for company, search (lines 5588 to 5769 of the source).\<close>

definition companySearchBody :: "execute_functions \<Rightarrow> nat \<Rightarrow> error + (string \<times> jsvalue) list" where
  "companySearchBody ex itemIndex =
     (let searchBody = [];
          searchBody = addIfNotEmpty searchBody ''Name'' (getNodeParameter ex ''companySearchName'' itemIndex (JStr ''''));
          status = getNodeParameter ex ''companySearchStatus'' itemIndex (JArr []) in
     (case get_member status ''length'' of Inl e \<Rightarrow> Inl e | Inr status_length \<Rightarrow>
     (let searchBody = assign_if (truthy status_length) searchBody ''Status'' status in
     (case getJsonParameter ex ''companySearchExternalProperties'' itemIndex (JObj []) of Inl e \<Rightarrow> Inl e | Inr externalProperties \<Rightarrow>
     (let searchBody = assign_if (length (object_keys externalProperties) \<noteq> 0) searchBody ''ExternalProperties'' externalProperties in
     (case getJsonParameter ex ''companySearchExternalPropertyNumericFilters'' itemIndex (JObj []) of Inl e \<Rightarrow> Inl e | Inr externalPropertyNumericFilters \<Rightarrow>
     (let searchBody = assign_if (length (object_keys externalPropertyNumericFilters) \<noteq> 0) searchBody ''ExternalPropertyNumericFilters'' externalPropertyNumericFilters in
     (case parseCsv (getNodeParameter ex ''companySearchExternalPropertyEmptyIds'' itemIndex (JStr '''')) of Inl e \<Rightarrow> Inl e | Inr externalPropertyEmptyIds \<Rightarrow>
     (let searchBody = assign_if (length externalPropertyEmptyIds \<noteq> 0) searchBody ''ExternalPropertyEmptyIds'' (JArr (map parseInt10 externalPropertyEmptyIds));
          searchBody = addIfNotEmpty searchBody ''Industry'' (getNodeParameter ex ''companySearchIndustry'' itemIndex (JStr ''''));
          searchBody = addIfNotEmpty searchBody ''Country'' (getNodeParameter ex ''companySearchCountry'' itemIndex (JStr ''''));
          numberOfEmployeesMin = getNodeParameter ex ''companySearchNumberOfEmployeesMin'' itemIndex (JNum 0);
          searchBody = assign_if (truthy numberOfEmployeesMin) searchBody ''NumberOfEmployeesMin'' numberOfEmployeesMin;
          numberOfEmployeesMax = getNodeParameter ex ''companySearchNumberOfEmployeesMax'' itemIndex (JNum 0);
          searchBody = assign_if (truthy numberOfEmployeesMax) searchBody ''NumberOfEmployeesMax'' numberOfEmployeesMax;
          searchBody = addIfNotEmpty searchBody ''CurrentSolution'' (getNodeParameter ex ''companySearchCurrentSolution'' itemIndex (JStr ''''));
          searchBody = addIfNotEmpty searchBody ''UserId'' (getNodeParameter ex ''companySearchUserId'' itemIndex (JStr ''''));
          searchBody = assign_if (truthy (getNodeParameter ex ''companySearchNoUser'' itemIndex (JBool False))) searchBody ''NoUser'' (JBool True);
          searchBody = addIfNotEmpty searchBody ''CreatedDateMin'' (getNodeParameter ex ''companySearchCreatedDateMin'' itemIndex (JStr ''''));
          searchBody = addIfNotEmpty searchBody ''CreatedDateMax'' (getNodeParameter ex ''companySearchCreatedDateMax'' itemIndex (JStr ''''));
          searchBody = addIfNotEmpty searchBody ''LastActivityDateMin'' (getNodeParameter ex ''companySearchLastActivityDateMin'' itemIndex (JStr ''''));
          searchBody = addIfNotEmpty searchBody ''LastActivityDateMax'' (getNodeParameter ex ''companySearchLastActivityDateMax'' itemIndex (JStr ''''));
          searchBody = addIfNotEmpty searchBody ''LastModifiedDateMin'' (getNodeParameter ex ''companySearchLastModifiedDateMin'' itemIndex (JStr ''''));
          searchBody = addIfNotEmpty searchBody ''LastModifiedDateMax'' (getNodeParameter ex ''companySearchLastModifiedDateMax'' itemIndex (JStr ''''));
          searchBody = assign_if (truthy (getNodeParameter ex ''companySearchHasLinkedin'' itemIndex (JBool False))) searchBody ''HasLinkedin'' (JBool True);
          searchBody = assign_if (truthy (getNodeParameter ex ''companySearchHasWebsite'' itemIndex (JBool False))) searchBody ''HasWebsite'' (JBool True);
          searchBody = assign_if (truthy (getNodeParameter ex ''companySearchHasPhone'' itemIndex (JBool False))) searchBody ''HasPhone'' (JBool True);
          searchBody = assign_if (truthy (getNodeParameter ex ''companySearchHasActivities'' itemIndex (JBool False))) searchBody ''HasActivities'' (JBool True);
          searchBody = assign_if (truthy (getNodeParameter ex ''companySearchHasReplies'' itemIndex (JBool False))) searchBody ''HasReplies'' (JBool True);
          searchBody = assign_if (truthy (getNodeParameter ex ''companySearchHasActiveTasks'' itemIndex (JBool False))) searchBody ''HasActiveTasks'' (JBool True);
          searchBody = assign_if (truthy (getNodeParameter ex ''companySearchHasEmailsOpened'' itemIndex (JBool False))) searchBody ''HasEmailsOpened'' (JBool True);
          searchBody = assign_if (truthy (getNodeParameter ex ''companySearchHasClickedLinks'' itemIndex (JBool False))) searchBody ''HasClickedLinks'' (JBool True);
          cleanEmptyName = getNodeParameter ex ''companySearchCleanEmptyName'' itemIndex (JBool True);
          searchBody = AList.update ''CleanEmptyName'' cleanEmptyName searchBody;
          searchBody = addIfNotEmpty searchBody ''Sort'' (getNodeParameter ex ''companySearchSort'' itemIndex (JStr ''''));
          includes = [];
          includes = assign_if (truthy (getNodeParameter ex ''companySearchIncludeExternalValuesNoTags'' itemIndex (JBool False))) includes ''WithExternalValuesNoTags'' (JBool True);
          includes = assign_if (truthy (getNodeParameter ex ''companySearchIncludeTags'' itemIndex (JBool False))) includes ''WithTags'' (JBool True);
          includes = assign_if (truthy (getNodeParameter ex ''companySearchIncludeTasks'' itemIndex (JBool False))) includes ''WithTasks'' (JBool True);
          searchBody = assign_if (length (object_keys (JObj includes)) \<noteq> 0) searchBody ''Includes'' (JObj includes);
          pagination = [];
          pagination = addIfNotEmpty pagination ''Limit'' (getNodeParameter ex ''companySearchLimit'' itemIndex (JNum 50));
          pagination = addIfNotEmpty pagination ''Offset'' (getNodeParameter ex ''companySearchOffset'' itemIndex (JNum 0));
          searchBody = assign_if (length (object_keys (JObj pagination)) \<noteq> 0) searchBody ''Pagination'' (JObj pagination) in
     (case getAdditionalFields ex ''searchAdditionalFields'' itemIndex of Inl e \<Rightarrow> Inl e | Inr additional \<Rightarrow>
     (let searchBody = object_assign searchBody additional in
     Inr searchBody)))))))))))"

text \<open>The structured fields for company, create (lines 5778 to 5851 of the source).\<close>

definition companyCreateData :: "execute_functions \<Rightarrow> nat \<Rightarrow> error + (string \<times> jsvalue) list" where
  "companyCreateData ex itemIndex =
     (let data = [];
          data = addIfNotEmpty data ''Name'' (getNodeParameter ex ''companyCreateName'' itemIndex (JStr ''''));
          numberOfEmployees = getNodeParameter ex ''companyCreateNumberOfEmployees'' itemIndex (JNum 0);
          data = assign_if (truthy numberOfEmployees) data ''NumberOfEmployees'' numberOfEmployees;
          data = addIfNotEmpty data ''AnnualRevenue'' (getNodeParameter ex ''companyCreateAnnualRevenue'' itemIndex (JStr ''''));
          data = addIfNotEmpty data ''Website'' (getNodeParameter ex ''companyCreateWebsite'' itemIndex (JStr ''''));
          data = addIfNotEmpty data ''Linkedin'' (getNodeParameter ex ''companyCreateLinkedin'' itemIndex (JStr ''''));
          data = addIfNotEmpty data ''LinkedinNumericId'' (getNodeParameter ex ''companyCreateLinkedinNumericId'' itemIndex (JStr ''''));
          data = addIfNotEmpty data ''Industry'' (getNodeParameter ex ''companyCreateIndustry'' itemIndex (JStr ''''));
          data = addIfNotEmpty data ''Country'' (getNodeParameter ex ''companyCreateCountry'' itemIndex (JStr ''''));
          data = addIfNotEmpty data ''Phone'' (getNodeParameter ex ''companyCreatePhone'' itemIndex (JStr ''''));
          data = assign_if (truthy (getNodeParameter ex ''companyCreateCreateInCrm'' itemIndex (JBool False))) data ''CreateInCrm'' (JBool True) in
     (case getJsonParameter ex ''companyCreateExternalValues'' itemIndex (JObj []) of Inl e \<Rightarrow> Inl e | Inr externalValues \<Rightarrow>
     (let data = assign_if (length (object_keys externalValues) \<noteq> 0) data ''ExternalValues'' externalValues;
          data = addIfNotEmpty data ''OwnerId'' (getNodeParameter ex ''companyCreateOwnerId'' itemIndex (JStr ''''));
          userId = getNodeParameter ex ''companyCreateUserId'' itemIndex (JNum 0);
          data = assign_if (truthy userId) data ''UserId'' userId;
          listId = getNodeParameter ex ''companyCreateListId'' itemIndex (JNum 0);
          data = assign_if (truthy listId) data ''ListId'' listId in
     (case getAdditionalFields ex ''dataAdditionalFields'' itemIndex of Inl e \<Rightarrow> Inl e | Inr additional \<Rightarrow>
     (let data = object_assign data additional in
     Inr data)))))"

text \<open>The structured fields for company, update (lines 5861 to 5922 of the source).\<close>

definition companyUpdateData :: "execute_functions \<Rightarrow> nat \<Rightarrow> error + (string \<times> jsvalue) list" where
  "companyUpdateData ex itemIndex =
     (let data = [];
          data = addIfNotEmpty data ''Name'' (getNodeParameter ex ''companyUpdateName'' itemIndex (JStr ''''));
          numberOfEmployees = getNodeParameter ex ''companyUpdateNumberOfEmployees'' itemIndex (JNum 0);
          data = assign_if (truthy numberOfEmployees) data ''NumberOfEmployees'' numberOfEmployees;
          data = addIfNotEmpty data ''AnnualRevenue'' (getNodeParameter ex ''companyUpdateAnnualRevenue'' itemIndex (JStr ''''));
          data = addIfNotEmpty data ''Website'' (getNodeParameter ex ''companyUpdateWebsite'' itemIndex (JStr ''''));
          data = addIfNotEmpty data ''Linkedin'' (getNodeParameter ex ''companyUpdateLinkedin'' itemIndex (JStr ''''));
          data = addIfNotEmpty data ''LinkedinNumericId'' (getNodeParameter ex ''companyUpdateLinkedinNumericId'' itemIndex (JStr ''''));
          data = addIfNotEmpty data ''Industry'' (getNodeParameter ex ''companyUpdateIndustry'' itemIndex (JStr ''''));
          data = addIfNotEmpty data ''Country'' (getNodeParameter ex ''companyUpdateCountry'' itemIndex (JStr ''''));
          data = addIfNotEmpty data ''Phone'' (getNodeParameter ex ''companyUpdatePhone'' itemIndex (JStr '''')) in
     (case getJsonParameter ex ''companyUpdateExternalValues'' itemIndex (JObj []) of Inl e \<Rightarrow> Inl e | Inr externalValues \<Rightarrow>
     (let data = assign_if (length (object_keys externalValues) \<noteq> 0) data ''ExternalValues'' externalValues;
          userId = getNodeParameter ex ''companyUpdateUserId'' itemIndex (JNum 0);
          data = assign_if (truthy userId) data ''UserId'' userId in
     (case getAdditionalFields ex ''dataAdditionalFields'' itemIndex of Inl e \<Rightarrow> Inl e | Inr additional \<Rightarrow>
     (let data = object_assign data additional in
     Inr data)))))"

text \<open>The structured fields for company, import (lines 5932 to 5989 of the source).\<close>

definition companyImportData :: "execute_functions \<Rightarrow> nat \<Rightarrow> error + (string \<times> jsvalue) list" where
  "companyImportData ex itemIndex =
     (let data = [];
          accountsValue = getNodeParameter ex ''companyImportAccounts'' itemIndex (JObj []) in
     (case companyImportAccounts_map accountsValue of Inl e \<Rightarrow> Inl e | Inr accounts \<Rightarrow>
     (let data = assign_if (length accounts \<noteq> 0) data ''Accounts'' (JArr accounts);
          data = addIfNotEmpty data ''ImportType'' (getNodeParameter ex ''companyImportType'' itemIndex (JStr ''''));
          data = addIfNotEmpty data ''FileName'' (getNodeParameter ex ''companyImportFileName'' itemIndex (JStr ''''));
          enrichCompany = getNodeParameter ex ''companyImportEnrichCompany'' itemIndex (JBool False);
          data = assign_if (truthy enrichCompany) data ''EnrichCompany'' (JBool True) in
     (case parseCsv (getNodeParameter ex ''companyImportAiExternalPropertyIds'' itemIndex (JStr '''')) of Inl e \<Rightarrow> Inl e | Inr aiExternalPropertyIds \<Rightarrow>
     (let data = assign_if (length aiExternalPropertyIds \<noteq> 0) data ''AiExternalPropertiesIdsToGenerate'' (JArr (map parseInt10 aiExternalPropertyIds)) in
     (case getAdditionalFields ex ''dataAdditionalFields'' itemIndex of Inl e \<Rightarrow> Inl e | Inr additional \<Rightarrow>
     (let data = object_assign data additional in
     Inr data)))))))"

text \<open>The structured fields for contact, search (lines 6012 to 6253 of the source).\<close>

definition contactSearchBody :: "execute_functions \<Rightarrow> nat \<Rightarrow> error + (string \<times> jsvalue) list" where
  "contactSearchBody ex itemIndex =
     (let searchBody = [];
          searchBody = addIfNotEmpty searchBody ''Name'' (getNodeParameter ex ''contactSearchName'' itemIndex (JStr ''''));
          searchBody = addIfNotEmpty searchBody ''Title'' (getNodeParameter ex ''contactSearchTitle'' itemIndex (JStr ''''));
          searchBody = addIfNotEmpty searchBody ''Country'' (getNodeParameter ex ''contactSearchCountry'' itemIndex (JStr '''')) in
     (case parseCsv (getNodeParameter ex ''contactSearchObjectIds'' itemIndex (JStr '''')) of Inl e \<Rightarrow> Inl e | Inr objectIds \<Rightarrow>
     (let searchBody = assign_if (length objectIds \<noteq> 0) searchBody ''ObjectIds'' (JArr (map JStr objectIds));
          userId = getNodeParameter ex ''contactSearchUserId'' itemIndex (JNum 0);
          searchBody = assign_if (truthy userId) searchBody ''UserId'' userId;
          searchBody = addIfNotEmpty searchBody ''Industry'' (getNodeParameter ex ''contactSearchIndustry'' itemIndex (JStr ''''));
          searchBody = addIfNotEmpty searchBody ''Location'' (getNodeParameter ex ''contactSearchLocation'' itemIndex (JStr ''''));
          actualStatus = getNodeParameter ex ''contactSearchActualStatus'' itemIndex (JArr []) in
     (case get_member actualStatus ''length'' of Inl e \<Rightarrow> Inl e | Inr actualStatus_length \<Rightarrow>
     (let searchBody = assign_if (truthy actualStatus_length) searchBody ''ActualStatus'' actualStatus;
          accountStatus = getNodeParameter ex ''contactSearchAccountStatus'' itemIndex (JArr []) in
     (case get_member accountStatus ''length'' of Inl e \<Rightarrow> Inl e | Inr accountStatus_length \<Rightarrow>
     (let searchBody = assign_if (truthy accountStatus_length) searchBody ''AccountStatus'' accountStatus in
     (case getJsonParameter ex ''contactSearchExternalProperties'' itemIndex (JObj []) of Inl e \<Rightarrow> Inl e | Inr externalProperties \<Rightarrow>
     (let searchBody = assign_if (length (object_keys externalProperties) \<noteq> 0) searchBody ''ExternalProperties'' externalProperties in
     (case getJsonParameter ex ''contactSearchExternalPropertyNumericFilters'' itemIndex (JObj []) of Inl e \<Rightarrow> Inl e | Inr externalPropertyNumericFilters \<Rightarrow>
     (let searchBody = assign_if (length (object_keys externalPropertyNumericFilters) \<noteq> 0) searchBody ''ExternalPropertyNumericFilters'' externalPropertyNumericFilters in
     (case parseCsv (getNodeParameter ex ''contactSearchExternalPropertyEmptyIds'' itemIndex (JStr '''')) of Inl e \<Rightarrow> Inl e | Inr externalPropertyEmptyIds \<Rightarrow>
     (let searchBody = assign_if (length externalPropertyEmptyIds \<noteq> 0) searchBody ''ExternalPropertyEmptyIds'' (JArr (map parseInt10 externalPropertyEmptyIds)) in
     (case getJsonParameter ex ''contactSearchAccountExternalProperties'' itemIndex (JObj []) of Inl e \<Rightarrow> Inl e | Inr accountExternalProperties \<Rightarrow>
     (let searchBody = assign_if (length (object_keys accountExternalProperties) \<noteq> 0) searchBody ''AccountExternalProperties'' accountExternalProperties in
     (case getJsonParameter ex ''contactSearchAccountExternalPropertyNumericFilters'' itemIndex (JObj []) of Inl e \<Rightarrow> Inl e | Inr accountExternalPropertyNumericFilters \<Rightarrow>
     (let searchBody = assign_if (length (object_keys accountExternalPropertyNumericFilters) \<noteq> 0) searchBody ''AccountExternalPropertyNumericFilters'' accountExternalPropertyNumericFilters in
     (case parseCsv (getNodeParameter ex ''contactSearchAccountExternalPropertyEmptyIds'' itemIndex (JStr '''')) of Inl e \<Rightarrow> Inl e | Inr accountExternalPropertyEmptyIds \<Rightarrow>
     (let searchBody = assign_if (length accountExternalPropertyEmptyIds \<noteq> 0) searchBody ''AccountExternalPropertyEmptyIds'' (JArr (map parseInt10 accountExternalPropertyEmptyIds));
          numberOfEmployeesMin = getNodeParameter ex ''contactSearchNumberOfEmployeesMin'' itemIndex (JNum 0);
          searchBody = assign_if (truthy numberOfEmployeesMin) searchBody ''NumberOfEmployeesMin'' numberOfEmployeesMin;
          numberOfEmployeesMax = getNodeParameter ex ''contactSearchNumberOfEmployeesMax'' itemIndex (JNum 0);
          searchBody = assign_if (truthy numberOfEmployeesMax) searchBody ''NumberOfEmployeesMax'' numberOfEmployeesMax;
          searchBody = addIfNotEmpty searchBody ''CurrentSolution'' (getNodeParameter ex ''contactSearchCurrentSolution'' itemIndex (JStr ''''));
          searchBody = assign_if (truthy (getNodeParameter ex ''contactSearchNoUser'' itemIndex (JBool False))) searchBody ''NoUser'' (JBool True);
          searchBody = assign_if (truthy (getNodeParameter ex ''contactSearchInSequence'' itemIndex (JBool False))) searchBody ''InSequence'' (JBool True);
          searchBody = addIfNotEmpty searchBody ''AccountId'' (getNodeParameter ex ''contactSearchAccountId'' itemIndex (JStr ''''));
          searchBody = addIfNotEmpty searchBody ''CreatedDateMin'' (getNodeParameter ex ''contactSearchCreatedDateMin'' itemIndex (JStr ''''));
          searchBody = addIfNotEmpty searchBody ''CreatedDateMax'' (getNodeParameter ex ''contactSearchCreatedDateMax'' itemIndex (JStr ''''));
          searchBody = addIfNotEmpty searchBody ''LastActivityDateMin'' (getNodeParameter ex ''contactSearchLastActivityDateMin'' itemIndex (JStr ''''));
          searchBody = addIfNotEmpty searchBody ''LastActivityDateMax'' (getNodeParameter ex ''contactSearchLastActivityDateMax'' itemIndex (JStr ''''));
          searchBody = addIfNotEmpty searchBody ''LastModifiedDateMin'' (getNodeParameter ex ''contactSearchLastModifiedDateMin'' itemIndex (JStr ''''));
          searchBody = addIfNotEmpty searchBody ''LastModifiedDateMax'' (getNodeParameter ex ''contactSearchLastModifiedDateMax'' itemIndex (JStr ''''));
          searchBody = addIfNotEmpty searchBody ''Sort'' (getNodeParameter ex ''contactSearchSort'' itemIndex (JStr ''''));
          searchBody = assign_if (truthy (getNodeParameter ex ''contactSearchIsPhoneValid'' itemIndex (JBool False))) searchBody ''IsPhoneValid'' (JBool True);
          verificationStatuses = getNodeParameter ex ''contactSearchVerificationStatuses'' itemIndex (JArr []) in
     (case get_member verificationStatuses ''length'' of Inl e \<Rightarrow> Inl e | Inr verificationStatuses_length \<Rightarrow>
     (let searchBody = assign_if (truthy verificationStatuses_length) searchBody ''VerificationStatuses'' verificationStatuses;
          searchBody = assign_if (truthy (getNodeParameter ex ''contactSearchFromContact'' itemIndex (JBool False))) searchBody ''FromContact'' (JBool True);
          searchBody = assign_if (truthy (getNodeParameter ex ''contactSearchHasLinkedin'' itemIndex (JBool False))) searchBody ''HasLinkedin'' (JBool True);
          searchBody = assign_if (truthy (getNodeParameter ex ''contactSearchHasEmail'' itemIndex (JBool False))) searchBody ''HasEmail'' (JBool True);
          searchBody = assign_if (truthy (getNodeParameter ex ''contactSearchHasPhone'' itemIndex (JBool False))) searchBody ''HasPhone'' (JBool True);
          searchBody = assign_if (truthy (getNodeParameter ex ''contactSearchHasMobilePhone'' itemIndex (JBool False))) searchBody ''HasMobilePhone'' (JBool True);
          searchBody = assign_if (truthy (getNodeParameter ex ''contactSearchHasActivities'' itemIndex (JBool False))) searchBody ''HasActivities'' (JBool True);
          searchBody = assign_if (truthy (getNodeParameter ex ''contactSearchHasReplies'' itemIndex (JBool False))) searchBody ''HasReplies'' (JBool True);
          searchBody = assign_if (truthy (getNodeParameter ex ''contactSearchHasEmailsOpened'' itemIndex (JBool False))) searchBody ''HasEmailsOpened'' (JBool True);
          searchBody = assign_if (truthy (getNodeParameter ex ''contactSearchHasConnectedCalls'' itemIndex (JBool False))) searchBody ''HasConnectedCalls'' (JBool True);
          searchBody = assign_if (truthy (getNodeParameter ex ''contactSearchHasClickedLinks'' itemIndex (JBool False))) searchBody ''HasClickedLinks'' (JBool True);
          searchBody = assign_if (truthy (getNodeParameter ex ''contactSearchHasActiveTasks'' itemIndex (JBool False))) searchBody ''HasActiveTasks'' (JBool True);
          searchBody = assign_if (truthy (getNodeParameter ex ''contactSearchOptedOut'' itemIndex (JBool False))) searchBody ''OptedOut'' (JBool True);
          pagination = [];
          pagination = addIfNotEmpty pagination ''Limit'' (getNodeParameter ex ''contactSearchLimit'' itemIndex (JNum 50));
          pagination = addIfNotEmpty pagination ''Offset'' (getNodeParameter ex ''contactSearchOffset'' itemIndex (JNum 0));
          searchBody = assign_if (length (object_keys (JObj pagination)) \<noteq> 0) searchBody ''Pagination'' (JObj pagination) in
     (case getAdditionalFields ex ''searchAdditionalFields'' itemIndex of Inl e \<Rightarrow> Inl e | Inr additional \<Rightarrow>
     (let searchBody = object_assign searchBody additional in
     Inr searchBody)))))))))))))))))))))))"

text \<open>The structured fields for contact, create (lines 6262 to 6410 of the source).\<close>

definition contactCreateData :: "execute_functions \<Rightarrow> nat \<Rightarrow> error + (string \<times> jsvalue) list" where
  "contactCreateData ex itemIndex =
     (let data = [];
          data = addIfNotEmpty data ''FirstName'' (getNodeParameter ex ''contactCreateFirstName'' itemIndex (JStr ''''));
          data = addIfNotEmpty data ''LastName'' (getNodeParameter ex ''contactCreateLastName'' itemIndex (JStr ''''));
          data = addIfNotEmpty data ''Phone'' (getNodeParameter ex ''contactCreatePhone'' itemIndex (JStr ''''));
          data = addIfNotEmpty data ''MobilePhone'' (getNodeParameter ex ''contactCreateMobilePhone'' itemIndex (JStr ''''));
          data = addIfNotEmpty data ''Email'' (getNodeParameter ex ''contactCreateEmail'' itemIndex (JStr ''''));
          data = addIfNotEmpty data ''Title'' (getNodeParameter ex ''contactCreateTitle'' itemIndex (JStr ''''));
          data = addIfNotEmpty data ''Location'' (getNodeParameter ex ''contactCreateLocation'' itemIndex (JStr ''''));
          data = addIfNotEmpty data ''Linkedin'' (getNodeParameter ex ''contactCreateLinkedin'' itemIndex (JStr ''''));
          data = addIfNotEmpty data ''LinkedinLeadId'' (getNodeParameter ex ''contactCreateLinkedinLeadId'' itemIndex (JStr ''''));
          data = addIfNotEmpty data ''G2PublicId'' (getNodeParameter ex ''contactCreateG2PublicId'' itemIndex (JStr ''''));
          data = addIfNotEmpty data ''Company'' (getNodeParameter ex ''contactCreateCompany'' itemIndex (JStr ''''));
          data = addIfNotEmpty data ''CompanyLinkedin'' (getNodeParameter ex ''contactCreateCompanyLinkedin'' itemIndex (JStr ''''));
          data = addIfNotEmpty data ''CompanyLinkedinNumericId'' (getNodeParameter ex ''contactCreateCompanyLinkedinNumericId'' itemIndex (JStr ''''));
          data = addIfNotEmpty data ''CompanyWebsite'' (getNodeParameter ex ''contactCreateCompanyWebsite'' itemIndex (JStr ''''));
          companyNumberOfEmployees = getNodeParameter ex ''contactCreateCompanyNumberOfEmployees'' itemIndex (JNum 0);
          data = assign_if (truthy companyNumberOfEmployees) data ''CompanyNumberOfEmployees'' companyNumberOfEmployees;
          data = addIfNotEmpty data ''CompanyIndustry'' (getNodeParameter ex ''contactCreateCompanyIndustry'' itemIndex (JStr ''''));
          data = addIfNotEmpty data ''CompanyCountry'' (getNodeParameter ex ''contactCreateCompanyCountry'' itemIndex (JStr ''''));
          data = addIfNotEmpty data ''CompanyAnnualRevenue'' (getNodeParameter ex ''contactCreateCompanyAnnualRevenue'' itemIndex (JStr ''''));
          data = addIfNotEmpty data ''AccountId'' (getNodeParameter ex ''contactCreateAccountId'' itemIndex (JStr ''''));
          data = assign_if (truthy (getNodeParameter ex ''contactCreateCreateAsLead'' itemIndex (JBool False))) data ''CreateAsLead'' (JBool True) in
     (case getJsonParameter ex ''contactCreateExternalValues'' itemIndex (JObj []) of Inl e \<Rightarrow> Inl e | Inr externalValues \<Rightarrow>
     (let data = assign_if (length (object_keys externalValues) \<noteq> 0) data ''ExternalValues'' externalValues;
          strategyId = getNodeParameter ex ''contactCreateStrategyId'' itemIndex (JNum 0);
          data = assign_if (truthy strategyId) data ''StrategyId'' strategyId in
     (case getJsonParameter ex ''contactCreateGenerateAiVariables'' itemIndex (JObj []) of Inl e \<Rightarrow> Inl e | Inr generateAiVariables \<Rightarrow>
     (let data = assign_if (length (object_keys generateAiVariables) \<noteq> 0) data ''GenerateAiVariables'' generateAiVariables;
          userId = getNodeParameter ex ''contactCreateUserId'' itemIndex (JNum 0);
          data = assign_if (truthy userId) data ''UserId'' userId;
          data = addIfNotEmpty data ''CountryCode'' (getNodeParameter ex ''contactCreateCountryCode'' itemIndex (JStr ''''));
          data = addIfNotEmpty data ''TimeZone'' (getNodeParameter ex ''contactCreateTimeZone'' itemIndex (JStr ''''));
          listId = getNodeParameter ex ''contactCreateListId'' itemIndex (JNum 0);
          data = assign_if (truthy listId) data ''ListId'' listId;
          data = assign_if (truthy (getNodeParameter ex ''contactCreateCreateInCrm'' itemIndex (JBool False))) data ''CreateInCrm'' (JBool True) in
     (case getAdditionalFields ex ''dataAdditionalFields'' itemIndex of Inl e \<Rightarrow> Inl e | Inr additional \<Rightarrow>
     (let data = object_assign data additional in
     Inr data)))))))"

text \<open>The structured fields for contact, update (lines 6420 to 6478 of the source).\<close>

definition contactUpdateData :: "execute_functions \<Rightarrow> nat \<Rightarrow> error + (string \<times> jsvalue) list" where
  "contactUpdateData ex itemIndex =
     (let data = [];
          data = addIfNotEmpty data ''FirstName'' (getNodeParameter ex ''contactUpdateFirstName'' itemIndex (JStr ''''));
          data = addIfNotEmpty data ''LastName'' (getNodeParameter ex ''contactUpdateLastName'' itemIndex (JStr ''''));
          data = addIfNotEmpty data ''Phone'' (getNodeParameter ex ''contactUpdatePhone'' itemIndex (JStr ''''));
          data = addIfNotEmpty data ''MobilePhone'' (getNodeParameter ex ''contactUpdateMobilePhone'' itemIndex (JStr ''''));
          data = addIfNotEmpty data ''Email'' (getNodeParameter ex ''contactUpdateEmail'' itemIndex (JStr ''''));
          data = addIfNotEmpty data ''Title'' (getNodeParameter ex ''contactUpdateTitle'' itemIndex (JStr ''''));
          data = addIfNotEmpty data ''Location'' (getNodeParameter ex ''contactUpdateLocation'' itemIndex (JStr ''''));
          data = addIfNotEmpty data ''Linkedin'' (getNodeParameter ex ''contactUpdateLinkedin'' itemIndex (JStr '''')) in
     (case getJsonParameter ex ''contactUpdateExternalValues'' itemIndex (JObj []) of Inl e \<Rightarrow> Inl e | Inr externalValues \<Rightarrow>
     (let data = assign_if (length (object_keys externalValues) \<noteq> 0) data ''ExternalValues'' externalValues;
          userId = getNodeParameter ex ''contactUpdateUserId'' itemIndex (JNum 0);
          data = assign_if (truthy userId) data ''UserId'' userId;
          data = addIfNotEmpty data ''CountryCode'' (getNodeParameter ex ''contactUpdateCountryCode'' itemIndex (JStr '''')) in
     (case getAdditionalFields ex ''dataAdditionalFields'' itemIndex of Inl e \<Rightarrow> Inl e | Inr additional \<Rightarrow>
     (let data = object_assign data additional in
     Inr data)))))"

text \<open>The structured fields for contact, import (lines 6488 to 6567 of the source).\<close>

definition contactImportData :: "execute_functions \<Rightarrow> nat \<Rightarrow> error + (string \<times> jsvalue) list" where
  "contactImportData ex itemIndex =
     (let data = [];
          prospectsValue = getNodeParameter ex ''contactImportProspects'' itemIndex (JObj []) in
     (case contactImportProspects_map prospectsValue of Inl e \<Rightarrow> Inl e | Inr prospects \<Rightarrow>
     (let data = assign_if (length prospects \<noteq> 0) data ''Prospects'' (JArr prospects);
          data = addIfNotEmpty data ''ImportType'' (getNodeParameter ex ''contactImportType'' itemIndex (JStr ''''));
          data = addIfNotEmpty data ''FileName'' (getNodeParameter ex ''contactImportFileName'' itemIndex (JStr ''''));
          data = assign_if (truthy (getNodeParameter ex ''contactImportFindEmail'' itemIndex (JBool False))) data ''FindEmail'' (JBool True);
          data = assign_if (truthy (getNodeParameter ex ''contactImportFindLinkedin'' itemIndex (JBool False))) data ''FindLinkedin'' (JBool True);
          data = assign_if (truthy (getNodeParameter ex ''contactImportFindPhone'' itemIndex (JBool False))) data ''FindPhone'' (JBool True);
          data = assign_if (truthy (getNodeParameter ex ''contactImportVerifyEmail'' itemIndex (JBool False))) data ''VerifyEmail'' (JBool True) in
     (case parseCsv (getNodeParameter ex ''contactImportAiExternalPropertyIds'' itemIndex (JStr '''')) of Inl e \<Rightarrow> Inl e | Inr aiExternalPropertyIds \<Rightarrow>
     (let data = assign_if (length aiExternalPropertyIds \<noteq> 0) data ''AiExternalPropertiesIdsToGenerate'' (JArr (map parseInt10 aiExternalPropertyIds)) in
     (case getAdditionalFields ex ''dataAdditionalFields'' itemIndex of Inl e \<Rightarrow> Inl e | Inr additional \<Rightarrow>
     (let data = object_assign data additional in
     Inr data)))))))"

text \<open>The structured fields for deal, search (lines 6590 to 6708 of the source).\<close>

definition dealSearchBody :: "execute_functions \<Rightarrow> nat \<Rightarrow> error + (string \<times> jsvalue) list" where
  "dealSearchBody ex itemIndex =
     (let searchBody = [];
          searchBody = addIfNotEmpty searchBody ''Name'' (getNodeParameter ex ''dealSearchName'' itemIndex (JStr ''''));
          searchBody = addIfNotEmpty searchBody ''AccountId'' (getNodeParameter ex ''dealSearchAccountId'' itemIndex (JStr ''''));
          searchBody = addIfNotEmpty searchBody ''UserId'' (getNodeParameter ex ''dealSearchUserId'' itemIndex (JStr ''''));
          searchBody = addIfNotEmpty searchBody ''Stage'' (getNodeParameter ex ''dealSearchStage'' itemIndex (JStr ''''));
          searchBody = addIfNotEmpty searchBody ''Pipeline'' (getNodeParameter ex ''dealSearchPipeline'' itemIndex (JStr '''')) in
     (case parseCsv (getNodeParameter ex ''dealSearchObjectIds'' itemIndex (JStr '''')) of Inl e \<Rightarrow> Inl e | Inr objectIds \<Rightarrow>
     (let searchBody = assign_if (length objectIds \<noteq> 0) searchBody ''ObjectIds'' (JArr (map JStr objectIds));
          pagination = [];
          pagination = addIfNotEmpty pagination ''Limit'' (getNodeParameter ex ''dealSearchLimit'' itemIndex (JNum 50));
          pagination = addIfNotEmpty pagination ''Offset'' (getNodeParameter ex ''dealSearchOffset'' itemIndex (JNum 0));
          searchBody = assign_if (length (object_keys (JObj pagination)) \<noteq> 0) searchBody ''Pagination'' (JObj pagination);
          searchBody = addIfNotEmpty searchBody ''CreatedDateMin'' (getNodeParameter ex ''dealSearchCreatedDateMin'' itemIndex (JStr ''''));
          searchBody = addIfNotEmpty searchBody ''CreatedDateMax'' (getNodeParameter ex ''dealSearchCreatedDateMax'' itemIndex (JStr ''''));
          searchBody = addIfNotEmpty searchBody ''LastModifiedDateMin'' (getNodeParameter ex ''dealSearchLastModifiedDateMin'' itemIndex (JStr ''''));
          searchBody = addIfNotEmpty searchBody ''LastModifiedDateMax'' (getNodeParameter ex ''dealSearchLastModifiedDateMax'' itemIndex (JStr ''''));
          searchBody = addIfNotEmpty searchBody ''CloseDateMin'' (getNodeParameter ex ''dealSearchCloseDateMin'' itemIndex (JStr ''''));
          searchBody = addIfNotEmpty searchBody ''CloseDateMax'' (getNodeParameter ex ''dealSearchCloseDateMax'' itemIndex (JStr ''''));
          searchBody = assign_if (truthy (getNodeParameter ex ''dealSearchIsWon'' itemIndex (JBool False))) searchBody ''IsWon'' (JBool True);
          searchBody = assign_if (truthy (getNodeParameter ex ''dealSearchIsClosed'' itemIndex (JBool False))) searchBody ''IsClosed'' (JBool True);
          amountMin = getNodeParameter ex ''dealSearchAmountMin'' itemIndex (JNum 0);
          searchBody = assign_if (truthy amountMin) searchBody ''AmountMin'' amountMin;
          amountMax = getNodeParameter ex ''dealSearchAmountMax'' itemIndex (JNum 0);
          searchBody = assign_if (truthy amountMax) searchBody ''AmountMax'' amountMax;
          searchBody = assign_if (truthy (getNodeParameter ex ''dealSearchActive'' itemIndex (JBool False))) searchBody ''Active'' (JBool True);
          year = getNodeParameter ex ''dealSearchYear'' itemIndex (JNum 0);
          searchBody = assign_if (truthy year) searchBody ''Year'' year in
     (case getJsonParameter ex ''dealSearchExternalProperties'' itemIndex (JObj []) of Inl e \<Rightarrow> Inl e | Inr externalProperties \<Rightarrow>
     (let searchBody = assign_if (length (object_keys externalProperties) \<noteq> 0) searchBody ''ExternalProperties'' externalProperties;
          searchBody = addIfNotEmpty searchBody ''Sort'' (getNodeParameter ex ''dealSearchSort'' itemIndex (JStr ''''));
          includes = [];
          includes = assign_if (truthy (getNodeParameter ex ''dealSearchIncludeAccount'' itemIndex (JBool False))) includes ''WithAccount'' (JBool True);
          searchBody = assign_if (length (object_keys (JObj includes)) \<noteq> 0) searchBody ''Includes'' (JObj includes) in
     (case getAdditionalFields ex ''searchAdditionalFields'' itemIndex of Inl e \<Rightarrow> Inl e | Inr additional \<Rightarrow>
     (let searchBody = object_assign searchBody additional in
     Inr searchBody)))))))"

text \<open>The structured fields for deal, create (lines 6717 to 6764 of the source).\<close>

definition dealCreateData :: "execute_functions \<Rightarrow> nat \<Rightarrow> error + (string \<times> jsvalue) list" where
  "dealCreateData ex itemIndex =
     (let data = [];
          data = addIfNotEmpty data ''AccountId'' (getNodeParameter ex ''dealCreateAccountId'' itemIndex (JStr ''''));
          data = addIfNotEmpty data ''Name'' (getNodeParameter ex ''dealCreateName'' itemIndex (JStr ''''));
          amount = getNodeParameter ex ''dealCreateAmount'' itemIndex (JNum 0);
          data = assign_if (truthy amount) data ''Amount'' amount;
          data = addIfNotEmpty data ''Stage'' (getNodeParameter ex ''dealCreateStage'' itemIndex (JStr ''''));
          data = addIfNotEmpty data ''Pipeline'' (getNodeParameter ex ''dealCreatePipeline'' itemIndex (JStr ''''));
          data = addIfNotEmpty data ''CloseDate'' (getNodeParameter ex ''dealCreateCloseDate'' itemIndex (JStr ''''));
          data = addIfNotEmpty data ''Description'' (getNodeParameter ex ''dealCreateDescription'' itemIndex (JStr '''')) in
     (case getJsonParameter ex ''dealCreateExternalValues'' itemIndex (JObj []) of Inl e \<Rightarrow> Inl e | Inr externalValues \<Rightarrow>
     (let data = assign_if (length (object_keys externalValues) \<noteq> 0) data ''ExternalValues'' externalValues;
          userId = getNodeParameter ex ''dealCreateUserId'' itemIndex (JNum 0);
          data = assign_if (truthy userId) data ''UserId'' userId in
     (case getAdditionalFields ex ''dataAdditionalFields'' itemIndex of Inl e \<Rightarrow> Inl e | Inr additional \<Rightarrow>
     (let data = object_assign data additional in
     Inr data)))))"

text \<open>The structured fields for deal, update (lines 6773 to 6826 of the source).\<close>

definition dealUpdateData :: "execute_functions \<Rightarrow> nat \<Rightarrow> error + (string \<times> jsvalue) list" where
  "dealUpdateData ex itemIndex =
     (let data = [];
          data = addIfNotEmpty data ''AccountId'' (getNodeParameter ex ''dealUpdateAccountId'' itemIndex (JStr ''''));
          data = addIfNotEmpty data ''OpportunityId'' (getNodeParameter ex ''dealUpdateOpportunityId'' itemIndex (JStr ''''));
          data = addIfNotEmpty data ''Name'' (getNodeParameter ex ''dealUpdateName'' itemIndex (JStr ''''));
          amount = getNodeParameter ex ''dealUpdateAmount'' itemIndex (JNum 0);
          data = assign_if (truthy amount) data ''Amount'' amount;
          data = addIfNotEmpty data ''Stage'' (getNodeParameter ex ''dealUpdateStage'' itemIndex (JStr ''''));
          data = addIfNotEmpty data ''CloseDate'' (getNodeParameter ex ''dealUpdateCloseDate'' itemIndex (JStr ''''));
          data = addIfNotEmpty data ''Description'' (getNodeParameter ex ''dealUpdateDescription'' itemIndex (JStr ''''));
          data = assign_if (truthy (getNodeParameter ex ''dealUpdateIsClosed'' itemIndex (JBool False))) data ''IsClosed'' (JBool True);
          data = assign_if (truthy (getNodeParameter ex ''dealUpdateIsWon'' itemIndex (JBool False))) data ''IsWon'' (JBool True) in
     (case getJsonParameter ex ''dealUpdateExternalValues'' itemIndex (JObj []) of Inl e \<Rightarrow> Inl e | Inr externalValues \<Rightarrow>
     (let data = assign_if (length (object_keys externalValues) \<noteq> 0) data ''ExternalValues'' externalValues;
          userId = getNodeParameter ex ''dealUpdateUserId'' itemIndex (JNum 0);
          data = assign_if (truthy userId) data ''UserId'' userId in
     (case getAdditionalFields ex ''dataAdditionalFields'' itemIndex of Inl e \<Rightarrow> Inl e | Inr additional \<Rightarrow>
     (let data = object_assign data additional in
     Inr data)))))"

text \<open>The structured fields for note, search (lines 6849 to 6926 of the source).\<close>

definition noteSearchBody :: "execute_functions \<Rightarrow> nat \<Rightarrow> error + (string \<times> jsvalue) list" where
  "noteSearchBody ex itemIndex =
     (let searchBody = [];
          searchBody = addIfNotEmpty searchBody ''DescriptionContains'' (getNodeParameter ex ''noteSearchDescriptionContains'' itemIndex (JStr ''''));
          searchBody = addIfNotEmpty searchBody ''AccountId'' (getNodeParameter ex ''noteSearchAccountId'' itemIndex (JStr ''''));
          searchBody = addIfNotEmpty searchBody ''OpportunityId'' (getNodeParameter ex ''noteSearchOpportunityId'' itemIndex (JStr ''''));
          searchBody = addIfNotEmpty searchBody ''UserId'' (getNodeParameter ex ''noteSearchUserId'' itemIndex (JStr '''')) in
     (case parseCsv (getNodeParameter ex ''noteSearchObjectIds'' itemIndex (JStr '''')) of Inl e \<Rightarrow> Inl e | Inr objectIds \<Rightarrow>
     (let searchBody = assign_if (length objectIds \<noteq> 0) searchBody ''ObjectIds'' (JArr (map JStr objectIds));
          pagination = [];
          pagination = addIfNotEmpty pagination ''Limit'' (getNodeParameter ex ''noteSearchLimit'' itemIndex (JNum 50));
          pagination = addIfNotEmpty pagination ''Offset'' (getNodeParameter ex ''noteSearchOffset'' itemIndex (JNum 0));
          searchBody = assign_if (length (object_keys (JObj pagination)) \<noteq> 0) searchBody ''Pagination'' (JObj pagination);
          searchBody = addIfNotEmpty searchBody ''CreatedDateMin'' (getNodeParameter ex ''noteSearchCreatedDateMin'' itemIndex (JStr ''''));
          searchBody = addIfNotEmpty searchBody ''CreatedDateMax'' (getNodeParameter ex ''noteSearchCreatedDateMax'' itemIndex (JStr ''''));
          searchBody = addIfNotEmpty searchBody ''LastModifiedDateMin'' (getNodeParameter ex ''noteSearchLastModifiedDateMin'' itemIndex (JStr ''''));
          searchBody = addIfNotEmpty searchBody ''LastModifiedDateMax'' (getNodeParameter ex ''noteSearchLastModifiedDateMax'' itemIndex (JStr ''''));
          searchBody = assign_if (truthy (getNodeParameter ex ''noteSearchActive'' itemIndex (JBool False))) searchBody ''Active'' (JBool True);
          includes = [];
          includes = assign_if (truthy (getNodeParameter ex ''noteSearchIncludeAccount'' itemIndex (JBool False))) includes ''WithAccount'' (JBool True);
          includes = assign_if (truthy (getNodeParameter ex ''noteSearchIncludeOpportunity'' itemIndex (JBool False))) includes ''WithOpportunity'' (JBool True);
          includes = assign_if (truthy (getNodeParameter ex ''noteSearchIncludeProspects'' itemIndex (JBool False))) includes ''WithProspects'' (JBool True);
          searchBody = assign_if (length (object_keys (JObj includes)) \<noteq> 0) searchBody ''Includes'' (JObj includes) in
     (case getAdditionalFields ex ''searchAdditionalFields'' itemIndex of Inl e \<Rightarrow> Inl e | Inr additional \<Rightarrow>
     (let searchBody = object_assign searchBody additional in
     Inr searchBody)))))"

text \<open>The structured fields for note, create (lines 6935 to 6956 of the source).\<close>

definition noteCreateData :: "execute_functions \<Rightarrow> nat \<Rightarrow> error + (string \<times> jsvalue) list" where
  "noteCreateData ex itemIndex =
     (let data = [];
          data = addIfNotEmpty data ''Description'' (getNodeParameter ex ''noteCreateDescription'' itemIndex (JStr ''''));
          data = addIfNotEmpty data ''AccountId'' (getNodeParameter ex ''noteCreateAccountId'' itemIndex (JStr ''''));
          data = addIfNotEmpty data ''OpportunityId'' (getNodeParameter ex ''noteCreateOpportunityId'' itemIndex (JStr '''')) in
     (case parseCsv (getNodeParameter ex ''noteCreateProspectIds'' itemIndex (JStr '''')) of Inl e \<Rightarrow> Inl e | Inr prospectIds \<Rightarrow>
     (let data = assign_if (length prospectIds \<noteq> 0) data ''ProspectIds'' (JArr (map JStr prospectIds)) in
     (case getAdditionalFields ex ''dataAdditionalFields'' itemIndex of Inl e \<Rightarrow> Inl e | Inr additional \<Rightarrow>
     (let data = object_assign data additional in
     Inr data)))))"

text \<open>The structured fields for task, search (lines 6976 to 7107 of the source).\<close>

definition taskSearchBody :: "execute_functions \<Rightarrow> nat \<Rightarrow> error + (string \<times> jsvalue) list" where
  "taskSearchBody ex itemIndex =
     (let searchBody = [];
          limit = getNodeParameter ex ''taskSearchLimit'' itemIndex (JNum 50);
          offset = getNodeParameter ex ''taskSearchOffset'' itemIndex (JNum 0);
          searchBody = AList.update ''Limit'' limit searchBody;
          searchBody = AList.update ''Offset'' offset searchBody;
          searchBody = addIfNotEmpty searchBody ''Date'' (getNodeParameter ex ''taskSearchDate'' itemIndex (JStr ''''));
          searchBody = addIfNotEmpty searchBody ''ProspectId'' (getNodeParameter ex ''taskSearchProspectId'' itemIndex (JStr ''''));
          searchBody = addIfNotEmpty searchBody ''OpportunityId'' (getNodeParameter ex ''taskSearchOpportunityId'' itemIndex (JStr ''''));
          searchBody = assign_if (truthy (getNodeParameter ex ''taskSearchCompleted'' itemIndex (JBool False))) searchBody ''Completed'' (JBool True);
          searchBody = addIfNotEmpty searchBody ''Type'' (getNodeParameter ex ''taskSearchType'' itemIndex (JStr ''''));
          searchBody = addIfNotEmpty searchBody ''Subtype'' (getNodeParameter ex ''taskSearchSubtype'' itemIndex (JStr ''''));
          types = getNodeParameter ex ''taskSearchTypes'' itemIndex (JArr []) in
     (case get_member types ''length'' of Inl e \<Rightarrow> Inl e | Inr types_length \<Rightarrow>
     (let searchBody = assign_if (truthy types_length) searchBody ''Types'' types;
          searchBody = addIfNotEmpty searchBody ''Since'' (getNodeParameter ex ''taskSearchSince'' itemIndex (JStr ''''));
          searchBody = addIfNotEmpty searchBody ''To'' (getNodeParameter ex ''taskSearchTo'' itemIndex (JStr ''''));
          searchBody = assign_if (truthy (getNodeParameter ex ''taskSearchAutomatic'' itemIndex (JBool False))) searchBody ''Automatic'' (JBool True);
          searchBody = assign_if (truthy (getNodeParameter ex ''taskSearchHasAutomationError'' itemIndex (JBool False))) searchBody ''HasAutomationError'' (JBool True);
          searchBody = assign_if (truthy (getNodeParameter ex ''taskSearchHasOpportunity'' itemIndex (JBool False))) searchBody ''HasOpportunity'' (JBool True);
          searchBody = assign_if (truthy (getNodeParameter ex ''taskSearchFromSequence'' itemIndex (JBool False))) searchBody ''FromSequence'' (JBool True);
          searchBody = assign_if (truthy (getNodeParameter ex ''taskSearchFromCrm'' itemIndex (JBool False))) searchBody ''FromCrm'' (JBool True);
          searchBody = addIfNotEmpty searchBody ''AccountId'' (getNodeParameter ex ''taskSearchAccountId'' itemIndex (JStr ''''));
          prospectListId = getNodeParameter ex ''taskSearchProspectListId'' itemIndex (JNum 0);
          searchBody = assign_if (truthy prospectListId) searchBody ''ProspectListId'' prospectListId;
          leadListId = getNodeParameter ex ''taskSearchLeadListId'' itemIndex (JNum 0);
          searchBody = assign_if (truthy leadListId) searchBody ''LeadListId'' leadListId;
          accountListId = getNodeParameter ex ''taskSearchAccountListId'' itemIndex (JNum 0);
          searchBody = assign_if (truthy accountListId) searchBody ''AccountListId'' accountListId;
          strategyId = getNodeParameter ex ''taskSearchStrategyId'' itemIndex (JNum 0);
          searchBody = assign_if (truthy strategyId) searchBody ''StrategyId'' strategyId;
          searchBody = addIfNotEmpty searchBody ''SortBy'' (getNodeParameter ex ''taskSearchSortBy'' itemIndex (JStr '''')) in
     (case getJsonParameter ex ''taskSearchAccountExternalProperties'' itemIndex (JObj []) of Inl e \<Rightarrow> Inl e | Inr accountExternalProperties \<Rightarrow>
     (let searchBody = assign_if (length (object_keys accountExternalProperties) \<noteq> 0) searchBody ''AccountExternalProperties'' accountExternalProperties in
     (case getJsonParameter ex ''taskSearchProspectExternalProperties'' itemIndex (JObj []) of Inl e \<Rightarrow> Inl e | Inr prospectExternalProperties \<Rightarrow>
     (let searchBody = assign_if (length (object_keys prospectExternalProperties) \<noteq> 0) searchBody ''ProspectExternalProperties'' prospectExternalProperties in
     (case getJsonParameter ex ''taskSearchLeadExternalProperties'' itemIndex (JObj []) of Inl e \<Rightarrow> Inl e | Inr leadExternalProperties \<Rightarrow>
     (let searchBody = assign_if (length (object_keys leadExternalProperties) \<noteq> 0) searchBody ''LeadExternalProperties'' leadExternalProperties in
     (case getAdditionalFields ex ''searchAdditionalFields'' itemIndex of Inl e \<Rightarrow> Inl e | Inr additional \<Rightarrow>
     (let searchBody = object_assign searchBody additional in
     Inr searchBody)))))))))))"

text \<open>The structured fields for task, create (lines 7116 to 7173 of the source).\<close>

definition taskCreateData :: "execute_functions \<Rightarrow> nat \<Rightarrow> error + (string \<times> jsvalue) list" where
  "taskCreateData ex itemIndex =
     (let data = [];
          data = addIfNotEmpty data ''AccountId'' (getNodeParameter ex ''taskCreateAccountId'' itemIndex (JStr ''''));
          data = addIfNotEmpty data ''ProspectId'' (getNodeParameter ex ''taskCreateProspectId'' itemIndex (JStr ''''));
          data = addIfNotEmpty data ''Type'' (getNodeParameter ex ''taskCreateType'' itemIndex (JStr ''''));
          data = addIfNotEmpty data ''Subtype'' (getNodeParameter ex ''taskCreateSubtype'' itemIndex (JStr ''''));
          data = addIfNotEmpty data ''ActivityDate'' (getNodeParameter ex ''taskCreateActivityDate'' itemIndex (JStr ''''));
          templateId = getNodeParameter ex ''taskCreateTemplateId'' itemIndex (JNum 0);
          data = assign_if (truthy templateId) data ''TemplateId'' templateId;
          data = assign_if (truthy (getNodeParameter ex ''taskCreateAutomatic'' itemIndex (JBool False))) data ''Automatic'' (JBool True);
          data = addIfNotEmpty data ''OpportunityId'' (getNodeParameter ex ''taskCreateOpportunityId'' itemIndex (JStr ''''));
          data = addIfNotEmpty data ''Subject'' (getNodeParameter ex ''taskCreateSubject'' itemIndex (JStr ''''));
          data = addIfNotEmpty data ''Description'' (getNodeParameter ex ''taskCreateDescription'' itemIndex (JStr ''''));
          data = addIfNotEmpty data ''PersonalizedSubject'' (getNodeParameter ex ''taskCreatePersonalizedSubject'' itemIndex (JStr ''''));
          data = addIfNotEmpty data ''PersonalizedContent'' (getNodeParameter ex ''taskCreatePersonalizedContent'' itemIndex (JStr '''')) in
     (case getAdditionalFields ex ''dataAdditionalFields'' itemIndex of Inl e \<Rightarrow> Inl e | Inr additional \<Rightarrow>
     (let data = object_assign data additional in
     Inr data)))"

text \<open>The structured fields for activity, search (lines 7196 to 7326 of the source).\<close>

definition activitySearchBody :: "execute_functions \<Rightarrow> nat \<Rightarrow> error + (string \<times> jsvalue) list" where
  "activitySearchBody ex itemIndex =
     (let searchBody = [];
          searchBody = addIfNotEmpty searchBody ''Subject'' (getNodeParameter ex ''activitySearchSubject'' itemIndex (JStr ''''));
          searchBody = addIfNotEmpty searchBody ''AccountId'' (getNodeParameter ex ''activitySearchAccountId'' itemIndex (JStr ''''));
          searchBody = addIfNotEmpty searchBody ''ProspectId'' (getNodeParameter ex ''activitySearchProspectId'' itemIndex (JStr ''''));
          searchBody = addIfNotEmpty searchBody ''OpportunityId'' (getNodeParameter ex ''activitySearchOpportunityId'' itemIndex (JStr ''''));
          searchBody = addIfNotEmpty searchBody ''UserId'' (getNodeParameter ex ''activitySearchUserId'' itemIndex (JStr ''''));
          searchBody = addIfNotEmpty searchBody ''ObjectId'' (getNodeParameter ex ''activitySearchObjectId'' itemIndex (JStr ''''));
          pagination = [];
          pagination = addIfNotEmpty pagination ''Limit'' (getNodeParameter ex ''activitySearchLimit'' itemIndex (JNum 50));
          pagination = addIfNotEmpty pagination ''Offset'' (getNodeParameter ex ''activitySearchOffset'' itemIndex (JNum 0));
          searchBody = assign_if (length (object_keys (JObj pagination)) \<noteq> 0) searchBody ''Pagination'' (JObj pagination);
          searchBody = addIfNotEmpty searchBody ''CreatedDateMin'' (getNodeParameter ex ''activitySearchCreatedDateMin'' itemIndex (JStr ''''));
          searchBody = addIfNotEmpty searchBody ''CreatedDateMax'' (getNodeParameter ex ''activitySearchCreatedDateMax'' itemIndex (JStr ''''));
          searchBody = addIfNotEmpty searchBody ''LastModifiedDateMin'' (getNodeParameter ex ''activitySearchLastModifiedDateMin'' itemIndex (JStr ''''));
          searchBody = addIfNotEmpty searchBody ''LastModifiedDateMax'' (getNodeParameter ex ''activitySearchLastModifiedDateMax'' itemIndex (JStr ''''));
          searchBody = addIfNotEmpty searchBody ''ActivityDateMin'' (getNodeParameter ex ''activitySearchActivityDateMin'' itemIndex (JStr ''''));
          searchBody = addIfNotEmpty searchBody ''ActivityDateMax'' (getNodeParameter ex ''activitySearchActivityDateMax'' itemIndex (JStr ''''));
          searchBody = addIfNotEmpty searchBody ''FirstAnswerDatetimeMin'' (getNodeParameter ex ''activitySearchFirstAnswerDatetimeMin'' itemIndex (JStr ''''));
          searchBody = addIfNotEmpty searchBody ''FirstAnswerDatetimeMax'' (getNodeParameter ex ''activitySearchFirstAnswerDatetimeMax'' itemIndex (JStr ''''));
          searchBody = addIfNotEmpty searchBody ''FirstTrackDatetimeMin'' (getNodeParameter ex ''activitySearchFirstTrackDatetimeMin'' itemIndex (JStr ''''));
          searchBody = addIfNotEmpty searchBody ''FirstTrackDatetimeMax'' (getNodeParameter ex ''activitySearchFirstTrackDatetimeMax'' itemIndex (JStr ''''));
          searchBody = addIfNotEmpty searchBody ''TaskSubtype'' (getNodeParameter ex ''activitySearchTaskSubtype'' itemIndex (JStr ''''));
          cronoObjectId = getNodeParameter ex ''activitySearchCronoObjectId'' itemIndex (JNum 0);
          searchBody = assign_if (truthy cronoObjectId) searchBody ''CronoObjectId'' cronoObjectId;
          includes = [];
          includes = assign_if (truthy (getNodeParameter ex ''activitySearchIncludeAccount'' itemIndex (JBool False))) includes ''WithAccount'' (JBool True);
          includes = assign_if (truthy (getNodeParameter ex ''activitySearchIncludeProspect'' itemIndex (JBool False))) includes ''WithProspect'' (JBool True);
          includes = assign_if (truthy (getNodeParameter ex ''activitySearchIncludeEmailLog'' itemIndex (JBool False))) includes ''WithEmailLog'' (JBool True);
          includes = assign_if (truthy (getNodeParameter ex ''activitySearchIncludeCallLog'' itemIndex (JBool False))) includes ''WithCallLog'' (JBool True);
          includes = assign_if (truthy (getNodeParameter ex ''activitySearchIncludeLinkedinLog'' itemIndex (JBool False))) includes ''WithLinkedinLog'' (JBool True);
          includes = assign_if (truthy (getNodeParameter ex ''activitySearchIncludeOpportunity'' itemIndex (JBool False))) includes ''WithOpportunity'' (JBool True);
          searchBody = assign_if (length (object_keys (JObj includes)) \<noteq> 0) searchBody ''Include'' (JObj includes) in
     (case getAdditionalFields ex ''searchAdditionalFields'' itemIndex of Inl e \<Rightarrow> Inl e | Inr additional \<Rightarrow>
     (let searchBody = object_assign searchBody additional in
     Inr searchBody)))"

text \<open>The structured fields for list (lines 7338 to 7386 of the source).\<close>

definition listSearchBody :: "execute_functions \<Rightarrow> nat \<Rightarrow> error + (string \<times> jsvalue) list" where
  "listSearchBody ex itemIndex =
     (let searchBody = [];
          searchBody = addIfNotEmpty searchBody ''Name'' (getNodeParameter ex ''listSearchName'' itemIndex (JStr ''''));
          searchBody = addIfNotEmpty searchBody ''AccountId'' (getNodeParameter ex ''listSearchAccountId'' itemIndex (JStr ''''));
          searchBody = addIfNotEmpty searchBody ''ProspectId'' (getNodeParameter ex ''listSearchProspectId'' itemIndex (JStr ''''));
          strategyId = getNodeParameter ex ''listSearchStrategyId'' itemIndex (JNum 0);
          searchBody = assign_if (truthy strategyId) searchBody ''StrategyId'' strategyId;
          templateId = getNodeParameter ex ''listSearchTemplateId'' itemIndex (JNum 0);
          searchBody = assign_if (truthy templateId) searchBody ''TemplateId'' templateId;
          pagination = [];
          pagination = addIfNotEmpty pagination ''Limit'' (getNodeParameter ex ''listSearchLimit'' itemIndex (JNum 50));
          pagination = addIfNotEmpty pagination ''Offset'' (getNodeParameter ex ''listSearchOffset'' itemIndex (JNum 0));
          searchBody = assign_if (length (object_keys (JObj pagination)) \<noteq> 0) searchBody ''Pagination'' (JObj pagination);
          searchBody = addIfNotEmpty searchBody ''Type'' (getNodeParameter ex ''listSearchType'' itemIndex (JStr ''Account''));
          searchBody = addIfNotEmpty searchBody ''SortType'' (getNodeParameter ex ''listSearchSortType'' itemIndex (JStr '''')) in
     (case getAdditionalFields ex ''searchAdditionalFields'' itemIndex of Inl e \<Rightarrow> Inl e | Inr additional \<Rightarrow>
     (let searchBody = object_assign searchBody additional in
     Inr searchBody)))"

text \<open>The structured fields for strategy, searchDetails (lines 7402 to 7452 of the source).\<close>

definition strategyDetailsBody :: "execute_functions \<Rightarrow> nat \<Rightarrow> error + (string \<times> jsvalue) list" where
  "strategyDetailsBody ex itemIndex =
     (let searchBody = [];
          strategyId = getNodeParameter ex ''strategyDetailsStrategyId'' itemIndex (JNum 0);
          searchBody = AList.update ''StrategyId'' strategyId searchBody;
          searchBody = addIfNotEmpty searchBody ''Text'' (getNodeParameter ex ''strategyDetailsText'' itemIndex (JStr ''''));
          pagination = [];
          pagination = addIfNotEmpty pagination ''Limit'' (getNodeParameter ex ''strategyDetailsLimit'' itemIndex (JNum 50));
          pagination = addIfNotEmpty pagination ''Offset'' (getNodeParameter ex ''strategyDetailsOffset'' itemIndex (JNum 0));
          searchBody = assign_if (length (object_keys (JObj pagination)) \<noteq> 0) searchBody ''Pagination'' (JObj pagination);
          searchBody = addIfNotEmpty searchBody ''Sort'' (getNodeParameter ex ''strategyDetailsSort'' itemIndex (JStr ''ContactsAsc''));
          searchBody = addIfNotEmpty searchBody ''Status'' (getNodeParameter ex ''strategyDetailsStatus'' itemIndex (JStr ''''));
          onlySpecificTask = getNodeParameter ex ''strategyDetailsOnlySpecificTask'' itemIndex (JArr []) in
     (case get_member onlySpecificTask ''length'' of Inl e \<Rightarrow> Inl e | Inr onlySpecificTask_length \<Rightarrow>
     (let searchBody = assign_if (truthy onlySpecificTask_length) searchBody ''OnlySpecificTask'' onlySpecificTask;
          searchBody = assign_if (truthy (getNodeParameter ex ''strategyDetailsOnlyMySequences'' itemIndex (JBool False))) searchBody ''OnlyMySequences'' (JBool True);
          searchBody = assign_if (truthy (getNodeParameter ex ''strategyDetailsOnlyMyProspects'' itemIndex (JBool False))) searchBody ''OnlyMyProspects'' (JBool True) in
     (case getAdditionalFields ex ''searchAdditionalFields'' itemIndex of Inl e \<Rightarrow> Inl e | Inr additional \<Rightarrow>
     (let searchBody = object_assign searchBody additional in
     Inr searchBody)))))"

text \<open>The structured fields for strategy, any other operation (lines 7455 to 7532 of the source).\<close>

definition strategySearchBody :: "execute_functions \<Rightarrow> nat \<Rightarrow> error + (string \<times> jsvalue) list" where
  "strategySearchBody ex itemIndex =
     (let searchBody = [];
          searchBody = addIfNotEmpty searchBody ''Name'' (getNodeParameter ex ''strategySearchName'' itemIndex (JStr ''''));
          searchBody = addIfNotEmpty searchBody ''AccountId'' (getNodeParameter ex ''strategySearchAccountId'' itemIndex (JStr ''''));
          searchBody = addIfNotEmpty searchBody ''ProspectId'' (getNodeParameter ex ''strategySearchProspectId'' itemIndex (JStr ''''));
          searchBody = addIfNotEmpty searchBody ''UserId'' (getNodeParameter ex ''strategySearchUserId'' itemIndex (JStr '''')) in
     (case parseCsv (getNodeParameter ex ''strategySearchIds'' itemIndex (JStr '''')) of Inl e \<Rightarrow> Inl e | Inr ids \<Rightarrow>
     (let searchBody = assign_if (length ids \<noteq> 0) searchBody ''Ids'' (JArr (map JStr ids));
          pagination = [];
          pagination = addIfNotEmpty pagination ''Limit'' (getNodeParameter ex ''strategySearchLimit'' itemIndex (JNum 50));
          pagination = addIfNotEmpty pagination ''Offset'' (getNodeParameter ex ''strategySearchOffset'' itemIndex (JNum 0));
          searchBody = assign_if (length (object_keys (JObj pagination)) \<noteq> 0) searchBody ''Pagination'' (JObj pagination);
          searchBody = addIfNotEmpty searchBody ''Sort'' (getNodeParameter ex ''strategySearchSort'' itemIndex (JStr '''')) in
     (case getJsonParameter ex ''strategySearchTags'' itemIndex (JObj []) of Inl e \<Rightarrow> Inl e | Inr strategyTags \<Rightarrow>
     (let searchBody = assign_if (length (object_keys strategyTags) \<noteq> 0) searchBody ''StrategyTags'' strategyTags;
          includeOptions = [];
          includeOptions = assign_if (truthy (getNodeParameter ex ''strategySearchIncludeActiveSequenceInstances'' itemIndex (JBool False))) includeOptions ''WithActiveSequenceInstances'' (JBool True);
          includeOptions = assign_if (truthy (getNodeParameter ex ''strategySearchIncludeAnalytics'' itemIndex (JBool False))) includeOptions ''WithAnalytics'' (JBool True);
          includeOptions = assign_if (truthy (getNodeParameter ex ''strategySearchIncludeSequence'' itemIndex (JBool False))) includeOptions ''WithSequence'' (JBool True);
          includeOptions = assign_if (truthy (getNodeParameter ex ''strategySearchIncludeUsers'' itemIndex (JBool False))) includeOptions ''WithUsers'' (JBool True);
          searchBody = assign_if (length (object_keys (JObj includeOptions)) \<noteq> 0) searchBody ''IncludeOptions'' (JObj includeOptions) in
     (case getAdditionalFields ex ''searchAdditionalFields'' itemIndex of Inl e \<Rightarrow> Inl e | Inr additional \<Rightarrow>
     (let searchBody = object_assign searchBody additional in
     Inr searchBody)))))))"

text \<open>The structured fields for externalProperty (lines 7543 to 7570 of the source).\<close>

definition externalPropertySearchBody :: "execute_functions \<Rightarrow> nat \<Rightarrow> error + (string \<times> jsvalue) list" where
  "externalPropertySearchBody ex itemIndex =
     (let searchBody = [];
          searchBody = addIfNotEmpty searchBody ''TableType'' (getNodeParameter ex ''externalPropertySearchTableType'' itemIndex (JStr ''''));
          searchBody = assign_if (truthy (getNodeParameter ex ''externalPropertySearchOnlyInsert'' itemIndex (JBool False))) searchBody ''OnlyInsert'' (JBool True);
          searchBody = assign_if (truthy (getNodeParameter ex ''externalPropertySearchOnlyTag'' itemIndex (JBool False))) searchBody ''OnlyTag'' (JBool True);
          searchBody = assign_if (truthy (getNodeParameter ex ''externalPropertySearchWithLead'' itemIndex (JBool False))) searchBody ''WithLead'' (JBool True);
          searchBody = assign_if (truthy (getNodeParameter ex ''externalPropertySearchIsImported'' itemIndex (JBool False))) searchBody ''IsImported'' (JBool True);
          searchBody = assign_if (truthy (getNodeParameter ex ''externalPropertySearchIsStatus'' itemIndex (JBool False))) searchBody ''IsStatus'' (JBool True);
          searchBody = assign_if (truthy (getNodeParameter ex ''externalPropertySearchIsFilter'' itemIndex (JBool False))) searchBody ''IsFilter'' (JBool True);
          searchBody = assign_if (truthy (getNodeParameter ex ''externalPropertySearchOnlyAiVariables'' itemIndex (JBool False))) searchBody ''OnlyAiVariables'' (JBool True) in
     (case getAdditionalFields ex ''searchAdditionalFields'' itemIndex of Inl e \<Rightarrow> Inl e | Inr additional \<Rightarrow>
     (let searchBody = object_assign searchBody additional in
     Inr searchBody)))"

text \<open>The structured fields for user, search (lines 7589 to 7612 of the source).\<close>

definition userSearchBody :: "execute_functions \<Rightarrow> nat \<Rightarrow> error + (string \<times> jsvalue) list" where
  "userSearchBody ex itemIndex =
     (let searchBody = [];
          searchBody = addIfNotEmpty searchBody ''Email'' (getNodeParameter ex ''userSearchEmail'' itemIndex (JStr ''''));
          searchBody = assign_if (truthy (getNodeParameter ex ''userSearchActive'' itemIndex (JBool False))) searchBody ''Active'' (JBool True);
          pagination = [];
          pagination = addIfNotEmpty pagination ''Limit'' (getNodeParameter ex ''userSearchLimit'' itemIndex (JNum 50));
          pagination = addIfNotEmpty pagination ''Offset'' (getNodeParameter ex ''userSearchOffset'' itemIndex (JNum 0));
          searchBody = assign_if (length (object_keys (JObj pagination)) \<noteq> 0) searchBody ''Pagination'' (JObj pagination) in
     (case getAdditionalFields ex ''searchAdditionalFields'' itemIndex of Inl e \<Rightarrow> Inl e | Inr additional \<Rightarrow>
     (let searchBody = object_assign searchBody additional in
     Inr searchBody)))"

section \<open>The dispatch of \<^verbatim>\<open>execute\<close>\<close>

text \<open>
  What one pass of the item loop hands to \<^verbatim>\<open>cronoApiRequest\<close>: the locals
  \<^verbatim>\<open>method\<close>, \<^verbatim>\<open>endpoint\<close>, \<^verbatim>\<open>qs\<close> and \<^verbatim>\<open>body\<close> (\<^verbatim>\<open>undefined\<close> when never assigned).
\<close>

record request_spec =
  req_method :: string
  req_endpoint :: string
  req_qs :: jsvalue
  req_body :: jsvalue

text \<open>
  \<^verbatim>\<open>const data = useRawJsonData ? getJsonParameter(this, 'data', itemIndex) : {}\<close>, followed
  by the structured fields when the toggle is off.
\<close>

definition data_payload ::
  "execute_functions \<Rightarrow> nat \<Rightarrow> jsvalue \<Rightarrow> (execute_functions \<Rightarrow> nat \<Rightarrow> error + (string \<times> jsvalue) list) \<Rightarrow> error + jsvalue" where
  "data_payload ex itemIndex useRawJsonData structured =
     (if truthy useRawJsonData then getJsonParameter ex ''data'' itemIndex (JObj [])
      else map_sum id JObj (structured ex itemIndex))"

text \<open>\<^verbatim>\<open>case 'company'\<close> (lines 5571 to 5994).\<close>

definition company_case :: "execute_functions \<Rightarrow> nat \<Rightarrow> string \<Rightarrow> jsvalue \<Rightarrow> jsvalue \<Rightarrow> jsvalue \<Rightarrow> jsvalue \<Rightarrow> error + request_spec" where
  "company_case ex itemIndex basePath operation useRawJsonData useRawJsonSearch qs =
     (let endpoint = basePath @ ''/Accounts'' in
      if operation = JStr ''get'' then
        (case getNodeParameterRequired ex ''objectId'' itemIndex of Inl e \<Rightarrow> Inl e | Inr objectId \<Rightarrow>
         (case getJsonParameter ex ''includeOptions'' itemIndex (JObj []) of Inl e \<Rightarrow> Inl e | Inr includeOptions \<Rightarrow>
            Inr \<lparr>req_method = ''GET'', req_endpoint = endpoint @ ''/'' @ to_string objectId, req_qs = includeOptions, req_body = JUndefined\<rparr>))
      else if operation = JStr ''getAll'' then
        (case getJsonParameter ex ''includeOptions'' itemIndex (JObj []) of Inl e \<Rightarrow> Inl e | Inr includeOptions \<Rightarrow>
            Inr \<lparr>req_method = ''GET'', req_endpoint = endpoint, req_qs = JObj (object_assign (object_assign [] qs) includeOptions), req_body = JUndefined\<rparr>)
      else if operation = JStr ''search'' then
        (if truthy useRawJsonSearch
          then (case getJsonParameter ex ''search'' itemIndex (JObj []) of Inl e \<Rightarrow> Inl e | Inr body \<Rightarrow>
                  Inr \<lparr>req_method = ''POST'', req_endpoint = endpoint @ ''/search'', req_qs = qs, req_body = body\<rparr>)
          else (case companySearchBody ex itemIndex of Inl e \<Rightarrow> Inl e | Inr searchBody \<Rightarrow>
                  Inr \<lparr>req_method = ''POST'', req_endpoint = endpoint @ ''/search'', req_qs = qs, req_body = JObj searchBody\<rparr>))
      else if operation = JStr ''create'' then
        (case data_payload ex itemIndex useRawJsonData companyCreateData of Inl e \<Rightarrow> Inl e | Inr data \<Rightarrow>
         (case getJsonParameter ex ''scrapeOptions'' itemIndex (JObj []) of Inl e \<Rightarrow> Inl e | Inr scrapeOptions \<Rightarrow>
            Inr \<lparr>req_method = ''POST'', req_endpoint = endpoint, req_qs = qs, req_body = JObj ((''data'', data) # (if length (object_keys scrapeOptions) \<noteq> 0 then [(''scrapeOptions'', scrapeOptions)] else []))\<rparr>))
      else if operation = JStr ''update'' then
        (case data_payload ex itemIndex useRawJsonData companyUpdateData of Inl e \<Rightarrow> Inl e | Inr data \<Rightarrow>
            Inr \<lparr>req_method = ''PATCH'', req_endpoint = endpoint, req_qs = qs, req_body = JObj [(''data'', data)]\<rparr>)
      else if operation = JStr ''import'' then
        (case data_payload ex itemIndex useRawJsonData companyImportData of Inl e \<Rightarrow> Inl e | Inr data \<Rightarrow>
            Inr \<lparr>req_method = ''POST'', req_endpoint = endpoint @ ''/import'', req_qs = qs, req_body = JObj [(''data'', data)]\<rparr>)
      else Inr \<lparr>req_method = ''GET'', req_endpoint = endpoint, req_qs = qs, req_body = JUndefined\<rparr>)"

text \<open>\<^verbatim>\<open>case 'contact'\<close> (lines 5995 to 6572).\<close>

definition contact_case :: "execute_functions \<Rightarrow> nat \<Rightarrow> string \<Rightarrow> jsvalue \<Rightarrow> jsvalue \<Rightarrow> jsvalue \<Rightarrow> jsvalue \<Rightarrow> error + request_spec" where
  "contact_case ex itemIndex basePath operation useRawJsonData useRawJsonSearch qs =
     (let endpoint = basePath @ ''/Prospects'' in
      if operation = JStr ''get'' then
        (case getNodeParameterRequired ex ''objectId'' itemIndex of Inl e \<Rightarrow> Inl e | Inr objectId \<Rightarrow>
         (case getJsonParameter ex ''includeOptions'' itemIndex (JObj []) of Inl e \<Rightarrow> Inl e | Inr includeOptions \<Rightarrow>
            Inr \<lparr>req_method = ''GET'', req_endpoint = endpoint @ ''/'' @ to_string objectId, req_qs = includeOptions, req_body = JUndefined\<rparr>))
      else if operation = JStr ''getAll'' then
        (case getJsonParameter ex ''includeOptions'' itemIndex (JObj []) of Inl e \<Rightarrow> Inl e | Inr includeOptions \<Rightarrow>
            Inr \<lparr>req_method = ''GET'', req_endpoint = endpoint, req_qs = JObj (object_assign (object_assign [] qs) includeOptions), req_body = JUndefined\<rparr>)
      else if operation = JStr ''search'' then
        (if truthy useRawJsonSearch
          then (case getJsonParameter ex ''search'' itemIndex (JObj []) of Inl e \<Rightarrow> Inl e | Inr body \<Rightarrow>
                  Inr \<lparr>req_method = ''POST'', req_endpoint = endpoint @ ''/search'', req_qs = qs, req_body = body\<rparr>)
          else (case contactSearchBody ex itemIndex of Inl e \<Rightarrow> Inl e | Inr searchBody \<Rightarrow>
                  Inr \<lparr>req_method = ''POST'', req_endpoint = endpoint @ ''/search'', req_qs = qs, req_body = JObj searchBody\<rparr>))
      else if operation = JStr ''create'' then
        (case data_payload ex itemIndex useRawJsonData contactCreateData of Inl e \<Rightarrow> Inl e | Inr data \<Rightarrow>
         (case getJsonParameter ex ''scrapeOptions'' itemIndex (JObj []) of Inl e \<Rightarrow> Inl e | Inr scrapeOptions \<Rightarrow>
            Inr \<lparr>req_method = ''POST'', req_endpoint = endpoint, req_qs = qs, req_body = JObj ((''data'', data) # (if length (object_keys scrapeOptions) \<noteq> 0 then [(''scrapeOptions'', scrapeOptions)] else []))\<rparr>))
      else if operation = JStr ''update'' then
        (case data_payload ex itemIndex useRawJsonData contactUpdateData of Inl e \<Rightarrow> Inl e | Inr data \<Rightarrow>
            Inr \<lparr>req_method = ''PATCH'', req_endpoint = endpoint, req_qs = qs, req_body = JObj [(''data'', data)]\<rparr>)
      else if operation = JStr ''import'' then
        (case data_payload ex itemIndex useRawJsonData contactImportData of Inl e \<Rightarrow> Inl e | Inr data \<Rightarrow>
            Inr \<lparr>req_method = ''POST'', req_endpoint = endpoint @ ''/import'', req_qs = qs, req_body = JObj [(''data'', data)]\<rparr>)
      else Inr \<lparr>req_method = ''GET'', req_endpoint = endpoint, req_qs = qs, req_body = JUndefined\<rparr>)"

text \<open>\<^verbatim>\<open>case 'deal'\<close> (lines 6573 to 6831).\<close>

definition deal_case :: "execute_functions \<Rightarrow> nat \<Rightarrow> string \<Rightarrow> jsvalue \<Rightarrow> jsvalue \<Rightarrow> jsvalue \<Rightarrow> jsvalue \<Rightarrow> error + request_spec" where
  "deal_case ex itemIndex basePath operation useRawJsonData useRawJsonSearch qs =
     (let endpoint = basePath @ ''/Opportunities'' in
      if operation = JStr ''get'' then
        (case getNodeParameterRequired ex ''objectId'' itemIndex of Inl e \<Rightarrow> Inl e | Inr objectId \<Rightarrow>
         (case getJsonParameter ex ''includeOptions'' itemIndex (JObj []) of Inl e \<Rightarrow> Inl e | Inr includeOptions \<Rightarrow>
            Inr \<lparr>req_method = ''GET'', req_endpoint = endpoint @ ''/'' @ to_string objectId, req_qs = includeOptions, req_body = JUndefined\<rparr>))
      else if operation = JStr ''getAll'' then
        (case getJsonParameter ex ''includeOptions'' itemIndex (JObj []) of Inl e \<Rightarrow> Inl e | Inr includeOptions \<Rightarrow>
            Inr \<lparr>req_method = ''GET'', req_endpoint = endpoint, req_qs = JObj (object_assign (object_assign [] qs) includeOptions), req_body = JUndefined\<rparr>)
      else if operation = JStr ''search'' then
        (if truthy useRawJsonSearch
          then (case getJsonParameter ex ''search'' itemIndex (JObj []) of Inl e \<Rightarrow> Inl e | Inr body \<Rightarrow>
                  Inr \<lparr>req_method = ''POST'', req_endpoint = endpoint @ ''/search'', req_qs = qs, req_body = body\<rparr>)
          else (case dealSearchBody ex itemIndex of Inl e \<Rightarrow> Inl e | Inr searchBody \<Rightarrow>
                  Inr \<lparr>req_method = ''POST'', req_endpoint = endpoint @ ''/search'', req_qs = qs, req_body = JObj searchBody\<rparr>))
      else if operation = JStr ''create'' then
        (case data_payload ex itemIndex useRawJsonData dealCreateData of Inl e \<Rightarrow> Inl e | Inr data \<Rightarrow>
            Inr \<lparr>req_method = ''POST'', req_endpoint = endpoint, req_qs = qs, req_body = JObj [(''data'', data)]\<rparr>)
      else if operation = JStr ''update'' then
        (case data_payload ex itemIndex useRawJsonData dealUpdateData of Inl e \<Rightarrow> Inl e | Inr data \<Rightarrow>
            Inr \<lparr>req_method = ''PATCH'', req_endpoint = endpoint, req_qs = qs, req_body = JObj [(''data'', data)]\<rparr>)
      else Inr \<lparr>req_method = ''GET'', req_endpoint = endpoint, req_qs = qs, req_body = JUndefined\<rparr>)"

text \<open>\<^verbatim>\<open>case 'note'\<close> (lines 6832 to 6961).\<close>

definition note_case :: "execute_functions \<Rightarrow> nat \<Rightarrow> string \<Rightarrow> jsvalue \<Rightarrow> jsvalue \<Rightarrow> jsvalue \<Rightarrow> jsvalue \<Rightarrow> error + request_spec" where
  "note_case ex itemIndex basePath operation useRawJsonData useRawJsonSearch qs =
     (let endpoint = basePath @ ''/Notes'' in
      if operation = JStr ''get'' then
        (case getNodeParameterRequired ex ''objectId'' itemIndex of Inl e \<Rightarrow> Inl e | Inr objectId \<Rightarrow>
         (case getJsonParameter ex ''includeOptions'' itemIndex (JObj []) of Inl e \<Rightarrow> Inl e | Inr includeOptions \<Rightarrow>
            Inr \<lparr>req_method = ''GET'', req_endpoint = endpoint @ ''/'' @ to_string objectId, req_qs = includeOptions, req_body = JUndefined\<rparr>))
      else if operation = JStr ''getAll'' then
        (case getJsonParameter ex ''includeOptions'' itemIndex (JObj []) of Inl e \<Rightarrow> Inl e | Inr includeOptions \<Rightarrow>
            Inr \<lparr>req_method = ''GET'', req_endpoint = endpoint, req_qs = JObj (object_assign (object_assign [] qs) includeOptions), req_body = JUndefined\<rparr>)
      else if operation = JStr ''search'' then
        (if truthy useRawJsonSearch
          then (case getJsonParameter ex ''search'' itemIndex (JObj []) of Inl e \<Rightarrow> Inl e | Inr body \<Rightarrow>
                  Inr \<lparr>req_method = ''POST'', req_endpoint = endpoint @ ''/search'', req_qs = qs, req_body = body\<rparr>)
          else (case noteSearchBody ex itemIndex of Inl e \<Rightarrow> Inl e | Inr searchBody \<Rightarrow>
                  Inr \<lparr>req_method = ''POST'', req_endpoint = endpoint @ ''/search'', req_qs = qs, req_body = JObj searchBody\<rparr>))
      else if operation = JStr ''create'' then
        (case data_payload ex itemIndex useRawJsonData noteCreateData of Inl e \<Rightarrow> Inl e | Inr data \<Rightarrow>
            Inr \<lparr>req_method = ''POST'', req_endpoint = endpoint, req_qs = qs, req_body = JObj [(''data'', data)]\<rparr>)
      else Inr \<lparr>req_method = ''GET'', req_endpoint = endpoint, req_qs = qs, req_body = JUndefined\<rparr>)"

text \<open>\<^verbatim>\<open>case 'task'\<close> (lines 6962 to 7178).\<close>

definition task_case :: "execute_functions \<Rightarrow> nat \<Rightarrow> string \<Rightarrow> jsvalue \<Rightarrow> jsvalue \<Rightarrow> jsvalue \<Rightarrow> jsvalue \<Rightarrow> error + request_spec" where
  "task_case ex itemIndex basePath operation useRawJsonData useRawJsonSearch qs =
     (let endpoint = basePath @ ''/Tasks'' in
      if operation = JStr ''search'' then
        (let withOpportunities = getNodeParameter ex ''withOpportunities'' itemIndex (JBool False);
             qs = (if truthy withOpportunities then JObj [(''withOpportunities'', withOpportunities)] else JObj []) in
         (if truthy useRawJsonSearch
          then (case getJsonParameter ex ''search'' itemIndex (JObj []) of Inl e \<Rightarrow> Inl e | Inr body \<Rightarrow>
                  Inr \<lparr>req_method = ''POST'', req_endpoint = endpoint @ ''/search'', req_qs = qs, req_body = body\<rparr>)
          else (case taskSearchBody ex itemIndex of Inl e \<Rightarrow> Inl e | Inr searchBody \<Rightarrow>
                  Inr \<lparr>req_method = ''POST'', req_endpoint = endpoint @ ''/search'', req_qs = qs, req_body = JObj searchBody\<rparr>)))
      else if operation = JStr ''create'' then
        (case data_payload ex itemIndex useRawJsonData taskCreateData of Inl e \<Rightarrow> Inl e | Inr data \<Rightarrow>
            Inr \<lparr>req_method = ''POST'', req_endpoint = endpoint, req_qs = qs, req_body = JObj [(''data'', data)]\<rparr>)
      else Inr \<lparr>req_method = ''GET'', req_endpoint = endpoint, req_qs = qs, req_body = JUndefined\<rparr>)"

text \<open>\<^verbatim>\<open>case 'activity'\<close> (lines 7179 to 7331).\<close>

definition activity_case :: "execute_functions \<Rightarrow> nat \<Rightarrow> string \<Rightarrow> jsvalue \<Rightarrow> jsvalue \<Rightarrow> jsvalue \<Rightarrow> jsvalue \<Rightarrow> error + request_spec" where
  "activity_case ex itemIndex basePath operation useRawJsonData useRawJsonSearch qs =
     (let endpoint = basePath @ ''/Activities'' in
      if operation = JStr ''get'' then
        (case getNodeParameterRequired ex ''objectId'' itemIndex of Inl e \<Rightarrow> Inl e | Inr objectId \<Rightarrow>
         (case getJsonParameter ex ''includeOptions'' itemIndex (JObj []) of Inl e \<Rightarrow> Inl e | Inr includeOptions \<Rightarrow>
            Inr \<lparr>req_method = ''GET'', req_endpoint = endpoint @ ''/'' @ to_string objectId, req_qs = includeOptions, req_body = JUndefined\<rparr>))
      else if operation = JStr ''getAll'' then
        (case getJsonParameter ex ''includeOptions'' itemIndex (JObj []) of Inl e \<Rightarrow> Inl e | Inr includeOptions \<Rightarrow>
            Inr \<lparr>req_method = ''GET'', req_endpoint = endpoint, req_qs = JObj (object_assign (object_assign [] qs) includeOptions), req_body = JUndefined\<rparr>)
      else if operation = JStr ''search'' then
        (if truthy useRawJsonSearch
          then (case getJsonParameter ex ''search'' itemIndex (JObj []) of Inl e \<Rightarrow> Inl e | Inr body \<Rightarrow>
                  Inr \<lparr>req_method = ''POST'', req_endpoint = endpoint @ ''/search'', req_qs = qs, req_body = body\<rparr>)
          else (case activitySearchBody ex itemIndex of Inl e \<Rightarrow> Inl e | Inr searchBody \<Rightarrow>
                  Inr \<lparr>req_method = ''POST'', req_endpoint = endpoint @ ''/search'', req_qs = qs, req_body = JObj searchBody\<rparr>))
      else Inr \<lparr>req_method = ''GET'', req_endpoint = endpoint, req_qs = qs, req_body = JUndefined\<rparr>)"

text \<open>\<^verbatim>\<open>case 'list'\<close> (lines 7332 to 7390): no test of the operation.\<close>

definition list_case :: "execute_functions \<Rightarrow> nat \<Rightarrow> string \<Rightarrow> jsvalue \<Rightarrow> jsvalue \<Rightarrow> jsvalue \<Rightarrow> jsvalue \<Rightarrow> error + request_spec" where
  "list_case ex itemIndex basePath operation useRawJsonData useRawJsonSearch qs =
     (if truthy useRawJsonSearch
          then (case getJsonParameter ex ''search'' itemIndex (JObj []) of Inl e \<Rightarrow> Inl e | Inr body \<Rightarrow>
                  Inr \<lparr>req_method = ''POST'', req_endpoint = basePath @ ''/CronoLists/search'', req_qs = qs, req_body = body\<rparr>)
          else (case listSearchBody ex itemIndex of Inl e \<Rightarrow> Inl e | Inr searchBody \<Rightarrow>
                  Inr \<lparr>req_method = ''POST'', req_endpoint = basePath @ ''/CronoLists/search'', req_qs = qs, req_body = JObj searchBody\<rparr>))"

text \<open>\<^verbatim>\<open>case 'pipeline'\<close> (lines 7391 to 7395).\<close>

definition pipeline_case :: "execute_functions \<Rightarrow> nat \<Rightarrow> string \<Rightarrow> jsvalue \<Rightarrow> jsvalue \<Rightarrow> jsvalue \<Rightarrow> jsvalue \<Rightarrow> error + request_spec" where
  "pipeline_case ex itemIndex basePath operation useRawJsonData useRawJsonSearch qs =
     Inr \<lparr>req_method = ''GET'', req_endpoint = basePath @ ''/Pipelines'', req_qs = qs, req_body = JUndefined\<rparr>"

text \<open>\<^verbatim>\<open>case 'strategy'\<close> (lines 7396 to 7536).\<close>

definition strategy_case :: "execute_functions \<Rightarrow> nat \<Rightarrow> string \<Rightarrow> jsvalue \<Rightarrow> jsvalue \<Rightarrow> jsvalue \<Rightarrow> jsvalue \<Rightarrow> error + request_spec" where
  "strategy_case ex itemIndex basePath operation useRawJsonData useRawJsonSearch qs =
     (let endpoint = basePath @ ''/Strategies/'' @ (if operation = JStr ''searchDetails'' then ''details'' else ''search'') in
      if truthy useRawJsonSearch
      then (case getJsonParameter ex ''search'' itemIndex (JObj []) of Inl e \<Rightarrow> Inl e | Inr body \<Rightarrow>
              Inr \<lparr>req_method = ''POST'', req_endpoint = endpoint, req_qs = qs, req_body = body\<rparr>)
      else if operation = JStr ''searchDetails''
      then (case strategyDetailsBody ex itemIndex of Inl e \<Rightarrow> Inl e | Inr searchBody \<Rightarrow>
              Inr \<lparr>req_method = ''POST'', req_endpoint = endpoint, req_qs = qs, req_body = JObj searchBody\<rparr>)
      else (case strategySearchBody ex itemIndex of Inl e \<Rightarrow> Inl e | Inr searchBody \<Rightarrow>
              Inr \<lparr>req_method = ''POST'', req_endpoint = endpoint, req_qs = qs, req_body = JObj searchBody\<rparr>))"

text \<open>\<^verbatim>\<open>case 'externalProperty'\<close> (lines 7537 to 7574): no test of the operation.\<close>

definition externalProperty_case :: "execute_functions \<Rightarrow> nat \<Rightarrow> string \<Rightarrow> jsvalue \<Rightarrow> jsvalue \<Rightarrow> jsvalue \<Rightarrow> jsvalue \<Rightarrow> error + request_spec" where
  "externalProperty_case ex itemIndex basePath operation useRawJsonData useRawJsonSearch qs =
     (if truthy useRawJsonSearch
          then (case getJsonParameter ex ''search'' itemIndex (JObj []) of Inl e \<Rightarrow> Inl e | Inr body \<Rightarrow>
                  Inr \<lparr>req_method = ''POST'', req_endpoint = basePath @ ''/ExternalProperties/search'', req_qs = qs, req_body = body\<rparr>)
          else (case externalPropertySearchBody ex itemIndex of Inl e \<Rightarrow> Inl e | Inr searchBody \<Rightarrow>
                  Inr \<lparr>req_method = ''POST'', req_endpoint = basePath @ ''/ExternalProperties/search'', req_qs = qs, req_body = JObj searchBody\<rparr>))"

text \<open>\<^verbatim>\<open>case 'user'\<close> (lines 7575 to 7617).\<close>

definition user_case :: "execute_functions \<Rightarrow> nat \<Rightarrow> string \<Rightarrow> jsvalue \<Rightarrow> jsvalue \<Rightarrow> jsvalue \<Rightarrow> jsvalue \<Rightarrow> error + request_spec" where
  "user_case ex itemIndex basePath operation useRawJsonData useRawJsonSearch qs =
     (let endpoint = basePath @ ''/Users'' in
      if operation = JStr ''get'' then
        (case getNodeParameterRequired ex ''userId'' itemIndex of Inl e \<Rightarrow> Inl e | Inr userId \<Rightarrow>
            Inr \<lparr>req_method = ''GET'', req_endpoint = endpoint @ ''/'' @ to_string userId, req_qs = qs, req_body = JUndefined\<rparr>)
      else if operation = JStr ''getAll'' then
        Inr \<lparr>req_method = ''GET'', req_endpoint = endpoint, req_qs = qs, req_body = JUndefined\<rparr>
      else if operation = JStr ''search'' then
        (if truthy useRawJsonSearch
          then (case getJsonParameter ex ''search'' itemIndex (JObj []) of Inl e \<Rightarrow> Inl e | Inr body \<Rightarrow>
                  Inr \<lparr>req_method = ''POST'', req_endpoint = endpoint @ ''/search'', req_qs = qs, req_body = body\<rparr>)
          else (case userSearchBody ex itemIndex of Inl e \<Rightarrow> Inl e | Inr searchBody \<Rightarrow>
                  Inr \<lparr>req_method = ''POST'', req_endpoint = endpoint @ ''/search'', req_qs = qs, req_body = JObj searchBody\<rparr>))
      else Inr \<lparr>req_method = ''GET'', req_endpoint = endpoint, req_qs = qs, req_body = JUndefined\<rparr>)"

text \<open>\<^verbatim>\<open>case 'import'\<close> (lines 7618 to 7636).\<close>

definition import_case :: "execute_functions \<Rightarrow> nat \<Rightarrow> string \<Rightarrow> jsvalue \<Rightarrow> jsvalue \<Rightarrow> jsvalue \<Rightarrow> jsvalue \<Rightarrow> error + request_spec" where
  "import_case ex itemIndex basePath operation useRawJsonData useRawJsonSearch qs =
     (let endpoint = basePath @ ''/Import'' in
      if operation = JStr ''get'' then
        (case getNodeParameterRequired ex ''importId'' itemIndex of Inl e \<Rightarrow> Inl e | Inr importId \<Rightarrow>
            Inr \<lparr>req_method = ''GET'', req_endpoint = endpoint @ ''/'' @ to_string importId, req_qs = qs, req_body = JUndefined\<rparr>)
      else if operation = JStr ''getAll'' then
        (case getNodeParameterRequired ex ''importType'' itemIndex of Inl e \<Rightarrow> Inl e | Inr importType \<Rightarrow>
         (case getNodeParameterRequired ex ''importStatus'' itemIndex of Inl e \<Rightarrow> Inl e | Inr importStatus \<Rightarrow>
            (let qs = JObj (assign_if (truthy importType) (own_entries qs) ''type'' importType);
                 qs = JObj (assign_if (truthy importStatus) (own_entries qs) ''statusType'' importStatus)
             in Inr \<lparr>req_method = ''GET'', req_endpoint = endpoint, req_qs = qs, req_body = JUndefined\<rparr>)))
      else Inr \<lparr>req_method = ''GET'', req_endpoint = endpoint, req_qs = qs, req_body = JUndefined\<rparr>)"

text \<open>
  One pass of the item loop up to the call of \<^verbatim>\<open>cronoApiRequest\<close> (lines 5552 to 7641):
  the shared parameters, the \<^verbatim>\<open>limit\<close>/\<^verbatim>\<open>offset\<close> query of every \<^verbatim>\<open>getAll\<close>, and the
  \<^verbatim>\<open>switch\<close> on the resource with its \<^verbatim>\<open>default\<close> branch.
\<close>

definition unsupported_resource_message :: "jsvalue \<Rightarrow> string" where
  "unsupported_resource_message resource = ''Unsupported resource: '' @ to_string resource"

definition build_request :: "execute_functions \<Rightarrow> nat \<Rightarrow> error + request_spec" where
  "build_request ex itemIndex =
     (case getNodeParameterRequired ex ''resource'' itemIndex of Inl e \<Rightarrow> Inl e | Inr resource \<Rightarrow>
     (case getNodeParameterRequired ex ''operation'' itemIndex of Inl e \<Rightarrow> Inl e | Inr operation \<Rightarrow>
     (let apiVersion = getNodeParameter ex ''apiVersion'' itemIndex (JStr ''1'');
          basePath = ''/api/v'' @ to_string apiVersion;
          useRawJsonData = getNodeParameter ex ''useRawJsonData'' itemIndex (JBool False);
          useRawJsonSearch = getNodeParameter ex ''useRawJsonSearch'' itemIndex (JBool False);
          qs = (if operation = JStr ''getAll''
                then JObj [(''limit'', getNodeParameter ex ''limit'' itemIndex (JNum 50)),
                           (''offset'', getNodeParameter ex ''offset'' itemIndex (JNum 0))]
                else JObj [])
      in if resource = JStr ''company'' then company_case ex itemIndex basePath operation useRawJsonData useRawJsonSearch qs
         else if resource = JStr ''contact'' then contact_case ex itemIndex basePath operation useRawJsonData useRawJsonSearch qs
         else if resource = JStr ''deal'' then deal_case ex itemIndex basePath operation useRawJsonData useRawJsonSearch qs
         else if resource = JStr ''note'' then note_case ex itemIndex basePath operation useRawJsonData useRawJsonSearch qs
         else if resource = JStr ''task'' then task_case ex itemIndex basePath operation useRawJsonData useRawJsonSearch qs
         else if resource = JStr ''activity'' then activity_case ex itemIndex basePath operation useRawJsonData useRawJsonSearch qs
         else if resource = JStr ''list'' then list_case ex itemIndex basePath operation useRawJsonData useRawJsonSearch qs
         else if resource = JStr ''pipeline'' then pipeline_case ex itemIndex basePath operation useRawJsonData useRawJsonSearch qs
         else if resource = JStr ''strategy'' then strategy_case ex itemIndex basePath operation useRawJsonData useRawJsonSearch qs
         else if resource = JStr ''externalProperty'' then externalProperty_case ex itemIndex basePath operation useRawJsonData useRawJsonSearch qs
         else if resource = JStr ''user'' then user_case ex itemIndex basePath operation useRawJsonData useRawJsonSearch qs
         else if resource = JStr ''import'' then import_case ex itemIndex basePath operation useRawJsonData useRawJsonSearch qs
         else Inl (NodeOperationError (unsupported_resource_message resource) itemIndex))))"

section \<open>The HTTP executor\<close>

text \<open>
  The request options that \<^verbatim>\<open>cronoApiRequest\<close> hands to the host (lines 94 to 119).  The
  default parameter \<^verbatim>\<open>qs = {}\<close> replaces an \<^verbatim>\<open>undefined\<close> argument.
\<close>

definition cronoApiRequest_options :: "execute_functions \<Rightarrow> string \<Rightarrow> string \<Rightarrow> jsvalue \<Rightarrow> jsvalue \<Rightarrow> http_request_options" where
  "cronoApiRequest_options ex method endpoint qs_arg body =
     (let qs = (if qs_arg = JUndefined then JObj [] else qs_arg);
          baseUrl = (if truthy (credentials_baseUrl ex) then credentials_baseUrl ex
                     else JStr ''https://ext.crono.one'')
      in \<lparr>opt_method = method,
          opt_url = to_string baseUrl @ endpoint,
          opt_json = True,
          opt_qs = (if truthy qs \<and> length (object_keys qs) \<noteq> 0 then Some qs else None),
          opt_body = (if truthy body \<and> length (object_keys body) \<noteq> 0 then Some body else None)\<rparr>)"

definition cronoApiRequest :: "execute_functions \<Rightarrow> string \<Rightarrow> string \<Rightarrow> jsvalue \<Rightarrow> jsvalue \<Rightarrow> error + jsvalue" where
  "cronoApiRequest ex method endpoint qs body =
     httpRequestWithAuthentication ex (cronoApiRequest_options ex method endpoint qs body)"

text \<open>
  The item loop: the response of each item with its \<^verbatim>\<open>pairedItem\<close> index, in order; the
  first error ends the run.
\<close>

definition execute_item :: "execute_functions \<Rightarrow> nat \<Rightarrow> error + (jsvalue \<times> nat)" where
  "execute_item ex itemIndex =
     (case build_request ex itemIndex of Inl e \<Rightarrow> Inl e
      | Inr r \<Rightarrow>
          (case cronoApiRequest ex (req_method r) (req_endpoint r) (req_qs r) (req_body r) of
             Inl e \<Rightarrow> Inl e
           | Inr responseData \<Rightarrow> Inr (responseData, itemIndex)))"

definition execute :: "execute_functions \<Rightarrow> error + (jsvalue \<times> nat) list" where
  "execute ex = map_result (execute_item ex) [0..<input_length ex]"

section \<open>A JSON reader for the examples\<close>

text \<open>
  The theorems below hold for every \<^const>\<open>json_parse\<close>.  Where an example needs a concrete
  one, it uses this reader of the JSON grammar with integer numbers and without
  \<^verbatim>\<open>\u\<close> escapes; it answers \<open>None\<close> on every other text.  The fuel bounds the nesting
  and is twice the length of the text.
\<close>

definition is_json_space :: "char \<Rightarrow> bool" where
  "is_json_space c = (c \<in> set [CHR '' '', CHR 0x09, CHR 0x0A, CHR 0x0D])"

definition skip_ws :: "string \<Rightarrow> string" where
  "skip_ws s = dropWhile is_json_space s"

definition unescape :: "char \<Rightarrow> char option" where
  \<open>unescape c =
     (if c = CHR ''"'' then Some (CHR ''"'')
      else if c = CHR 0x5C then Some (CHR 0x5C)
      else if c = CHR ''/'' then Some (CHR ''/'')
      else if c = CHR ''b'' then Some (CHR 0x08)
      else if c = CHR ''f'' then Some (CHR 0x0C)
      else if c = CHR ''n'' then Some (CHR 0x0A)
      else if c = CHR ''r'' then Some (CHR 0x0D)
      else if c = CHR ''t'' then Some (CHR 0x09)
      else None)\<close>

text \<open>The characters of a string literal after its opening quote, and the rest of the text.\<close>

fun parse_chars :: "string \<Rightarrow> (string \<times> string) option" where
  "parse_chars [] = None"
| \<open>parse_chars (c # cs) =
     (if c = CHR ''"'' then Some ([], cs)
      else if c = CHR 0x5C then
        (case cs of
           [] \<Rightarrow> None
         | e # r \<Rightarrow>
             (case unescape e of
                None \<Rightarrow> None
              | Some x \<Rightarrow> (case parse_chars r of None \<Rightarrow> None | Some (s, rest) \<Rightarrow> Some (x # s, rest))))
      else if (of_char c :: nat) < 32 then None
      else (case parse_chars cs of None \<Rightarrow> None | Some (s, rest) \<Rightarrow> Some (c # s, rest)))\<close>

definition parse_number :: "string \<Rightarrow> (jsvalue \<times> string) option" where
  "parse_number s =
     (let neg = (case s of [] \<Rightarrow> False | c # _ \<Rightarrow> c = CHR ''-'');
          u = (if neg then tl s else s);
          ds = takeWhile is_digit u;
          rest = dropWhile is_digit u
      in if ds = [] \<or> (length ds > 1 \<and> hd ds = CHR ''0'') then None
         else if (case rest of [] \<Rightarrow> False | c # _ \<Rightarrow> c \<in> set ''.eE'') then None
         else Some (JNum (if neg then - int (nat_of_digits ds) else int (nat_of_digits ds)), rest))"

fun parse_value :: "nat \<Rightarrow> string \<Rightarrow> (jsvalue \<times> string) option"
  and parse_elements :: "nat \<Rightarrow> string \<Rightarrow> (jsvalue list \<times> string) option"
  and parse_members :: "nat \<Rightarrow> string \<Rightarrow> ((string \<times> jsvalue) list \<times> string) option" where
  "parse_value 0 s = None"
| \<open>parse_value (Suc n) s =
     (case skip_ws s of
        [] \<Rightarrow> None
      | c # cs \<Rightarrow>
          if c = CHR ''{'' then
            (case skip_ws cs of
               [] \<Rightarrow> None
             | d # ds \<Rightarrow>
                 if d = CHR ''}'' then Some (JObj [], ds)
                 else (case parse_members n (d # ds) of
                         None \<Rightarrow> None
                       | Some (kvs, rest) \<Rightarrow> Some (JObj (fold (\<lambda>(k, v) t. AList.update k v t) kvs []), rest)))
          else if c = CHR ''['' then
            (case skip_ws cs of
               [] \<Rightarrow> None
             | d # ds \<Rightarrow>
                 if d = CHR '']'' then Some (JArr [], ds)
                 else (case parse_elements n (d # ds) of
                         None \<Rightarrow> None
                       | Some (vs, rest) \<Rightarrow> Some (JArr vs, rest)))
          else if c = CHR ''"'' then
            (case parse_chars cs of None \<Rightarrow> None | Some (str, rest) \<Rightarrow> Some (JStr str, rest))
          else if take 4 (c # cs) = ''true'' then Some (JBool True, drop 4 (c # cs))
          else if take 5 (c # cs) = ''false'' then Some (JBool False, drop 5 (c # cs))
          else if take 4 (c # cs) = ''null'' then Some (JNull, drop 4 (c # cs))
          else parse_number (c # cs))\<close>
| "parse_elements 0 s = None"
| \<open>parse_elements (Suc n) s =
     (case parse_value n s of
        None \<Rightarrow> None
      | Some (v, r) \<Rightarrow>
          (case skip_ws r of
             [] \<Rightarrow> None
           | c # r' \<Rightarrow>
               if c = CHR '','' then
                 (case parse_elements n r' of None \<Rightarrow> None | Some (vs, rest) \<Rightarrow> Some (v # vs, rest))
               else if c = CHR '']'' then Some ([v], r')
               else None))\<close>
| "parse_members 0 s = None"
| \<open>parse_members (Suc n) s =
     (case skip_ws s of
        [] \<Rightarrow> None
      | q # s1 \<Rightarrow>
          if q \<noteq> CHR ''"'' then None
          else (case parse_chars s1 of
                  None \<Rightarrow> None
                | Some (key, s2) \<Rightarrow>
                    (case skip_ws s2 of
                       [] \<Rightarrow> None
                     | colon # s3 \<Rightarrow>
                         if colon \<noteq> CHR '':'' then None
                         else (case parse_value n s3 of
                                 None \<Rightarrow> None
                               | Some (v, r) \<Rightarrow>
                                   (case skip_ws r of
                                      [] \<Rightarrow> None
                                    | c # r' \<Rightarrow>
                                        if c = CHR '','' then
                                          (case parse_members n r' of
                                             None \<Rightarrow> None
                                           | Some (kvs, rest) \<Rightarrow> Some ((key, v) # kvs, rest))
                                        else if c = CHR ''}'' then Some ([(key, v)], r')
                                        else None)))))\<close>

definition json_reader :: "string \<Rightarrow> jsvalue option" where
  "json_reader s =
     (case parse_value (2 * length s + 2) s of
        None \<Rightarrow> None
      | Some (v, rest) \<Rightarrow> if skip_ws rest = [] then Some v else None)"

text \<open>An execution context for the examples: one item whose parameter bag is \<open>ps\<close>.\<close>

definition example_functions :: "(string \<times> jsvalue) list \<Rightarrow> execute_functions" where
  "example_functions ps =
     \<lparr>input_length = 1,
      parameters = (\<lambda>itemIndex. map_of ps),
      json_parse = json_reader,
      credentials_baseUrl = JStr '''',
      httpRequestWithAuthentication = (\<lambda>options. Inr (JObj []))\<rparr>"

section \<open>Reading the request\<close>

text \<open>\<^verbatim>\<open>Object.keys(v).includes(k)\<close>: the value has the own key \<open>k\<close>.\<close>

definition has_key :: "jsvalue \<Rightarrow> string \<Rightarrow> bool" where
  "has_key v k = (k \<in> set (object_keys v))"

section \<open>Lemmas on objects\<close>

lemma map_of_assign_if [simp]:
  "map_of (assign_if c t k v) K = (if K = k then (if c then Some v else map_of t K) else map_of t K)"
  by (simp add: assign_if_def update_conv')

lemma map_of_addIfNotEmpty [simp]:
  "map_of (addIfNotEmpty t k v) K =
     (if K = k then (if v \<noteq> JUndefined \<and> v \<noteq> JNull \<and> v \<noteq> JStr '''' then Some v else map_of t K)
      else map_of t K)"
  by (simp add: addIfNotEmpty_def update_conv')

lemma map_of_update_key [simp]:
  "map_of (AList.update k v t) K = (if K = k then Some v else map_of t K)"
  by (simp add: update_conv')

lemma map_of_fold_update:
  "map_of (fold (\<lambda>(k, v) t. AList.update k v t) kvs t) K =
     (case map_of (rev kvs) K of None \<Rightarrow> map_of t K | Some v \<Rightarrow> Some v)"
proof (induction kvs arbitrary: t)
  case Nil
  then show ?case by simp
next
  case (Cons kv kvs)
  obtain k v where kv: "kv = (k, v)" by (cases kv)
  show ?case
    by (simp add: kv Cons.IH map_add_def split: option.splits)
qed

lemma map_of_object_assign:
  "map_of (object_assign t source) K =
     (case map_of (rev (own_entries source)) K of None \<Rightarrow> map_of t K | Some v \<Rightarrow> Some v)"
  by (simp add: object_assign_def map_of_fold_update)

lemma has_key_JObj: "has_key (JObj kvs) k \<longleftrightarrow> map_of kvs k \<noteq> None"
  by (simp add: has_key_def map_of_eq_None_iff)

lemma get_prop_JObj: "get_prop (JObj kvs) k = (case map_of kvs k of None \<Rightarrow> JUndefined | Some x \<Rightarrow> x)"
  by (simp add: get_prop_def)

lemma map_of_rev_None: "map_of (rev kvs) k = None \<longleftrightarrow> map_of kvs k = None"
  by (simp add: map_of_eq_None_iff)

lemma case_sum_InrE:
  assumes "(case m of Inl e \<Rightarrow> Inl e | Inr x \<Rightarrow> f x) = Inr b"
  obtains x where "m = Inr x" and "f x = Inr b"
  using assms by (cases m) auto

lemma map_of_weak_cong: "K = K' \<Longrightarrow> map_of t K = map_of t K'"
  by simp

lemma object_keys_JObj_empty [simp]: "object_keys (JObj kvs) = [] \<longleftrightarrow> kvs = []"
  by simp

section \<open>The parameter extractor\<close>

lemma getNodeParameter_Some:
  "parameters ex i name = Some v \<Longrightarrow> v \<noteq> JUndefined \<Longrightarrow> getNodeParameter ex name i d = v"
  by (cases v) (simp_all add: getNodeParameter_def)

lemma getNodeParameter_absent:
  "parameters ex i name = None \<or> parameters ex i name = Some JUndefined \<Longrightarrow>
   getNodeParameter ex name i d = d"
  by (auto simp: getNodeParameter_def)


lemma json_reader_42: "json_reader ''42'' = Some (JNum 42)"
  by code_simp



text \<open>
  Claim C10.  When the raw value is a non-empty string that \<^verbatim>\<open>JSON.parse\<close> accepts and the
  parsed value is neither an object nor an array (a number, a string, a boolean,
  \<^verbatim>\<open>null\<close>), \<^const>\<open>getJsonParameter\<close> raises nothing and returns the raw string itself, not
  the parsed value.
\<close>

theorem getJsonParameter_primitive_returns_raw_string:
  assumes "parameters ex i name = Some (JStr s)"
      and "s \<noteq> ''''"
      and "json_parse ex s = Some parsed"
      and "\<forall>kvs. parsed \<noteq> JObj kvs"
      and "\<forall>xs. parsed \<noteq> JArr xs"
  shows "getJsonParameter ex name i d = Inr (JStr s)"
proof -
  have v: "getNodeParameter ex name i d = JStr s"
    using assms(1) by (simp add: getNodeParameter_def)
  have "\<not> (truthy parsed \<and> typeof_object parsed)"
    using assms(4,5) by (cases parsed) auto
  with v assms(2,3) show ?thesis
    by (auto simp: getJsonParameter_def)
qed

theorem getJsonParameter_primitive_returns_raw_string_witness:
  "getJsonParameter (example_functions [(''includeOptions'', JStr ''42'')]) ''includeOptions'' 0 (JObj [])
     = Inr (JStr ''42'')"
  using getJsonParameter_primitive_returns_raw_string
          [of "example_functions [(''includeOptions'', JStr ''42'')]" 0 "''includeOptions''" "''42''"
              "JNum 42" "JObj []"]
  by (simp add: example_functions_def json_reader_42)

section \<open>The options of the HTTP call\<close>



section \<open>Lemmas on the dispatch\<close>

text \<open>The two values every branch of the \<^verbatim>\<open>switch\<close> receives: \<^verbatim>\<open>basePath\<close> and the initial \<^verbatim>\<open>qs\<close>.\<close>

definition basePath_of :: "execute_functions \<Rightarrow> nat \<Rightarrow> string" where
  "basePath_of ex itemIndex = ''/api/v'' @ to_string (getNodeParameter ex ''apiVersion'' itemIndex (JStr ''1''))"

definition shared_qs :: "execute_functions \<Rightarrow> nat \<Rightarrow> jsvalue \<Rightarrow> jsvalue" where
  "shared_qs ex itemIndex operation =
     (if operation = JStr ''getAll''
      then JObj [(''limit'', getNodeParameter ex ''limit'' itemIndex (JNum 50)),
                 (''offset'', getNodeParameter ex ''offset'' itemIndex (JNum 0))]
      else JObj [])"



definition handled_operations :: "string \<Rightarrow> string list" where
  "handled_operations resource =
     (if resource = ''company'' \<or> resource = ''contact''
        then [''get'', ''getAll'', ''search'', ''create'', ''update'', ''import'']
      else if resource = ''deal'' then [''get'', ''getAll'', ''search'', ''create'', ''update'']
      else if resource = ''note'' then [''get'', ''getAll'', ''search'', ''create'']
      else if resource = ''task'' then [''search'', ''create'']
      else if resource = ''activity'' \<or> resource = ''user'' then [''get'', ''getAll'', ''search'']
      else if resource = ''import'' then [''get'', ''getAll'']
      else [])"

definition collection_of :: "string \<Rightarrow> string" where
  "collection_of resource =
     (if resource = ''company'' then ''Accounts''
      else if resource = ''contact'' then ''Prospects''
      else if resource = ''deal'' then ''Opportunities''
      else if resource = ''note'' then ''Notes''
      else if resource = ''task'' then ''Tasks''
      else if resource = ''activity'' then ''Activities''
      else if resource = ''user'' then ''Users''
      else if resource = ''import'' then ''Import''
      else [])"

text \<open>The resource and operation pairs whose branch builds a search body.\<close>

definition search_branch :: "string \<Rightarrow> jsvalue \<Rightarrow> bool" where
  "search_branch resource operation =
     (resource \<in> set [''list'', ''strategy'', ''externalProperty'']
      \<or> (resource \<in> set [''company'', ''contact'', ''deal'', ''note'', ''task'', ''activity'', ''user'']
           \<and> operation = JStr ''search''))"

text \<open>The errors of the helpers, as opposed to the one of the \<^verbatim>\<open>default\<close> branch.\<close>

fun helper_error :: "error \<Rightarrow> bool" where
  "helper_error TypeError = True"
| "helper_error (CouldNotGetParameter n) = True"
| "helper_error (NodeOperationError m j) = (case m of [] \<Rightarrow> False | c # _ \<Rightarrow> c = CHR ''P'')"

text \<open>The same context with other values for the two Additional-Fields parameters.\<close>

definition with_additional_fields :: "execute_functions \<Rightarrow> jsvalue option \<Rightarrow> execute_functions" where
  "with_additional_fields ex a =
     ex\<lparr>parameters := (\<lambda>itemIndex name.
           if name = ''searchAdditionalFields'' \<or> name = ''dataAdditionalFields'' then a
           else parameters ex itemIndex name)\<rparr>"

lemma getNodeParameterRequired_Some:
  "parameters ex i name = Some v \<Longrightarrow> v \<noteq> JUndefined \<Longrightarrow> getNodeParameterRequired ex name i = Inr v"
  by (cases v) (simp_all add: getNodeParameterRequired_def)

lemma build_request_dispatch:
  assumes "parameters ex i ''resource'' = Some resource" and "resource \<noteq> JUndefined"
      and "parameters ex i ''operation'' = Some operation" and "operation \<noteq> JUndefined"
  shows "build_request ex i =
     (let basePath = basePath_of ex i;
          useRawJsonData = getNodeParameter ex ''useRawJsonData'' i (JBool False);
          useRawJsonSearch = getNodeParameter ex ''useRawJsonSearch'' i (JBool False);
          qs = shared_qs ex i operation
      in if resource = JStr ''company'' then company_case ex i basePath operation useRawJsonData useRawJsonSearch qs
         else if resource = JStr ''contact'' then contact_case ex i basePath operation useRawJsonData useRawJsonSearch qs
         else if resource = JStr ''deal'' then deal_case ex i basePath operation useRawJsonData useRawJsonSearch qs
         else if resource = JStr ''note'' then note_case ex i basePath operation useRawJsonData useRawJsonSearch qs
         else if resource = JStr ''task'' then task_case ex i basePath operation useRawJsonData useRawJsonSearch qs
         else if resource = JStr ''activity'' then activity_case ex i basePath operation useRawJsonData useRawJsonSearch qs
         else if resource = JStr ''list'' then list_case ex i basePath operation useRawJsonData useRawJsonSearch qs
         else if resource = JStr ''pipeline'' then pipeline_case ex i basePath operation useRawJsonData useRawJsonSearch qs
         else if resource = JStr ''strategy'' then strategy_case ex i basePath operation useRawJsonData useRawJsonSearch qs
         else if resource = JStr ''externalProperty'' then externalProperty_case ex i basePath operation useRawJsonData useRawJsonSearch qs
         else if resource = JStr ''user'' then user_case ex i basePath operation useRawJsonData useRawJsonSearch qs
         else if resource = JStr ''import'' then import_case ex i basePath operation useRawJsonData useRawJsonSearch qs
         else Inl (NodeOperationError (unsupported_resource_message resource) i))"
  unfolding build_request_def basePath_of_def shared_qs_def
  by (simp add: getNodeParameterRequired_Some[OF assms(1,2)] getNodeParameterRequired_Some[OF assms(3,4)] Let_def)

lemmas case_defs =
  company_case_def contact_case_def deal_case_def note_case_def task_case_def activity_case_def
  list_case_def pipeline_case_def strategy_case_def externalProperty_case_def user_case_def
  import_case_def

section \<open>The import listing\<close>

text \<open>
  Claim C3.  With resource \<^verbatim>\<open>import\<close>, operation \<^verbatim>\<open>getAll\<close>, import type \<^verbatim>\<open>Account\<close> and an
  empty import status (and the API version left at \<^verbatim>\<open>1\<close>), the dispatcher produces a GET
  request to \<^verbatim>\<open>/api/v1/Import\<close> without body, whose query mapping has the key \<^verbatim>\<open>type\<close> with
  value \<^verbatim>\<open>Account\<close> and does not have the key \<^verbatim>\<open>statusType\<close>; the mapping is the
  \<^verbatim>\<open>limit\<close>/\<^verbatim>\<open>offset\<close> pair of every \<^verbatim>\<open>getAll\<close> followed by \<^verbatim>\<open>type\<close>.
\<close>

theorem import_getAll_type_without_status:
  assumes "parameters ex i ''resource'' = Some (JStr ''import'')"
      and "parameters ex i ''operation'' = Some (JStr ''getAll'')"
      and "parameters ex i ''importType'' = Some (JStr ''Account'')"
      and "parameters ex i ''importStatus'' = Some (JStr '''')"
      and "parameters ex i ''apiVersion'' = None \<or> parameters ex i ''apiVersion'' = Some (JStr ''1'')"
  shows "\<exists>r. build_request ex i = Inr r
           \<and> req_method r = ''GET''
           \<and> req_endpoint r = ''/api/v1/Import''
           \<and> req_body r = JUndefined
           \<and> get_prop (req_qs r) ''type'' = JStr ''Account''
           \<and> has_key (req_qs r) ''type''
           \<and> \<not> has_key (req_qs r) ''statusType''
           \<and> req_qs r = JObj [(''limit'', getNodeParameter ex ''limit'' i (JNum 50)),
                               (''offset'', getNodeParameter ex ''offset'' i (JNum 0)),
                               (''type'', JStr ''Account'')]"
proof -
  have v: "getNodeParameter ex ''apiVersion'' i (JStr ''1'') = JStr ''1''"
    using assms(5) by (auto simp: getNodeParameter_def)
  have "build_request ex i = Inr \<lparr>req_method = ''GET'', req_endpoint = ''/api/v1/Import'',
            req_qs = JObj [(''limit'', getNodeParameter ex ''limit'' i (JNum 50)),
                           (''offset'', getNodeParameter ex ''offset'' i (JNum 0)),
                           (''type'', JStr ''Account'')],
            req_body = JUndefined\<rparr>"
    by (simp add: build_request_dispatch[OF assms(1) _ assms(2)] import_case_def basePath_of_def
          shared_qs_def v getNodeParameterRequired_Some[OF assms(3)]
          getNodeParameterRequired_Some[OF assms(4)] assign_if_def)
  then show ?thesis
    by (simp add: has_key_def get_prop_def)
qed

theorem import_getAll_type_without_status_witness:
  "\<exists>r. build_request (example_functions [(''resource'', JStr ''import''), (''operation'', JStr ''getAll''),
            (''importType'', JStr ''Account''), (''importStatus'', JStr '''')]) 0 = Inr r
       \<and> req_method r = ''GET''
       \<and> req_endpoint r = ''/api/v1/Import''
       \<and> req_qs r = JObj [(''limit'', JNum 50), (''offset'', JNum 0), (''type'', JStr ''Account'')]"
  using import_getAll_type_without_status
          [of "example_functions [(''resource'', JStr ''import''), (''operation'', JStr ''getAll''),
                 (''importType'', JStr ''Account''), (''importStatus'', JStr '''')]" 0]
  by (auto simp: example_functions_def getNodeParameter_def)

section \<open>Which errors the branches raise\<close>

lemma case_sum_InlE:
  assumes "(case m of Inl e \<Rightarrow> Inl e | Inr x \<Rightarrow> f x) = Inl e'"
  obtains "m = Inl e'" | x where "m = Inr x" and "f x = Inl e'"
  using assms by (cases m) auto

lemma invalid_json_helper_error: "helper_error (NodeOperationError (invalid_json_message n) j)"
  by (simp add: invalid_json_message_def)

lemma getJsonParameter_error: "getJsonParameter ex n i d = Inl e \<Longrightarrow> helper_error e"
  by (auto simp: getJsonParameter_def Let_def invalid_json_message_def
           split: if_splits jsvalue.splits option.splits)

lemma parseCsv_error: "parseCsv v = Inl e \<Longrightarrow> helper_error e"
  by (auto simp: parseCsv_def split: if_splits jsvalue.splits)

lemma get_member_error: "get_member v k = Inl e \<Longrightarrow> helper_error e"
  by (auto simp: get_member_def split: jsvalue.splits)

lemma getNodeParameterRequired_error: "getNodeParameterRequired ex n i = Inl e \<Longrightarrow> helper_error e"
  by (auto simp: getNodeParameterRequired_def split: option.splits jsvalue.splits)

lemma additional_loop_error: "additional_loop entries acc = Inl e \<Longrightarrow> helper_error e"
  by (induction entries acc rule: additional_loop.induct)
     (auto simp: Let_def dest: get_member_error split: sum.splits if_splits)

lemma getAdditionalFields_error: "getAdditionalFields ex n i = Inl e \<Longrightarrow> helper_error e"
  by (auto simp: getAdditionalFields_def dest: additional_loop_error split: jsvalue.splits)
     (metis additional_loop_error map_sum.simps(2) old.sum.exhaust sum.distinct(1) sum.inject(1) map_sum.simps(1) id_apply)

lemma map_result_error:
  "map_result f xs = Inl e \<Longrightarrow> (\<And>x e'. f x = Inl e' \<Longrightarrow> helper_error e') \<Longrightarrow> helper_error e"
  by (induction xs arbitrary: e) (auto split: sum.splits)

lemma map_member_error:
  "map_member v m f = Inl e \<Longrightarrow> (\<And>x e'. f x = Inl e' \<Longrightarrow> helper_error e') \<Longrightarrow> helper_error e"
  by (auto simp: map_member_def dest: get_member_error map_result_error split: sum.splits jsvalue.splits if_splits)

lemma companyImportAccount_error: "companyImportAccount x = Inl e \<Longrightarrow> helper_error e"
  by (auto simp: companyImportAccount_def Let_def dest: get_member_error split: sum.splits)

lemma contactImportProspect_error: "contactImportProspect x = Inl e \<Longrightarrow> helper_error e"
  by (auto simp: contactImportProspect_def Let_def dest: get_member_error split: sum.splits)

lemma companyImportAccounts_map_error: "companyImportAccounts_map v = Inl e \<Longrightarrow> helper_error e"
  unfolding companyImportAccounts_map_def
  by (erule map_member_error) (rule companyImportAccount_error)

lemma contactImportProspects_map_error: "contactImportProspects_map v = Inl e \<Longrightarrow> helper_error e"
  unfolding contactImportProspects_map_def
  by (erule map_member_error) (rule contactImportProspect_error)

lemmas helper_errors =
  getJsonParameter_error parseCsv_error get_member_error getNodeParameterRequired_error
  getAdditionalFields_error companyImportAccounts_map_error contactImportProspects_map_error

lemma companySearchBody_error: "companySearchBody ex i = Inl e \<Longrightarrow> helper_error e"
  unfolding companySearchBody_def Let_def
  by (elim case_sum_InlE) (auto dest: helper_errors)

lemma companyCreateData_error: "companyCreateData ex i = Inl e \<Longrightarrow> helper_error e"
  unfolding companyCreateData_def Let_def
  by (elim case_sum_InlE) (auto dest: helper_errors)

lemma companyUpdateData_error: "companyUpdateData ex i = Inl e \<Longrightarrow> helper_error e"
  unfolding companyUpdateData_def Let_def
  by (elim case_sum_InlE) (auto dest: helper_errors)

lemma companyImportData_error: "companyImportData ex i = Inl e \<Longrightarrow> helper_error e"
  unfolding companyImportData_def Let_def
  by (elim case_sum_InlE) (auto dest: helper_errors)

lemma contactSearchBody_error: "contactSearchBody ex i = Inl e \<Longrightarrow> helper_error e"
  unfolding contactSearchBody_def Let_def
  by (elim case_sum_InlE) (auto dest: helper_errors)

lemma contactCreateData_error: "contactCreateData ex i = Inl e \<Longrightarrow> helper_error e"
  unfolding contactCreateData_def Let_def
  by (elim case_sum_InlE) (auto dest: helper_errors)

lemma contactUpdateData_error: "contactUpdateData ex i = Inl e \<Longrightarrow> helper_error e"
  unfolding contactUpdateData_def Let_def
  by (elim case_sum_InlE) (auto dest: helper_errors)

lemma contactImportData_error: "contactImportData ex i = Inl e \<Longrightarrow> helper_error e"
  unfolding contactImportData_def Let_def
  by (elim case_sum_InlE) (auto dest: helper_errors)

lemma dealSearchBody_error: "dealSearchBody ex i = Inl e \<Longrightarrow> helper_error e"
  unfolding dealSearchBody_def Let_def
  by (elim case_sum_InlE) (auto dest: helper_errors)

lemma dealCreateData_error: "dealCreateData ex i = Inl e \<Longrightarrow> helper_error e"
  unfolding dealCreateData_def Let_def
  by (elim case_sum_InlE) (auto dest: helper_errors)

lemma dealUpdateData_error: "dealUpdateData ex i = Inl e \<Longrightarrow> helper_error e"
  unfolding dealUpdateData_def Let_def
  by (elim case_sum_InlE) (auto dest: helper_errors)

lemma noteSearchBody_error: "noteSearchBody ex i = Inl e \<Longrightarrow> helper_error e"
  unfolding noteSearchBody_def Let_def
  by (elim case_sum_InlE) (auto dest: helper_errors)

lemma noteCreateData_error: "noteCreateData ex i = Inl e \<Longrightarrow> helper_error e"
  unfolding noteCreateData_def Let_def
  by (elim case_sum_InlE) (auto dest: helper_errors)

lemma taskSearchBody_error: "taskSearchBody ex i = Inl e \<Longrightarrow> helper_error e"
  unfolding taskSearchBody_def Let_def
  by (elim case_sum_InlE) (auto dest: helper_errors)

lemma taskCreateData_error: "taskCreateData ex i = Inl e \<Longrightarrow> helper_error e"
  unfolding taskCreateData_def Let_def
  by (elim case_sum_InlE) (auto dest: helper_errors)

lemma activitySearchBody_error: "activitySearchBody ex i = Inl e \<Longrightarrow> helper_error e"
  unfolding activitySearchBody_def Let_def
  by (elim case_sum_InlE) (auto dest: helper_errors)

lemma listSearchBody_error: "listSearchBody ex i = Inl e \<Longrightarrow> helper_error e"
  unfolding listSearchBody_def Let_def
  by (elim case_sum_InlE) (auto dest: helper_errors)

lemma strategyDetailsBody_error: "strategyDetailsBody ex i = Inl e \<Longrightarrow> helper_error e"
  unfolding strategyDetailsBody_def Let_def
  by (elim case_sum_InlE) (auto dest: helper_errors)

lemma strategySearchBody_error: "strategySearchBody ex i = Inl e \<Longrightarrow> helper_error e"
  unfolding strategySearchBody_def Let_def
  by (elim case_sum_InlE) (auto dest: helper_errors)

lemma externalPropertySearchBody_error: "externalPropertySearchBody ex i = Inl e \<Longrightarrow> helper_error e"
  unfolding externalPropertySearchBody_def Let_def
  by (elim case_sum_InlE) (auto dest: helper_errors)

lemma userSearchBody_error: "userSearchBody ex i = Inl e \<Longrightarrow> helper_error e"
  unfolding userSearchBody_def Let_def
  by (elim case_sum_InlE) (auto dest: helper_errors)

lemmas body_errors =
  companySearchBody_error companyCreateData_error companyUpdateData_error companyImportData_error contactSearchBody_error contactCreateData_error contactUpdateData_error contactImportData_error dealSearchBody_error dealCreateData_error dealUpdateData_error noteSearchBody_error noteCreateData_error taskSearchBody_error taskCreateData_error activitySearchBody_error listSearchBody_error strategyDetailsBody_error strategySearchBody_error externalPropertySearchBody_error userSearchBody_error

lemma data_payload_error:
  "data_payload ex i raw structured = Inl e \<Longrightarrow> (\<And>e'. structured ex i = Inl e' \<Longrightarrow> helper_error e') \<Longrightarrow> helper_error e"
  by (auto simp: data_payload_def dest: getJsonParameter_error split: if_splits)
     (metis map_sum.simps(1) map_sum.simps(2) id_apply old.sum.exhaust sum.distinct(1) sum.inject(1))

lemma company_case_error: "company_case ex i basePath operation rawData rawSearch qs = Inl e \<Longrightarrow> helper_error e"
  unfolding company_case_def Let_def
  by (auto dest: helper_errors body_errors data_payload_error split: if_splits sum.splits)

lemma contact_case_error: "contact_case ex i basePath operation rawData rawSearch qs = Inl e \<Longrightarrow> helper_error e"
  unfolding contact_case_def Let_def
  by (auto dest: helper_errors body_errors data_payload_error split: if_splits sum.splits)

lemma deal_case_error: "deal_case ex i basePath operation rawData rawSearch qs = Inl e \<Longrightarrow> helper_error e"
  unfolding deal_case_def Let_def
  by (auto dest: helper_errors body_errors data_payload_error split: if_splits sum.splits)

lemma note_case_error: "note_case ex i basePath operation rawData rawSearch qs = Inl e \<Longrightarrow> helper_error e"
  unfolding note_case_def Let_def
  by (auto dest: helper_errors body_errors data_payload_error split: if_splits sum.splits)

lemma task_case_error: "task_case ex i basePath operation rawData rawSearch qs = Inl e \<Longrightarrow> helper_error e"
  unfolding task_case_def Let_def
  by (auto dest: helper_errors body_errors data_payload_error split: if_splits sum.splits)

lemma activity_case_error: "activity_case ex i basePath operation rawData rawSearch qs = Inl e \<Longrightarrow> helper_error e"
  unfolding activity_case_def Let_def
  by (auto dest: helper_errors body_errors data_payload_error split: if_splits sum.splits)

lemma list_case_error: "list_case ex i basePath operation rawData rawSearch qs = Inl e \<Longrightarrow> helper_error e"
  unfolding list_case_def Let_def
  by (auto dest: helper_errors body_errors data_payload_error split: if_splits sum.splits)

lemma pipeline_case_error: "pipeline_case ex i basePath operation rawData rawSearch qs = Inl e \<Longrightarrow> helper_error e"
  unfolding pipeline_case_def Let_def
  by (auto dest: helper_errors body_errors data_payload_error split: if_splits sum.splits)

lemma strategy_case_error: "strategy_case ex i basePath operation rawData rawSearch qs = Inl e \<Longrightarrow> helper_error e"
  unfolding strategy_case_def Let_def
  by (auto dest: helper_errors body_errors data_payload_error split: if_splits sum.splits)

lemma externalProperty_case_error: "externalProperty_case ex i basePath operation rawData rawSearch qs = Inl e \<Longrightarrow> helper_error e"
  unfolding externalProperty_case_def Let_def
  by (auto dest: helper_errors body_errors data_payload_error split: if_splits sum.splits)

lemma user_case_error: "user_case ex i basePath operation rawData rawSearch qs = Inl e \<Longrightarrow> helper_error e"
  unfolding user_case_def Let_def
  by (auto dest: helper_errors body_errors data_payload_error split: if_splits sum.splits)

lemma import_case_error: "import_case ex i basePath operation rawData rawSearch qs = Inl e \<Longrightarrow> helper_error e"
  unfolding import_case_def Let_def
  by (auto dest: helper_errors body_errors data_payload_error split: if_splits sum.splits)

lemmas case_errors =
  company_case_error contact_case_error deal_case_error note_case_error task_case_error activity_case_error list_case_error pipeline_case_error strategy_case_error externalProperty_case_error user_case_error import_case_error


lemma unsupported_not_helper_error:
  "\<not> helper_error (NodeOperationError (unsupported_resource_message resource) j)"
  by (simp add: unsupported_resource_message_def)

lemma build_request_company:
  assumes "parameters ex i ''resource'' = Some (JStr ''company'')"
      and "parameters ex i ''operation'' = Some operation" and "operation \<noteq> JUndefined"
  shows "build_request ex i =
           company_case ex i (basePath_of ex i) operation
             (getNodeParameter ex ''useRawJsonData'' i (JBool False))
             (getNodeParameter ex ''useRawJsonSearch'' i (JBool False)) (shared_qs ex i operation)"
  by (simp add: build_request_dispatch[OF assms(1) _ assms(2,3)] Let_def)

lemma build_request_contact:
  assumes "parameters ex i ''resource'' = Some (JStr ''contact'')"
      and "parameters ex i ''operation'' = Some operation" and "operation \<noteq> JUndefined"
  shows "build_request ex i =
           contact_case ex i (basePath_of ex i) operation
             (getNodeParameter ex ''useRawJsonData'' i (JBool False))
             (getNodeParameter ex ''useRawJsonSearch'' i (JBool False)) (shared_qs ex i operation)"
  by (simp add: build_request_dispatch[OF assms(1) _ assms(2,3)] Let_def)

lemma build_request_deal:
  assumes "parameters ex i ''resource'' = Some (JStr ''deal'')"
      and "parameters ex i ''operation'' = Some operation" and "operation \<noteq> JUndefined"
  shows "build_request ex i =
           deal_case ex i (basePath_of ex i) operation
             (getNodeParameter ex ''useRawJsonData'' i (JBool False))
             (getNodeParameter ex ''useRawJsonSearch'' i (JBool False)) (shared_qs ex i operation)"
  by (simp add: build_request_dispatch[OF assms(1) _ assms(2,3)] Let_def)

lemma build_request_note:
  assumes "parameters ex i ''resource'' = Some (JStr ''note'')"
      and "parameters ex i ''operation'' = Some operation" and "operation \<noteq> JUndefined"
  shows "build_request ex i =
           note_case ex i (basePath_of ex i) operation
             (getNodeParameter ex ''useRawJsonData'' i (JBool False))
             (getNodeParameter ex ''useRawJsonSearch'' i (JBool False)) (shared_qs ex i operation)"
  by (simp add: build_request_dispatch[OF assms(1) _ assms(2,3)] Let_def)

lemma build_request_task:
  assumes "parameters ex i ''resource'' = Some (JStr ''task'')"
      and "parameters ex i ''operation'' = Some operation" and "operation \<noteq> JUndefined"
  shows "build_request ex i =
           task_case ex i (basePath_of ex i) operation
             (getNodeParameter ex ''useRawJsonData'' i (JBool False))
             (getNodeParameter ex ''useRawJsonSearch'' i (JBool False)) (shared_qs ex i operation)"
  by (simp add: build_request_dispatch[OF assms(1) _ assms(2,3)] Let_def)

lemma build_request_activity:
  assumes "parameters ex i ''resource'' = Some (JStr ''activity'')"
      and "parameters ex i ''operation'' = Some operation" and "operation \<noteq> JUndefined"
  shows "build_request ex i =
           activity_case ex i (basePath_of ex i) operation
             (getNodeParameter ex ''useRawJsonData'' i (JBool False))
             (getNodeParameter ex ''useRawJsonSearch'' i (JBool False)) (shared_qs ex i operation)"
  by (simp add: build_request_dispatch[OF assms(1) _ assms(2,3)] Let_def)

lemma build_request_list:
  assumes "parameters ex i ''resource'' = Some (JStr ''list'')"
      and "parameters ex i ''operation'' = Some operation" and "operation \<noteq> JUndefined"
  shows "build_request ex i =
           list_case ex i (basePath_of ex i) operation
             (getNodeParameter ex ''useRawJsonData'' i (JBool False))
             (getNodeParameter ex ''useRawJsonSearch'' i (JBool False)) (shared_qs ex i operation)"
  by (simp add: build_request_dispatch[OF assms(1) _ assms(2,3)] Let_def)

lemma build_request_pipeline:
  assumes "parameters ex i ''resource'' = Some (JStr ''pipeline'')"
      and "parameters ex i ''operation'' = Some operation" and "operation \<noteq> JUndefined"
  shows "build_request ex i =
           pipeline_case ex i (basePath_of ex i) operation
             (getNodeParameter ex ''useRawJsonData'' i (JBool False))
             (getNodeParameter ex ''useRawJsonSearch'' i (JBool False)) (shared_qs ex i operation)"
  by (simp add: build_request_dispatch[OF assms(1) _ assms(2,3)] Let_def)

lemma build_request_strategy:
  assumes "parameters ex i ''resource'' = Some (JStr ''strategy'')"
      and "parameters ex i ''operation'' = Some operation" and "operation \<noteq> JUndefined"
  shows "build_request ex i =
           strategy_case ex i (basePath_of ex i) operation
             (getNodeParameter ex ''useRawJsonData'' i (JBool False))
             (getNodeParameter ex ''useRawJsonSearch'' i (JBool False)) (shared_qs ex i operation)"
  by (simp add: build_request_dispatch[OF assms(1) _ assms(2,3)] Let_def)

lemma build_request_externalProperty:
  assumes "parameters ex i ''resource'' = Some (JStr ''externalProperty'')"
      and "parameters ex i ''operation'' = Some operation" and "operation \<noteq> JUndefined"
  shows "build_request ex i =
           externalProperty_case ex i (basePath_of ex i) operation
             (getNodeParameter ex ''useRawJsonData'' i (JBool False))
             (getNodeParameter ex ''useRawJsonSearch'' i (JBool False)) (shared_qs ex i operation)"
  by (simp add: build_request_dispatch[OF assms(1) _ assms(2,3)] Let_def)

lemma build_request_user:
  assumes "parameters ex i ''resource'' = Some (JStr ''user'')"
      and "parameters ex i ''operation'' = Some operation" and "operation \<noteq> JUndefined"
  shows "build_request ex i =
           user_case ex i (basePath_of ex i) operation
             (getNodeParameter ex ''useRawJsonData'' i (JBool False))
             (getNodeParameter ex ''useRawJsonSearch'' i (JBool False)) (shared_qs ex i operation)"
  by (simp add: build_request_dispatch[OF assms(1) _ assms(2,3)] Let_def)

lemma build_request_import:
  assumes "parameters ex i ''resource'' = Some (JStr ''import'')"
      and "parameters ex i ''operation'' = Some operation" and "operation \<noteq> JUndefined"
  shows "build_request ex i =
           import_case ex i (basePath_of ex i) operation
             (getNodeParameter ex ''useRawJsonData'' i (JBool False))
             (getNodeParameter ex ''useRawJsonSearch'' i (JBool False)) (shared_qs ex i operation)"
  by (simp add: build_request_dispatch[OF assms(1) _ assms(2,3)] Let_def)

lemmas build_request_cases =
  build_request_company build_request_contact build_request_deal build_request_note build_request_task build_request_activity build_request_list build_request_pipeline build_request_strategy build_request_externalProperty build_request_user build_request_import

lemma company_case_unhandled:
  assumes "operation \<notin> JStr ` set (handled_operations ''company'')"
  shows "company_case ex i basePath operation rawData rawSearch qs =
           Inr \<lparr>req_method = ''GET'', req_endpoint = basePath @ ''/'' @ collection_of ''company'',
                req_qs = qs, req_body = JUndefined\<rparr>"
  using assms by (simp add: company_case_def handled_operations_def collection_of_def Let_def)

lemma contact_case_unhandled:
  assumes "operation \<notin> JStr ` set (handled_operations ''contact'')"
  shows "contact_case ex i basePath operation rawData rawSearch qs =
           Inr \<lparr>req_method = ''GET'', req_endpoint = basePath @ ''/'' @ collection_of ''contact'',
                req_qs = qs, req_body = JUndefined\<rparr>"
  using assms by (simp add: contact_case_def handled_operations_def collection_of_def Let_def)

lemma deal_case_unhandled:
  assumes "operation \<notin> JStr ` set (handled_operations ''deal'')"
  shows "deal_case ex i basePath operation rawData rawSearch qs =
           Inr \<lparr>req_method = ''GET'', req_endpoint = basePath @ ''/'' @ collection_of ''deal'',
                req_qs = qs, req_body = JUndefined\<rparr>"
  using assms by (simp add: deal_case_def handled_operations_def collection_of_def Let_def)

lemma note_case_unhandled:
  assumes "operation \<notin> JStr ` set (handled_operations ''note'')"
  shows "note_case ex i basePath operation rawData rawSearch qs =
           Inr \<lparr>req_method = ''GET'', req_endpoint = basePath @ ''/'' @ collection_of ''note'',
                req_qs = qs, req_body = JUndefined\<rparr>"
  using assms by (simp add: note_case_def handled_operations_def collection_of_def Let_def)

lemma task_case_unhandled:
  assumes "operation \<notin> JStr ` set (handled_operations ''task'')"
  shows "task_case ex i basePath operation rawData rawSearch qs =
           Inr \<lparr>req_method = ''GET'', req_endpoint = basePath @ ''/'' @ collection_of ''task'',
                req_qs = qs, req_body = JUndefined\<rparr>"
  using assms by (simp add: task_case_def handled_operations_def collection_of_def Let_def)

lemma activity_case_unhandled:
  assumes "operation \<notin> JStr ` set (handled_operations ''activity'')"
  shows "activity_case ex i basePath operation rawData rawSearch qs =
           Inr \<lparr>req_method = ''GET'', req_endpoint = basePath @ ''/'' @ collection_of ''activity'',
                req_qs = qs, req_body = JUndefined\<rparr>"
  using assms by (simp add: activity_case_def handled_operations_def collection_of_def Let_def)

lemma user_case_unhandled:
  assumes "operation \<notin> JStr ` set (handled_operations ''user'')"
  shows "user_case ex i basePath operation rawData rawSearch qs =
           Inr \<lparr>req_method = ''GET'', req_endpoint = basePath @ ''/'' @ collection_of ''user'',
                req_qs = qs, req_body = JUndefined\<rparr>"
  using assms by (simp add: user_case_def handled_operations_def collection_of_def Let_def)

lemma import_case_unhandled:
  assumes "operation \<notin> JStr ` set (handled_operations ''import'')"
  shows "import_case ex i basePath operation rawData rawSearch qs =
           Inr \<lparr>req_method = ''GET'', req_endpoint = basePath @ ''/'' @ collection_of ''import'',
                req_qs = qs, req_body = JUndefined\<rparr>"
  using assms by (simp add: import_case_def handled_operations_def collection_of_def Let_def)

lemmas case_unhandled =
  company_case_unhandled contact_case_unhandled deal_case_unhandled note_case_unhandled task_case_unhandled activity_case_unhandled user_case_unhandled import_case_unhandled








section \<open>Unsupported resources and unhandled operations\<close>




section \<open>The get operations\<close>

lemma getNodeParameter_with_additional_fields:
  "name \<noteq> ''searchAdditionalFields'' \<Longrightarrow> name \<noteq> ''dataAdditionalFields'' \<Longrightarrow>
   getNodeParameter (with_additional_fields ex a) name i d = getNodeParameter ex name i d"
  by (simp add: getNodeParameter_def with_additional_fields_def)

lemma getNodeParameterRequired_with_additional_fields:
  "name \<noteq> ''searchAdditionalFields'' \<Longrightarrow> name \<noteq> ''dataAdditionalFields'' \<Longrightarrow>
   getNodeParameterRequired (with_additional_fields ex a) name i = getNodeParameterRequired ex name i"
  by (simp add: getNodeParameterRequired_def with_additional_fields_def)

lemma getJsonParameter_with_additional_fields:
  "name \<noteq> ''searchAdditionalFields'' \<Longrightarrow> name \<noteq> ''dataAdditionalFields'' \<Longrightarrow>
   getJsonParameter (with_additional_fields ex a) name i d = getJsonParameter ex name i d"
proof -
  assume n: "name \<noteq> ''searchAdditionalFields''" "name \<noteq> ''dataAdditionalFields''"
  have p: "json_parse (with_additional_fields ex a) = json_parse ex"
    by (simp add: with_additional_fields_def)
  show ?thesis
    unfolding getJsonParameter_def p getNodeParameter_with_additional_fields[OF n] ..
qed

lemma parameters_with_additional_fields:
  "name \<noteq> ''searchAdditionalFields'' \<Longrightarrow> name \<noteq> ''dataAdditionalFields'' \<Longrightarrow>
   parameters (with_additional_fields ex a) i name = parameters ex i name"
  by (simp add: with_additional_fields_def)

lemma basePath_of_with_additional_fields:
  "basePath_of (with_additional_fields ex a) i = basePath_of ex i"
  by (simp add: basePath_of_def getNodeParameter_with_additional_fields)

lemma shared_qs_with_additional_fields:
  "shared_qs (with_additional_fields ex a) i operation = shared_qs ex i operation"
  by (simp add: shared_qs_def getNodeParameter_with_additional_fields)

lemmas with_additional_fields_simps =
  getNodeParameter_with_additional_fields getNodeParameterRequired_with_additional_fields
  getJsonParameter_with_additional_fields basePath_of_with_additional_fields
  shared_qs_with_additional_fields

lemma company_case_get:
  assumes "company_case ex i basePath (JStr ''get'') rawData rawSearch qs = Inr r"
  shows "req_method r = ''GET'' \<and> req_body r = JUndefined \<and> getJsonParameter ex ''includeOptions'' i (JObj []) = Inr (req_qs r)"
  using assms unfolding company_case_def Let_def
  by (auto split: sum.splits)

lemma company_case_get_with_additional_fields:
  "company_case (with_additional_fields ex a) i basePath (JStr ''get'') rawData rawSearch qs
     = company_case ex i basePath (JStr ''get'') rawData rawSearch qs"
  unfolding company_case_def Let_def
  by (simp add: with_additional_fields_simps cong: sum.case_cong)

lemma contact_case_get:
  assumes "contact_case ex i basePath (JStr ''get'') rawData rawSearch qs = Inr r"
  shows "req_method r = ''GET'' \<and> req_body r = JUndefined \<and> getJsonParameter ex ''includeOptions'' i (JObj []) = Inr (req_qs r)"
  using assms unfolding contact_case_def Let_def
  by (auto split: sum.splits)

lemma contact_case_get_with_additional_fields:
  "contact_case (with_additional_fields ex a) i basePath (JStr ''get'') rawData rawSearch qs
     = contact_case ex i basePath (JStr ''get'') rawData rawSearch qs"
  unfolding contact_case_def Let_def
  by (simp add: with_additional_fields_simps cong: sum.case_cong)

lemma deal_case_get:
  assumes "deal_case ex i basePath (JStr ''get'') rawData rawSearch qs = Inr r"
  shows "req_method r = ''GET'' \<and> req_body r = JUndefined \<and> getJsonParameter ex ''includeOptions'' i (JObj []) = Inr (req_qs r)"
  using assms unfolding deal_case_def Let_def
  by (auto split: sum.splits)

lemma deal_case_get_with_additional_fields:
  "deal_case (with_additional_fields ex a) i basePath (JStr ''get'') rawData rawSearch qs
     = deal_case ex i basePath (JStr ''get'') rawData rawSearch qs"
  unfolding deal_case_def Let_def
  by (simp add: with_additional_fields_simps cong: sum.case_cong)

lemma note_case_get:
  assumes "note_case ex i basePath (JStr ''get'') rawData rawSearch qs = Inr r"
  shows "req_method r = ''GET'' \<and> req_body r = JUndefined \<and> getJsonParameter ex ''includeOptions'' i (JObj []) = Inr (req_qs r)"
  using assms unfolding note_case_def Let_def
  by (auto split: sum.splits)

lemma note_case_get_with_additional_fields:
  "note_case (with_additional_fields ex a) i basePath (JStr ''get'') rawData rawSearch qs
     = note_case ex i basePath (JStr ''get'') rawData rawSearch qs"
  unfolding note_case_def Let_def
  by (simp add: with_additional_fields_simps cong: sum.case_cong)

lemma activity_case_get:
  assumes "activity_case ex i basePath (JStr ''get'') rawData rawSearch qs = Inr r"
  shows "req_method r = ''GET'' \<and> req_body r = JUndefined \<and> getJsonParameter ex ''includeOptions'' i (JObj []) = Inr (req_qs r)"
  using assms unfolding activity_case_def Let_def
  by (auto split: sum.splits)

lemma activity_case_get_with_additional_fields:
  "activity_case (with_additional_fields ex a) i basePath (JStr ''get'') rawData rawSearch qs
     = activity_case ex i basePath (JStr ''get'') rawData rawSearch qs"
  unfolding activity_case_def Let_def
  by (simp add: with_additional_fields_simps cong: sum.case_cong)

lemma user_case_get:
  assumes "user_case ex i basePath (JStr ''get'') rawData rawSearch qs = Inr r"
  shows "req_method r = ''GET'' \<and> req_body r = JUndefined \<and> req_qs r = qs"
  using assms unfolding user_case_def Let_def
  by (auto split: sum.splits)

lemma user_case_get_with_additional_fields:
  "user_case (with_additional_fields ex a) i basePath (JStr ''get'') rawData rawSearch qs
     = user_case ex i basePath (JStr ''get'') rawData rawSearch qs"
  unfolding user_case_def Let_def
  by (simp add: with_additional_fields_simps cong: sum.case_cong)

lemma import_case_get:
  assumes "import_case ex i basePath (JStr ''get'') rawData rawSearch qs = Inr r"
  shows "req_method r = ''GET'' \<and> req_body r = JUndefined \<and> req_qs r = qs"
  using assms unfolding import_case_def Let_def
  by (auto split: sum.splits)

lemma import_case_get_with_additional_fields:
  "import_case (with_additional_fields ex a) i basePath (JStr ''get'') rawData rawSearch qs
     = import_case ex i basePath (JStr ''get'') rawData rawSearch qs"
  unfolding import_case_def Let_def
  by (simp add: with_additional_fields_simps cong: sum.case_cong)

lemma get_request_with_additional_fields:
  assumes "parameters ex i ''resource'' = Some (JStr resource)"
      and "parameters ex i ''operation'' = Some (JStr ''get'')"
      and "resource \<in> set [''company'', ''contact'', ''deal'', ''note'', ''activity'', ''user'', ''import'']"
  shows "build_request (with_additional_fields ex a) i = build_request ex i"
proof -
  have res': "parameters (with_additional_fields ex a) i ''resource'' = Some (JStr resource)"
    using assms(1) by (simp add: parameters_with_additional_fields)
  have op': "parameters (with_additional_fields ex a) i ''operation'' = Some (JStr ''get'')"
    using assms(2) by (simp add: parameters_with_additional_fields)
  have nu: "JStr ''get'' \<noteq> JUndefined"
    by simp
  from assms(3) have "resource = ''company'' \<or> resource = ''contact'' \<or> resource = ''deal'' \<or> resource = ''note'' \<or> resource = ''activity'' \<or> resource = ''user'' \<or> resource = ''import''"
    by simp
  then show ?thesis
  proof (elim disjE)
    assume r: "resource = ''company''"
    show ?thesis
      unfolding build_request_company[OF assms(1)[unfolded r] assms(2) nu]
                build_request_company[OF res'[unfolded r] op' nu]
      by (simp add: with_additional_fields_simps company_case_get_with_additional_fields)
  next
    assume r: "resource = ''contact''"
    show ?thesis
      unfolding build_request_contact[OF assms(1)[unfolded r] assms(2) nu]
                build_request_contact[OF res'[unfolded r] op' nu]
      by (simp add: with_additional_fields_simps contact_case_get_with_additional_fields)
  next
    assume r: "resource = ''deal''"
    show ?thesis
      unfolding build_request_deal[OF assms(1)[unfolded r] assms(2) nu]
                build_request_deal[OF res'[unfolded r] op' nu]
      by (simp add: with_additional_fields_simps deal_case_get_with_additional_fields)
  next
    assume r: "resource = ''note''"
    show ?thesis
      unfolding build_request_note[OF assms(1)[unfolded r] assms(2) nu]
                build_request_note[OF res'[unfolded r] op' nu]
      by (simp add: with_additional_fields_simps note_case_get_with_additional_fields)
  next
    assume r: "resource = ''activity''"
    show ?thesis
      unfolding build_request_activity[OF assms(1)[unfolded r] assms(2) nu]
                build_request_activity[OF res'[unfolded r] op' nu]
      by (simp add: with_additional_fields_simps activity_case_get_with_additional_fields)
  next
    assume r: "resource = ''user''"
    show ?thesis
      unfolding build_request_user[OF assms(1)[unfolded r] assms(2) nu]
                build_request_user[OF res'[unfolded r] op' nu]
      by (simp add: with_additional_fields_simps user_case_get_with_additional_fields)
  next
    assume r: "resource = ''import''"
    show ?thesis
      unfolding build_request_import[OF assms(1)[unfolded r] assms(2) nu]
                build_request_import[OF res'[unfolded r] op' nu]
      by (simp add: with_additional_fields_simps import_case_get_with_additional_fields)
  qed
qed

lemma get_request_shape:
  assumes "parameters ex i ''resource'' = Some (JStr resource)"
      and "parameters ex i ''operation'' = Some (JStr ''get'')"
      and "resource \<in> set [''company'', ''contact'', ''deal'', ''note'', ''activity'', ''user'', ''import'']"
      and ok: "build_request ex i = Inr r"
  shows "req_method r = ''GET'' \<and> req_body r = JUndefined
           \<and> (if resource = ''user'' \<or> resource = ''import'' then req_qs r = JObj []
               else getJsonParameter ex ''includeOptions'' i (JObj []) = Inr (req_qs r))"
proof -
  have nu: "JStr ''get'' \<noteq> JUndefined"
    by simp
  have qs: "shared_qs ex i (JStr ''get'') = JObj []"
    by (simp add: shared_qs_def)
  from assms(3) have "resource = ''company'' \<or> resource = ''contact'' \<or> resource = ''deal'' \<or> resource = ''note'' \<or> resource = ''activity'' \<or> resource = ''user'' \<or> resource = ''import''"
    by simp
  then show ?thesis
  proof (elim disjE)
    assume r: "resource = ''company''"
    show ?thesis
      using company_case_get[OF ok[unfolded build_request_company[OF assms(1)[unfolded r] assms(2) nu]]]
      by (simp add: r qs)
  next
    assume r: "resource = ''contact''"
    show ?thesis
      using contact_case_get[OF ok[unfolded build_request_contact[OF assms(1)[unfolded r] assms(2) nu]]]
      by (simp add: r qs)
  next
    assume r: "resource = ''deal''"
    show ?thesis
      using deal_case_get[OF ok[unfolded build_request_deal[OF assms(1)[unfolded r] assms(2) nu]]]
      by (simp add: r qs)
  next
    assume r: "resource = ''note''"
    show ?thesis
      using note_case_get[OF ok[unfolded build_request_note[OF assms(1)[unfolded r] assms(2) nu]]]
      by (simp add: r qs)
  next
    assume r: "resource = ''activity''"
    show ?thesis
      using activity_case_get[OF ok[unfolded build_request_activity[OF assms(1)[unfolded r] assms(2) nu]]]
      by (simp add: r qs)
  next
    assume r: "resource = ''user''"
    show ?thesis
      using user_case_get[OF ok[unfolded build_request_user[OF assms(1)[unfolded r] assms(2) nu]]]
      by (simp add: r qs)
  next
    assume r: "resource = ''import''"
    show ?thesis
      using import_case_get[OF ok[unfolded build_request_import[OF assms(1)[unfolded r] assms(2) nu]]]
      by (simp add: r qs)
  qed
qed

lemma json_reader_withTeam: \<open>json_reader ''{"withTeam":true}'' = Some (JObj [(''withTeam'', JBool True)])\<close>
  by code_simp

text \<open>
  Claim C2, as the code has it.  For the \<^verbatim>\<open>get\<close> operation of company, contact, deal, note,
  activity, user and import: the request does not depend on the two Additional-Fields
  parameters, it is a GET without body, and its query mapping is the parsed include options
  for company, contact, deal, note and activity, and the empty mapping for user and import,
  whose branches never read the include options.
\<close>

theorem get_without_merge_forwards_include_options:
  assumes "parameters ex i ''resource'' = Some (JStr resource)"
      and "parameters ex i ''operation'' = Some (JStr ''get'')"
      and "resource \<in> set [''company'', ''contact'', ''deal'', ''note'', ''activity'', ''user'', ''import'']"
  shows "build_request (with_additional_fields ex a) i = build_request ex i
       \<and> (\<forall>r. build_request ex i = Inr r \<longrightarrow>
             req_method r = ''GET'' \<and> req_body r = JUndefined
             \<and> (if resource = ''user'' \<or> resource = ''import'' then req_qs r = JObj []
                 else getJsonParameter ex ''includeOptions'' i (JObj []) = Inr (req_qs r)))"
  using get_request_with_additional_fields[OF assms] get_request_shape[OF assms] by blast

theorem get_without_merge_forwards_include_options_witness:
  \<open>build_request (with_additional_fields
       (example_functions [(''resource'', JStr ''company''), (''operation'', JStr ''get''),
          (''objectId'', JStr ''123''), (''includeOptions'', JStr ''{"withTeam":true}'')])
       (Some (JArr [JObj [(''field'', JStr ''Name''), (''value'', JStr ''B'')]]))) 0
     = Inr \<lparr>req_method = ''GET'', req_endpoint = ''/api/v1/Accounts/123'',
            req_qs = JObj [(''withTeam'', JBool True)], req_body = JUndefined\<rparr>\<close>
proof -
  have "build_request (example_functions [(''resource'', JStr ''company''), (''operation'', JStr ''get''),
          (''objectId'', JStr ''123''), (''includeOptions'', JStr ''{\"withTeam\":true}'')]) 0
     = Inr \<lparr>req_method = ''GET'', req_endpoint = ''/api/v1/Accounts/123'',
            req_qs = JObj [(''withTeam'', JBool True)], req_body = JUndefined\<rparr>"
    by code_simp
  then show ?thesis
    using get_without_merge_forwards_include_options
            [of "example_functions [(''resource'', JStr ''company''), (''operation'', JStr ''get''),
                   (''objectId'', JStr ''123''), (''includeOptions'', JStr ''{\"withTeam\":true}'')]"
                0 "''company''" "Some (JArr [JObj [(''field'', JStr ''Name''), (''value'', JStr ''B'')]])"]
    by (simp add: example_functions_def)
qed

text \<open>
  The claim as the spec states it fails on user (and on import): the include options
  of the item are not forwarded, the query mapping of the request is empty.
\<close>

theorem user_get_include_options_counterexample:
  \<open>getJsonParameter
      (example_functions [(''resource'', JStr ''user''), (''operation'', JStr ''get''),
         (''userId'', JStr ''7''), (''includeOptions'', JStr ''{"withTeam":true}'')])
      ''includeOptions'' 0 (JObj []) = Inr (JObj [(''withTeam'', JBool True)])
   \<and> build_request
      (example_functions [(''resource'', JStr ''user''), (''operation'', JStr ''get''),
         (''userId'', JStr ''7''), (''includeOptions'', JStr ''{"withTeam":true}'')]) 0
     = Inr \<lparr>req_method = ''GET'', req_endpoint = ''/api/v1/Users/7'', req_qs = JObj [],
            req_body = JUndefined\<rparr>\<close>
  by code_simp

section \<open>The raw JSON search body\<close>

lemma getJsonParameter_object:
  assumes "parameters ex i name = Some (JStr s)" and "s \<noteq> ''''"
      and "json_parse ex s = Some (JObj kvs)"
  shows "getJsonParameter ex name i d = Inr (JObj kvs)"
proof -
  have "getNodeParameter ex name i d = JStr s"
    using assms(1) by (simp add: getNodeParameter_def)
  with assms(2,3) show ?thesis
    by (simp add: getJsonParameter_def)
qed

lemma company_case_raw_search:
  assumes "truthy rawSearch" and "getJsonParameter ex ''search'' i (JObj []) = Inr b"
  shows "\<exists>r. company_case ex i basePath (JStr ''search'') rawData rawSearch qs = Inr r
           \<and> req_method r = ''POST'' \<and> req_endpoint r = basePath @ ''/Accounts/search'' \<and> req_body r = b"
  unfolding company_case_def Let_def
  by (simp add: assms)

lemma contact_case_raw_search:
  assumes "truthy rawSearch" and "getJsonParameter ex ''search'' i (JObj []) = Inr b"
  shows "\<exists>r. contact_case ex i basePath (JStr ''search'') rawData rawSearch qs = Inr r
           \<and> req_method r = ''POST'' \<and> req_endpoint r = basePath @ ''/Prospects/search'' \<and> req_body r = b"
  unfolding contact_case_def Let_def
  by (simp add: assms)

lemma deal_case_raw_search:
  assumes "truthy rawSearch" and "getJsonParameter ex ''search'' i (JObj []) = Inr b"
  shows "\<exists>r. deal_case ex i basePath (JStr ''search'') rawData rawSearch qs = Inr r
           \<and> req_method r = ''POST'' \<and> req_endpoint r = basePath @ ''/Opportunities/search'' \<and> req_body r = b"
  unfolding deal_case_def Let_def
  by (simp add: assms)

lemma note_case_raw_search:
  assumes "truthy rawSearch" and "getJsonParameter ex ''search'' i (JObj []) = Inr b"
  shows "\<exists>r. note_case ex i basePath (JStr ''search'') rawData rawSearch qs = Inr r
           \<and> req_method r = ''POST'' \<and> req_endpoint r = basePath @ ''/Notes/search'' \<and> req_body r = b"
  unfolding note_case_def Let_def
  by (simp add: assms)

lemma task_case_raw_search:
  assumes "truthy rawSearch" and "getJsonParameter ex ''search'' i (JObj []) = Inr b"
  shows "\<exists>r. task_case ex i basePath (JStr ''search'') rawData rawSearch qs = Inr r
           \<and> req_method r = ''POST'' \<and> req_endpoint r = basePath @ ''/Tasks/search'' \<and> req_body r = b"
  unfolding task_case_def Let_def
  by (simp add: assms)

lemma activity_case_raw_search:
  assumes "truthy rawSearch" and "getJsonParameter ex ''search'' i (JObj []) = Inr b"
  shows "\<exists>r. activity_case ex i basePath (JStr ''search'') rawData rawSearch qs = Inr r
           \<and> req_method r = ''POST'' \<and> req_endpoint r = basePath @ ''/Activities/search'' \<and> req_body r = b"
  unfolding activity_case_def Let_def
  by (simp add: assms)

lemma user_case_raw_search:
  assumes "truthy rawSearch" and "getJsonParameter ex ''search'' i (JObj []) = Inr b"
  shows "\<exists>r. user_case ex i basePath (JStr ''search'') rawData rawSearch qs = Inr r
           \<and> req_method r = ''POST'' \<and> req_endpoint r = basePath @ ''/Users/search'' \<and> req_body r = b"
  unfolding user_case_def Let_def
  by (simp add: assms)

lemma list_case_raw_search:
  assumes "truthy rawSearch" and "getJsonParameter ex ''search'' i (JObj []) = Inr b"
  shows "\<exists>r. list_case ex i basePath operation rawData rawSearch qs = Inr r
           \<and> req_method r = ''POST'' \<and> req_endpoint r = basePath @ ''/CronoLists/search'' \<and> req_body r = b"
  unfolding list_case_def Let_def
  by (simp add: assms)

lemma externalProperty_case_raw_search:
  assumes "truthy rawSearch" and "getJsonParameter ex ''search'' i (JObj []) = Inr b"
  shows "\<exists>r. externalProperty_case ex i basePath operation rawData rawSearch qs = Inr r
           \<and> req_method r = ''POST'' \<and> req_endpoint r = basePath @ ''/ExternalProperties/search'' \<and> req_body r = b"
  unfolding externalProperty_case_def Let_def
  by (simp add: assms)

lemma strategy_case_raw_search:
  assumes "truthy rawSearch" and "getJsonParameter ex ''search'' i (JObj []) = Inr b"
  shows "\<exists>r. strategy_case ex i basePath operation rawData rawSearch qs = Inr r
           \<and> req_method r = ''POST'' \<and> req_endpoint r = basePath @ ''/Strategies/'' @ (if operation = JStr ''searchDetails'' then ''details'' else ''search'') \<and> req_body r = b"
  unfolding strategy_case_def Let_def
  by (simp add: assms)

lemma json_reader_acme:
  \<open>json_reader ''{"Name":"Acme","Pagination":{"Limit":5}}''
     = Some (JObj [(''Name'', JStr ''Acme''), (''Pagination'', JObj [(''Limit'', JNum 5)])])\<close>
  by code_simp

text \<open>
  Claim C5.  On every branch that builds a search body, when the raw-JSON search toggle
  is set and the \<^verbatim>\<open>search\<close> field is a non-empty string that \<^verbatim>\<open>JSON.parse\<close> reads as an
  object, the item yields a POST request whose body is that parsed object itself, whatever
  the structured search fields and the Additional Fields of the item hold.
\<close>

theorem raw_json_search_body_verbatim:
  assumes "parameters ex i ''resource'' = Some (JStr resource)"
      and "parameters ex i ''operation'' = Some operation" and "operation \<noteq> JUndefined"
      and "search_branch resource operation"
      and "truthy (getNodeParameter ex ''useRawJsonSearch'' i (JBool False))"
      and "parameters ex i ''search'' = Some (JStr s)" and "s \<noteq> ''''"
      and "json_parse ex s = Some (JObj kvs)"
  shows "\<exists>r. build_request ex i = Inr r \<and> req_method r = ''POST'' \<and> req_body r = JObj kvs"
proof -
  note body = getJsonParameter_object[OF assms(6,7,8), of "JObj []"]
  from assms(4) have "resource = ''list'' \<or> resource = ''strategy'' \<or> resource = ''externalProperty''
      \<or> (operation = JStr ''search'' \<and> resource = ''company'')
      \<or> (operation = JStr ''search'' \<and> resource = ''contact'')
      \<or> (operation = JStr ''search'' \<and> resource = ''deal'')
      \<or> (operation = JStr ''search'' \<and> resource = ''note'')
      \<or> (operation = JStr ''search'' \<and> resource = ''task'')
      \<or> (operation = JStr ''search'' \<and> resource = ''activity'')
      \<or> (operation = JStr ''search'' \<and> resource = ''user'')"
    unfolding search_branch_def by auto
  then show ?thesis
  proof (elim disjE conjE)
    assume r: "resource = ''list''"
    show ?thesis
      using list_case_raw_search[OF assms(5) body]
      unfolding build_request_list[OF assms(1)[unfolded r] assms(2,3)]
      by blast
  next
    assume r: "resource = ''strategy''"
    show ?thesis
      using strategy_case_raw_search[OF assms(5) body]
      unfolding build_request_strategy[OF assms(1)[unfolded r] assms(2,3)]
      by blast
  next
    assume r: "resource = ''externalProperty''"
    show ?thesis
      using externalProperty_case_raw_search[OF assms(5) body]
      unfolding build_request_externalProperty[OF assms(1)[unfolded r] assms(2,3)]
      by blast
  next
    assume o: "operation = JStr ''search''" and r: "resource = ''company''"
    show ?thesis
      using company_case_raw_search[OF assms(5) body]
      unfolding build_request_company[OF assms(1)[unfolded r] assms(2,3)] o
      by blast
  next
    assume o: "operation = JStr ''search''" and r: "resource = ''contact''"
    show ?thesis
      using contact_case_raw_search[OF assms(5) body]
      unfolding build_request_contact[OF assms(1)[unfolded r] assms(2,3)] o
      by blast
  next
    assume o: "operation = JStr ''search''" and r: "resource = ''deal''"
    show ?thesis
      using deal_case_raw_search[OF assms(5) body]
      unfolding build_request_deal[OF assms(1)[unfolded r] assms(2,3)] o
      by blast
  next
    assume o: "operation = JStr ''search''" and r: "resource = ''note''"
    show ?thesis
      using note_case_raw_search[OF assms(5) body]
      unfolding build_request_note[OF assms(1)[unfolded r] assms(2,3)] o
      by blast
  next
    assume o: "operation = JStr ''search''" and r: "resource = ''task''"
    show ?thesis
      using task_case_raw_search[OF assms(5) body]
      unfolding build_request_task[OF assms(1)[unfolded r] assms(2,3)] o
      by blast
  next
    assume o: "operation = JStr ''search''" and r: "resource = ''activity''"
    show ?thesis
      using activity_case_raw_search[OF assms(5) body]
      unfolding build_request_activity[OF assms(1)[unfolded r] assms(2,3)] o
      by blast
  next
    assume o: "operation = JStr ''search''" and r: "resource = ''user''"
    show ?thesis
      using user_case_raw_search[OF assms(5) body]
      unfolding build_request_user[OF assms(1)[unfolded r] assms(2,3)] o
      by blast
  qed
qed

theorem raw_json_search_body_verbatim_witness:
  \<open>\<exists>r. build_request
         (example_functions [(''resource'', JStr ''company''), (''operation'', JStr ''search''),
            (''useRawJsonSearch'', JBool True), (''companySearchName'', JStr ''Other''),
            (''searchAdditionalFields'', JArr [JObj [(''field'', JStr ''Name''), (''value'', JStr ''B'')]]),
            (''search'', JStr ''{"Name":"Acme","Pagination":{"Limit":5}}'')]) 0 = Inr r
       \<and> req_method r = ''POST''
       \<and> req_body r = JObj [(''Name'', JStr ''Acme''), (''Pagination'', JObj [(''Limit'', JNum 5)])]\<close>
  using raw_json_search_body_verbatim
          [of "example_functions [(''resource'', JStr ''company''), (''operation'', JStr ''search''),
                 (''useRawJsonSearch'', JBool True), (''companySearchName'', JStr ''Other''),
                 (''searchAdditionalFields'', JArr [JObj [(''field'', JStr ''Name''), (''value'', JStr ''B'')]]),
                 (''search'', JStr ''{\"Name\":\"Acme\",\"Pagination\":{\"Limit\":5}}'')]"
              0 "''company''" "JStr ''search''" "''{\"Name\":\"Acme\",\"Pagination\":{\"Limit\":5}}''"
              "[(''Name'', JStr ''Acme''), (''Pagination'', JObj [(''Limit'', JNum 5)])]"]
  by (simp add: example_functions_def search_branch_def getNodeParameter_def json_reader_acme)

section \<open>The structured search fields\<close>

text \<open>
  The tables below list, for each structured search body, the boolean filter parameters
  with the body key they control, the numeric filter parameters guarded by a truthiness
  test, and the include flags with the key inside their container object.
\<close>

definition companySearch_flags :: "(string \<times> string) list" where
  "companySearch_flags =
     [(''companySearchNoUser'', ''NoUser''),
      (''companySearchHasLinkedin'', ''HasLinkedin''),
      (''companySearchHasWebsite'', ''HasWebsite''),
      (''companySearchHasPhone'', ''HasPhone''),
      (''companySearchHasActivities'', ''HasActivities''),
      (''companySearchHasReplies'', ''HasReplies''),
      (''companySearchHasActiveTasks'', ''HasActiveTasks''),
      (''companySearchHasEmailsOpened'', ''HasEmailsOpened''),
      (''companySearchHasClickedLinks'', ''HasClickedLinks'')]"


definition companySearch_include_flags :: "(string \<times> string) list" where
  "companySearch_include_flags =
     [(''companySearchIncludeExternalValuesNoTags'', ''WithExternalValuesNoTags''),
      (''companySearchIncludeTags'', ''WithTags''),
      (''companySearchIncludeTasks'', ''WithTasks'')]"

definition contactSearch_flags :: "(string \<times> string) list" where
  "contactSearch_flags =
     [(''contactSearchNoUser'', ''NoUser''),
      (''contactSearchInSequence'', ''InSequence''),
      (''contactSearchIsPhoneValid'', ''IsPhoneValid''),
      (''contactSearchFromContact'', ''FromContact''),
      (''contactSearchHasLinkedin'', ''HasLinkedin''),
      (''contactSearchHasEmail'', ''HasEmail''),
      (''contactSearchHasPhone'', ''HasPhone''),
      (''contactSearchHasMobilePhone'', ''HasMobilePhone''),
      (''contactSearchHasActivities'', ''HasActivities''),
      (''contactSearchHasReplies'', ''HasReplies''),
      (''contactSearchHasEmailsOpened'', ''HasEmailsOpened''),
      (''contactSearchHasConnectedCalls'', ''HasConnectedCalls''),
      (''contactSearchHasClickedLinks'', ''HasClickedLinks''),
      (''contactSearchHasActiveTasks'', ''HasActiveTasks''),
      (''contactSearchOptedOut'', ''OptedOut'')]"


definition dealSearch_flags :: "(string \<times> string) list" where
  "dealSearch_flags =
     [(''dealSearchIsWon'', ''IsWon''),
      (''dealSearchIsClosed'', ''IsClosed''),
      (''dealSearchActive'', ''Active'')]"


definition dealSearch_include_flags :: "(string \<times> string) list" where
  "dealSearch_include_flags =
     [(''dealSearchIncludeAccount'', ''WithAccount'')]"

definition noteSearch_flags :: "(string \<times> string) list" where
  "noteSearch_flags =
     [(''noteSearchActive'', ''Active'')]"

definition noteSearch_include_flags :: "(string \<times> string) list" where
  "noteSearch_include_flags =
     [(''noteSearchIncludeAccount'', ''WithAccount''),
      (''noteSearchIncludeOpportunity'', ''WithOpportunity''),
      (''noteSearchIncludeProspects'', ''WithProspects'')]"

definition taskSearch_flags :: "(string \<times> string) list" where
  "taskSearch_flags =
     [(''taskSearchCompleted'', ''Completed''),
      (''taskSearchAutomatic'', ''Automatic''),
      (''taskSearchHasAutomationError'', ''HasAutomationError''),
      (''taskSearchHasOpportunity'', ''HasOpportunity''),
      (''taskSearchFromSequence'', ''FromSequence''),
      (''taskSearchFromCrm'', ''FromCrm'')]"



definition activitySearch_include_flags :: "(string \<times> string) list" where
  "activitySearch_include_flags =
     [(''activitySearchIncludeAccount'', ''WithAccount''),
      (''activitySearchIncludeProspect'', ''WithProspect''),
      (''activitySearchIncludeEmailLog'', ''WithEmailLog''),
      (''activitySearchIncludeCallLog'', ''WithCallLog''),
      (''activitySearchIncludeLinkedinLog'', ''WithLinkedinLog''),
      (''activitySearchIncludeOpportunity'', ''WithOpportunity'')]"


definition strategyDetails_flags :: "(string \<times> string) list" where
  "strategyDetails_flags =
     [(''strategyDetailsOnlyMySequences'', ''OnlyMySequences''),
      (''strategyDetailsOnlyMyProspects'', ''OnlyMyProspects'')]"

definition strategySearch_include_flags :: "(string \<times> string) list" where
  "strategySearch_include_flags =
     [(''strategySearchIncludeActiveSequenceInstances'', ''WithActiveSequenceInstances''),
      (''strategySearchIncludeAnalytics'', ''WithAnalytics''),
      (''strategySearchIncludeSequence'', ''WithSequence''),
      (''strategySearchIncludeUsers'', ''WithUsers'')]"

definition externalPropertySearch_flags :: "(string \<times> string) list" where
  "externalPropertySearch_flags =
     [(''externalPropertySearchOnlyInsert'', ''OnlyInsert''),
      (''externalPropertySearchOnlyTag'', ''OnlyTag''),
      (''externalPropertySearchWithLead'', ''WithLead''),
      (''externalPropertySearchIsImported'', ''IsImported''),
      (''externalPropertySearchIsStatus'', ''IsStatus''),
      (''externalPropertySearchIsFilter'', ''IsFilter''),
      (''externalPropertySearchOnlyAiVariables'', ''OnlyAiVariables'')]"

definition userSearch_flags :: "(string \<times> string) list" where
  "userSearch_flags =
     [(''userSearchActive'', ''Active'')]"

section \<open>Lemmas on the structured search bodies\<close>

lemma getAdditionalFields_object:
  "getAdditionalFields ex name i = Inr additional \<Longrightarrow> \<exists>add. additional = JObj add"
  by (auto simp: getAdditionalFields_def split: jsvalue.splits)
     (metis map_sum.simps(1) map_sum.simps(2) old.sum.exhaust sum.distinct(1) sum.inject(2))

lemma no_override:
  assumes "getAdditionalFields ex name i = Inr additional" and "\<not> has_key additional k"
  shows "map_of (rev (own_entries additional)) k = None"
proof -
  from getAdditionalFields_object[OF assms(1)] obtain add where add: "additional = JObj add"
    by blast
  with assms(2) show ?thesis
    by (simp add: has_key_JObj map_of_rev_None)
qed


lemma companySearchBody_flags:
  assumes "companySearchBody ex i = Inr b"
      and "getAdditionalFields ex ''searchAdditionalFields'' i = Inr additional"
      and "\<not> has_key additional k"
      and "(p, k) \<in> set companySearch_flags"
  shows "map_of b k = (if truthy (getNodeParameter ex p i (JBool False)) then Some (JBool True) else None)"
  using assms(1) unfolding companySearchBody_def Let_def
  apply (elim case_sum_InrE)
  apply (simp only: assms(2) sum.inject)
  apply clarify
  using assms(4) unfolding companySearch_flags_def set_simps insert_iff empty_iff prod.inject
  apply (elim disjE conjE)
  using no_override[OF assms(2,3)]
  apply (simp_all add: map_of_object_assign cong: map_of_weak_cong)
  done


lemma companySearchBody_CleanEmptyName:
  assumes "companySearchBody ex i = Inr b"
      and "getAdditionalFields ex ''searchAdditionalFields'' i = Inr additional"
      and "\<not> has_key additional ''CleanEmptyName''"
  shows "map_of b ''CleanEmptyName'' = Some (getNodeParameter ex ''companySearchCleanEmptyName'' i (JBool True))"
  using assms(1) unfolding companySearchBody_def Let_def
  apply (elim case_sum_InrE)
  apply (simp only: assms(2) sum.inject)
  apply clarify
  using no_override[OF assms(2,3)]
  apply (simp add: map_of_object_assign cong: map_of_weak_cong)
  done


definition companySearch_includes :: "execute_functions \<Rightarrow> nat \<Rightarrow> (string \<times> jsvalue) list" where
  "companySearch_includes ex i =
     assign_if (truthy (getNodeParameter ex ''companySearchIncludeTasks'' i (JBool False))) (assign_if (truthy (getNodeParameter ex ''companySearchIncludeTags'' i (JBool False))) (assign_if (truthy (getNodeParameter ex ''companySearchIncludeExternalValuesNoTags'' i (JBool False))) [] ''WithExternalValuesNoTags'' (JBool True)) ''WithTags'' (JBool True)) ''WithTasks'' (JBool True)"

lemma companySearchBody_container:
  assumes "companySearchBody ex i = Inr b"
      and "getAdditionalFields ex ''searchAdditionalFields'' i = Inr additional"
      and "\<not> has_key additional ''Includes''"
  shows "map_of b ''Includes'' =
           (if companySearch_includes ex i = [] then None else Some (JObj (companySearch_includes ex i)))"
  using assms(1) unfolding companySearchBody_def Let_def
  apply (elim case_sum_InrE)
  apply (simp only: assms(2) sum.inject)
  apply clarify
  using no_override[OF assms(2,3)]
  apply (simp add: map_of_object_assign companySearch_includes_def cong: map_of_weak_cong)
  done

lemma companySearch_includes_flags:
  assumes "(p, k) \<in> set companySearch_include_flags"
  shows "map_of (companySearch_includes ex i) k
           = (if truthy (getNodeParameter ex p i (JBool False)) then Some (JBool True) else None)"
  using assms unfolding companySearch_include_flags_def companySearch_includes_def set_simps insert_iff empty_iff prod.inject
  by (elim disjE conjE) simp_all


lemma contactSearchBody_flags:
  assumes "contactSearchBody ex i = Inr b"
      and "getAdditionalFields ex ''searchAdditionalFields'' i = Inr additional"
      and "\<not> has_key additional k"
      and "(p, k) \<in> set contactSearch_flags"
  shows "map_of b k = (if truthy (getNodeParameter ex p i (JBool False)) then Some (JBool True) else None)"
  using assms(1) unfolding contactSearchBody_def Let_def
  apply (elim case_sum_InrE)
  apply (simp only: assms(2) sum.inject)
  apply clarify
  using assms(4) unfolding contactSearch_flags_def set_simps insert_iff empty_iff prod.inject
  apply (elim disjE conjE)
  using no_override[OF assms(2,3)]
  apply (simp_all add: map_of_object_assign cong: map_of_weak_cong)
  done




lemma dealSearchBody_flags:
  assumes "dealSearchBody ex i = Inr b"
      and "getAdditionalFields ex ''searchAdditionalFields'' i = Inr additional"
      and "\<not> has_key additional k"
      and "(p, k) \<in> set dealSearch_flags"
  shows "map_of b k = (if truthy (getNodeParameter ex p i (JBool False)) then Some (JBool True) else None)"
  using assms(1) unfolding dealSearchBody_def Let_def
  apply (elim case_sum_InrE)
  apply (simp only: assms(2) sum.inject)
  apply clarify
  using assms(4) unfolding dealSearch_flags_def set_simps insert_iff empty_iff prod.inject
  apply (elim disjE conjE)
  using no_override[OF assms(2,3)]
  apply (simp_all add: map_of_object_assign cong: map_of_weak_cong)
  done



definition dealSearch_includes :: "execute_functions \<Rightarrow> nat \<Rightarrow> (string \<times> jsvalue) list" where
  "dealSearch_includes ex i =
     assign_if (truthy (getNodeParameter ex ''dealSearchIncludeAccount'' i (JBool False))) [] ''WithAccount'' (JBool True)"

lemma dealSearchBody_container:
  assumes "dealSearchBody ex i = Inr b"
      and "getAdditionalFields ex ''searchAdditionalFields'' i = Inr additional"
      and "\<not> has_key additional ''Includes''"
  shows "map_of b ''Includes'' =
           (if dealSearch_includes ex i = [] then None else Some (JObj (dealSearch_includes ex i)))"
  using assms(1) unfolding dealSearchBody_def Let_def
  apply (elim case_sum_InrE)
  apply (simp only: assms(2) sum.inject)
  apply clarify
  using no_override[OF assms(2,3)]
  apply (simp add: map_of_object_assign dealSearch_includes_def cong: map_of_weak_cong)
  done

lemma dealSearch_includes_flags:
  assumes "(p, k) \<in> set dealSearch_include_flags"
  shows "map_of (dealSearch_includes ex i) k
           = (if truthy (getNodeParameter ex p i (JBool False)) then Some (JBool True) else None)"
  using assms unfolding dealSearch_include_flags_def dealSearch_includes_def set_simps insert_iff empty_iff prod.inject
  by (elim disjE conjE) simp_all


lemma noteSearchBody_flags:
  assumes "noteSearchBody ex i = Inr b"
      and "getAdditionalFields ex ''searchAdditionalFields'' i = Inr additional"
      and "\<not> has_key additional k"
      and "(p, k) \<in> set noteSearch_flags"
  shows "map_of b k = (if truthy (getNodeParameter ex p i (JBool False)) then Some (JBool True) else None)"
  using assms(1) unfolding noteSearchBody_def Let_def
  apply (elim case_sum_InrE)
  apply (simp only: assms(2) sum.inject)
  apply clarify
  using assms(4) unfolding noteSearch_flags_def set_simps insert_iff empty_iff prod.inject
  apply (elim disjE conjE)
  using no_override[OF assms(2,3)]
  apply (simp_all add: map_of_object_assign cong: map_of_weak_cong)
  done


definition noteSearch_includes :: "execute_functions \<Rightarrow> nat \<Rightarrow> (string \<times> jsvalue) list" where
  "noteSearch_includes ex i =
     assign_if (truthy (getNodeParameter ex ''noteSearchIncludeProspects'' i (JBool False))) (assign_if (truthy (getNodeParameter ex ''noteSearchIncludeOpportunity'' i (JBool False))) (assign_if (truthy (getNodeParameter ex ''noteSearchIncludeAccount'' i (JBool False))) [] ''WithAccount'' (JBool True)) ''WithOpportunity'' (JBool True)) ''WithProspects'' (JBool True)"

lemma noteSearchBody_container:
  assumes "noteSearchBody ex i = Inr b"
      and "getAdditionalFields ex ''searchAdditionalFields'' i = Inr additional"
      and "\<not> has_key additional ''Includes''"
  shows "map_of b ''Includes'' =
           (if noteSearch_includes ex i = [] then None else Some (JObj (noteSearch_includes ex i)))"
  using assms(1) unfolding noteSearchBody_def Let_def
  apply (elim case_sum_InrE)
  apply (simp only: assms(2) sum.inject)
  apply clarify
  using no_override[OF assms(2,3)]
  apply (simp add: map_of_object_assign noteSearch_includes_def cong: map_of_weak_cong)
  done

lemma noteSearch_includes_flags:
  assumes "(p, k) \<in> set noteSearch_include_flags"
  shows "map_of (noteSearch_includes ex i) k
           = (if truthy (getNodeParameter ex p i (JBool False)) then Some (JBool True) else None)"
  using assms unfolding noteSearch_include_flags_def noteSearch_includes_def set_simps insert_iff empty_iff prod.inject
  by (elim disjE conjE) simp_all


lemma taskSearchBody_flags:
  assumes "taskSearchBody ex i = Inr b"
      and "getAdditionalFields ex ''searchAdditionalFields'' i = Inr additional"
      and "\<not> has_key additional k"
      and "(p, k) \<in> set taskSearch_flags"
  shows "map_of b k = (if truthy (getNodeParameter ex p i (JBool False)) then Some (JBool True) else None)"
  using assms(1) unfolding taskSearchBody_def Let_def
  apply (elim case_sum_InrE)
  apply (simp only: assms(2) sum.inject)
  apply clarify
  using assms(4) unfolding taskSearch_flags_def set_simps insert_iff empty_iff prod.inject
  apply (elim disjE conjE)
  using no_override[OF assms(2,3)]
  apply (simp_all add: map_of_object_assign cong: map_of_weak_cong)
  done







definition activitySearch_includes :: "execute_functions \<Rightarrow> nat \<Rightarrow> (string \<times> jsvalue) list" where
  "activitySearch_includes ex i =
     assign_if (truthy (getNodeParameter ex ''activitySearchIncludeOpportunity'' i (JBool False))) (assign_if (truthy (getNodeParameter ex ''activitySearchIncludeLinkedinLog'' i (JBool False))) (assign_if (truthy (getNodeParameter ex ''activitySearchIncludeCallLog'' i (JBool False))) (assign_if (truthy (getNodeParameter ex ''activitySearchIncludeEmailLog'' i (JBool False))) (assign_if (truthy (getNodeParameter ex ''activitySearchIncludeProspect'' i (JBool False))) (assign_if (truthy (getNodeParameter ex ''activitySearchIncludeAccount'' i (JBool False))) [] ''WithAccount'' (JBool True)) ''WithProspect'' (JBool True)) ''WithEmailLog'' (JBool True)) ''WithCallLog'' (JBool True)) ''WithLinkedinLog'' (JBool True)) ''WithOpportunity'' (JBool True)"

lemma activitySearchBody_container:
  assumes "activitySearchBody ex i = Inr b"
      and "getAdditionalFields ex ''searchAdditionalFields'' i = Inr additional"
      and "\<not> has_key additional ''Include''"
  shows "map_of b ''Include'' =
           (if activitySearch_includes ex i = [] then None else Some (JObj (activitySearch_includes ex i)))"
  using assms(1) unfolding activitySearchBody_def Let_def
  apply (elim case_sum_InrE)
  apply (simp only: assms(2) sum.inject)
  apply clarify
  using no_override[OF assms(2,3)]
  apply (simp add: map_of_object_assign activitySearch_includes_def cong: map_of_weak_cong)
  done

lemma activitySearch_includes_flags:
  assumes "(p, k) \<in> set activitySearch_include_flags"
  shows "map_of (activitySearch_includes ex i) k
           = (if truthy (getNodeParameter ex p i (JBool False)) then Some (JBool True) else None)"
  using assms unfolding activitySearch_include_flags_def activitySearch_includes_def set_simps insert_iff empty_iff prod.inject
  by (elim disjE conjE) simp_all





lemma strategyDetailsBody_flags:
  assumes "strategyDetailsBody ex i = Inr b"
      and "getAdditionalFields ex ''searchAdditionalFields'' i = Inr additional"
      and "\<not> has_key additional k"
      and "(p, k) \<in> set strategyDetails_flags"
  shows "map_of b k = (if truthy (getNodeParameter ex p i (JBool False)) then Some (JBool True) else None)"
  using assms(1) unfolding strategyDetailsBody_def Let_def
  apply (elim case_sum_InrE)
  apply (simp only: assms(2) sum.inject)
  apply clarify
  using assms(4) unfolding strategyDetails_flags_def set_simps insert_iff empty_iff prod.inject
  apply (elim disjE conjE)
  using no_override[OF assms(2,3)]
  apply (simp_all add: map_of_object_assign cong: map_of_weak_cong)
  done





definition strategySearch_includes :: "execute_functions \<Rightarrow> nat \<Rightarrow> (string \<times> jsvalue) list" where
  "strategySearch_includes ex i =
     assign_if (truthy (getNodeParameter ex ''strategySearchIncludeUsers'' i (JBool False))) (assign_if (truthy (getNodeParameter ex ''strategySearchIncludeSequence'' i (JBool False))) (assign_if (truthy (getNodeParameter ex ''strategySearchIncludeAnalytics'' i (JBool False))) (assign_if (truthy (getNodeParameter ex ''strategySearchIncludeActiveSequenceInstances'' i (JBool False))) [] ''WithActiveSequenceInstances'' (JBool True)) ''WithAnalytics'' (JBool True)) ''WithSequence'' (JBool True)) ''WithUsers'' (JBool True)"

lemma strategySearchBody_container:
  assumes "strategySearchBody ex i = Inr b"
      and "getAdditionalFields ex ''searchAdditionalFields'' i = Inr additional"
      and "\<not> has_key additional ''IncludeOptions''"
  shows "map_of b ''IncludeOptions'' =
           (if strategySearch_includes ex i = [] then None else Some (JObj (strategySearch_includes ex i)))"
  using assms(1) unfolding strategySearchBody_def Let_def
  apply (elim case_sum_InrE)
  apply (simp only: assms(2) sum.inject)
  apply clarify
  using no_override[OF assms(2,3)]
  apply (simp add: map_of_object_assign strategySearch_includes_def cong: map_of_weak_cong)
  done

lemma strategySearch_includes_flags:
  assumes "(p, k) \<in> set strategySearch_include_flags"
  shows "map_of (strategySearch_includes ex i) k
           = (if truthy (getNodeParameter ex p i (JBool False)) then Some (JBool True) else None)"
  using assms unfolding strategySearch_include_flags_def strategySearch_includes_def set_simps insert_iff empty_iff prod.inject
  by (elim disjE conjE) simp_all


lemma externalPropertySearchBody_flags:
  assumes "externalPropertySearchBody ex i = Inr b"
      and "getAdditionalFields ex ''searchAdditionalFields'' i = Inr additional"
      and "\<not> has_key additional k"
      and "(p, k) \<in> set externalPropertySearch_flags"
  shows "map_of b k = (if truthy (getNodeParameter ex p i (JBool False)) then Some (JBool True) else None)"
  using assms(1) unfolding externalPropertySearchBody_def Let_def
  apply (elim case_sum_InrE)
  apply (simp only: assms(2) sum.inject)
  apply clarify
  using assms(4) unfolding externalPropertySearch_flags_def set_simps insert_iff empty_iff prod.inject
  apply (elim disjE conjE)
  using no_override[OF assms(2,3)]
  apply (simp_all add: map_of_object_assign cong: map_of_weak_cong)
  done


lemma userSearchBody_flags:
  assumes "userSearchBody ex i = Inr b"
      and "getAdditionalFields ex ''searchAdditionalFields'' i = Inr additional"
      and "\<not> has_key additional k"
      and "(p, k) \<in> set userSearch_flags"
  shows "map_of b k = (if truthy (getNodeParameter ex p i (JBool False)) then Some (JBool True) else None)"
  using assms(1) unfolding userSearchBody_def Let_def
  apply (elim case_sum_InrE)
  apply (simp only: assms(2) sum.inject)
  apply clarify
  using assms(4) unfolding userSearch_flags_def set_simps insert_iff empty_iff prod.inject
  apply (elim disjE conjE)
  using no_override[OF assms(2,3)]
  apply (simp_all add: map_of_object_assign cong: map_of_weak_cong)
  done


section \<open>From the request to the structured body\<close>












lemma company_structured_search:
  assumes "parameters ex i ''resource'' = Some (JStr ''company'')"
      and "parameters ex i ''operation'' = Some (JStr ''search'')"
      and "\<not> truthy (getNodeParameter ex ''useRawJsonSearch'' i (JBool False))"
      and "build_request ex i = Inr r"
  shows "\<exists>b. companySearchBody ex i = Inr b \<and> req_body r = JObj b"
proof -
  have nu: "JStr ''search'' \<noteq> JUndefined"
    by simp
  show ?thesis
    using assms(3) assms(4)[unfolded build_request_company[OF assms(1,2) nu]]
    unfolding company_case_def Let_def
    by (auto split: sum.splits)
qed

lemma contact_structured_search:
  assumes "parameters ex i ''resource'' = Some (JStr ''contact'')"
      and "parameters ex i ''operation'' = Some (JStr ''search'')"
      and "\<not> truthy (getNodeParameter ex ''useRawJsonSearch'' i (JBool False))"
      and "build_request ex i = Inr r"
  shows "\<exists>b. contactSearchBody ex i = Inr b \<and> req_body r = JObj b"
proof -
  have nu: "JStr ''search'' \<noteq> JUndefined"
    by simp
  show ?thesis
    using assms(3) assms(4)[unfolded build_request_contact[OF assms(1,2) nu]]
    unfolding contact_case_def Let_def
    by (auto split: sum.splits)
qed

lemma deal_structured_search:
  assumes "parameters ex i ''resource'' = Some (JStr ''deal'')"
      and "parameters ex i ''operation'' = Some (JStr ''search'')"
      and "\<not> truthy (getNodeParameter ex ''useRawJsonSearch'' i (JBool False))"
      and "build_request ex i = Inr r"
  shows "\<exists>b. dealSearchBody ex i = Inr b \<and> req_body r = JObj b"
proof -
  have nu: "JStr ''search'' \<noteq> JUndefined"
    by simp
  show ?thesis
    using assms(3) assms(4)[unfolded build_request_deal[OF assms(1,2) nu]]
    unfolding deal_case_def Let_def
    by (auto split: sum.splits)
qed

lemma note_structured_search:
  assumes "parameters ex i ''resource'' = Some (JStr ''note'')"
      and "parameters ex i ''operation'' = Some (JStr ''search'')"
      and "\<not> truthy (getNodeParameter ex ''useRawJsonSearch'' i (JBool False))"
      and "build_request ex i = Inr r"
  shows "\<exists>b. noteSearchBody ex i = Inr b \<and> req_body r = JObj b"
proof -
  have nu: "JStr ''search'' \<noteq> JUndefined"
    by simp
  show ?thesis
    using assms(3) assms(4)[unfolded build_request_note[OF assms(1,2) nu]]
    unfolding note_case_def Let_def
    by (auto split: sum.splits)
qed

lemma task_structured_search:
  assumes "parameters ex i ''resource'' = Some (JStr ''task'')"
      and "parameters ex i ''operation'' = Some (JStr ''search'')"
      and "\<not> truthy (getNodeParameter ex ''useRawJsonSearch'' i (JBool False))"
      and "build_request ex i = Inr r"
  shows "\<exists>b. taskSearchBody ex i = Inr b \<and> req_body r = JObj b"
proof -
  have nu: "JStr ''search'' \<noteq> JUndefined"
    by simp
  show ?thesis
    using assms(3) assms(4)[unfolded build_request_task[OF assms(1,2) nu]]
    unfolding task_case_def Let_def
    by (auto split: sum.splits)
qed

lemma activity_structured_search:
  assumes "parameters ex i ''resource'' = Some (JStr ''activity'')"
      and "parameters ex i ''operation'' = Some (JStr ''search'')"
      and "\<not> truthy (getNodeParameter ex ''useRawJsonSearch'' i (JBool False))"
      and "build_request ex i = Inr r"
  shows "\<exists>b. activitySearchBody ex i = Inr b \<and> req_body r = JObj b"
proof -
  have nu: "JStr ''search'' \<noteq> JUndefined"
    by simp
  show ?thesis
    using assms(3) assms(4)[unfolded build_request_activity[OF assms(1,2) nu]]
    unfolding activity_case_def Let_def
    by (auto split: sum.splits)
qed

lemma user_structured_search:
  assumes "parameters ex i ''resource'' = Some (JStr ''user'')"
      and "parameters ex i ''operation'' = Some (JStr ''search'')"
      and "\<not> truthy (getNodeParameter ex ''useRawJsonSearch'' i (JBool False))"
      and "build_request ex i = Inr r"
  shows "\<exists>b. userSearchBody ex i = Inr b \<and> req_body r = JObj b"
proof -
  have nu: "JStr ''search'' \<noteq> JUndefined"
    by simp
  show ?thesis
    using assms(3) assms(4)[unfolded build_request_user[OF assms(1,2) nu]]
    unfolding user_case_def Let_def
    by (auto split: sum.splits)
qed


lemma externalProperty_structured_search:
  assumes "parameters ex i ''resource'' = Some (JStr ''externalProperty'')"
      and "parameters ex i ''operation'' = Some operation" and "operation \<noteq> JUndefined"
      and "\<not> truthy (getNodeParameter ex ''useRawJsonSearch'' i (JBool False))"
      and "build_request ex i = Inr r"
  shows "\<exists>b. externalPropertySearchBody ex i = Inr b \<and> req_body r = JObj b"
  using assms(4) assms(5)[unfolded build_request_externalProperty[OF assms(1,2,3)]]
  unfolding externalProperty_case_def Let_def
  by (auto split: sum.splits)

lemma strategy_structured_search:
  assumes "parameters ex i ''resource'' = Some (JStr ''strategy'')"
      and "parameters ex i ''operation'' = Some operation" and "operation \<noteq> JUndefined"
      and "\<not> truthy (getNodeParameter ex ''useRawJsonSearch'' i (JBool False))"
      and "build_request ex i = Inr r"
  shows "\<exists>b. (if operation = JStr ''searchDetails'' then strategyDetailsBody ex i
              else strategySearchBody ex i) = Inr b \<and> req_body r = JObj b"
  using assms(4) assms(5)[unfolded build_request_strategy[OF assms(1,2,3)]]
  unfolding strategy_case_def Let_def
  by (auto split: sum.splits if_splits)











section \<open>The Additional-Fields merger\<close>














section \<open>Boolean and numeric filter fields\<close>

text \<open>The rows of a table with the resource and operation of their search body.\<close>

definition tag :: "string \<Rightarrow> string \<Rightarrow> (string \<times> string) list \<Rightarrow> (string \<times> string \<times> string \<times> string) list" where
  "tag resource operation rows = map (\<lambda>(p, k). (resource, operation, p, k)) rows"

definition tag_in ::
  "string \<Rightarrow> string \<Rightarrow> string \<Rightarrow> (string \<times> string) list \<Rightarrow> (string \<times> string \<times> string \<times> string \<times> string) list" where
  "tag_in resource operation container rows = map (\<lambda>(p, k). (resource, operation, container, p, k)) rows"

text \<open>
  Resource, operation, parameter and body key of every boolean filter field written by a
  truthiness test; \<^verbatim>\<open>companySearchCleanEmptyName\<close>, which is written without test, is not
  among them.
\<close>

definition boolean_filter_fields :: "(string \<times> string \<times> string \<times> string) list" where
  "boolean_filter_fields =
     tag ''company'' ''search'' companySearch_flags
     @ tag ''contact'' ''search'' contactSearch_flags
     @ tag ''deal'' ''search'' dealSearch_flags
     @ tag ''note'' ''search'' noteSearch_flags
     @ tag ''task'' ''search'' taskSearch_flags
     @ tag ''strategy'' ''searchDetails'' strategyDetails_flags
     @ tag ''externalProperty'' ''search'' externalPropertySearch_flags
     @ tag ''user'' ''search'' userSearch_flags"

text \<open>Resource, operation, container key, parameter and key of every include flag.\<close>

definition include_flag_fields :: "(string \<times> string \<times> string \<times> string \<times> string) list" where
  "include_flag_fields =
     tag_in ''company'' ''search'' ''Includes'' companySearch_include_flags
     @ tag_in ''deal'' ''search'' ''Includes'' dealSearch_include_flags
     @ tag_in ''note'' ''search'' ''Includes'' noteSearch_include_flags
     @ tag_in ''activity'' ''search'' ''Include'' activitySearch_include_flags
     @ tag_in ''strategy'' ''search'' ''IncludeOptions'' strategySearch_include_flags"




lemma in_tag:
  "(resource, operation, p, k) \<in> set (tag r o' rows) \<longleftrightarrow> resource = r \<and> operation = o' \<and> (p, k) \<in> set rows"
  by (auto simp: tag_def)

lemma in_tag_in:
  "(resource, operation, c, p, k) \<in> set (tag_in r o' c' rows)
     \<longleftrightarrow> resource = r \<and> operation = o' \<and> c = c' \<and> (p, k) \<in> set rows"
  by (auto simp: tag_in_def)

lemma flag_conclusion:
  assumes "req_body r = JObj b"
      and "map_of b k = (if truthy v then Some (JBool True) else None)"
  shows "(v = JBool False \<longrightarrow> \<not> has_key (req_body r) k)
       \<and> (v = JBool True \<longrightarrow> has_key (req_body r) k \<and> get_prop (req_body r) k = JBool True)"
  using assms by (auto simp: has_key_JObj get_prop_JObj)

lemma include_flag_conclusion:
  assumes "req_body r = JObj b"
      and "map_of b c = (if inc = [] then None else Some (JObj inc))"
      and "map_of inc k = (if truthy v then Some (JBool True) else None)"
  shows "(v = JBool False \<longrightarrow> \<not> has_key (get_prop (req_body r) c) k)
       \<and> (v = JBool True \<longrightarrow> has_key (get_prop (req_body r) c) k
                              \<and> get_prop (get_prop (req_body r) c) k = JBool True)"
proof (cases "inc = []")
  case True
  with assms show ?thesis
    by (auto simp: get_prop_JObj has_key_def)
next
  case False
  with assms show ?thesis
    by (auto simp: has_key_JObj get_prop_JObj)
qed


lemma written_conclusion:
  assumes "req_body r = JObj b" and "map_of b k = Some v"
  shows "has_key (req_body r) k \<and> get_prop (req_body r) k = v"
  using assms by (simp add: has_key_JObj get_prop_JObj)



lemma companySearch_flags_request:
  assumes res: "parameters ex i ''resource'' = Some (JStr ''company'')"
      and op: "parameters ex i ''operation'' = Some (JStr ''search'')"
      and raw: "\<not> truthy (getNodeParameter ex ''useRawJsonSearch'' i (JBool False))"
      and br: "build_request ex i = Inr r"
      and add: "getAdditionalFields ex ''searchAdditionalFields'' i = Inr additional"
      and nokey: "\<not> has_key additional k" and mem: "(p, k) \<in> set companySearch_flags"
  shows "(getNodeParameter ex p i (JBool False) = JBool False \<longrightarrow> \<not> has_key (req_body r) k)
       \<and> (getNodeParameter ex p i (JBool False) = JBool True
            \<longrightarrow> has_key (req_body r) k \<and> get_prop (req_body r) k = JBool True)"
proof -
  from company_structured_search[OF res op raw br]
  obtain b where b: "companySearchBody ex i = Inr b" and body: "req_body r = JObj b"
    by blast
  show ?thesis
    by (rule flag_conclusion[OF body companySearchBody_flags[OF b add nokey mem]])
qed


lemma companySearch_CleanEmptyName_request:
  assumes res: "parameters ex i ''resource'' = Some (JStr ''company'')"
      and op: "parameters ex i ''operation'' = Some (JStr ''search'')"
      and raw: "\<not> truthy (getNodeParameter ex ''useRawJsonSearch'' i (JBool False))"
      and br: "build_request ex i = Inr r"
      and add: "getAdditionalFields ex ''searchAdditionalFields'' i = Inr additional"
      and nokey: "\<not> has_key additional ''CleanEmptyName''"
  shows "has_key (req_body r) ''CleanEmptyName'' \<and> get_prop (req_body r) ''CleanEmptyName'' = getNodeParameter ex ''companySearchCleanEmptyName'' i (JBool True)"
proof -
  from company_structured_search[OF res op raw br]
  obtain b where b: "companySearchBody ex i = Inr b" and body: "req_body r = JObj b"
    by blast
  show ?thesis
    by (rule written_conclusion[OF body companySearchBody_CleanEmptyName[OF b add nokey]])
qed


lemma companySearch_include_flags_request:
  assumes res: "parameters ex i ''resource'' = Some (JStr ''company'')"
      and op: "parameters ex i ''operation'' = Some (JStr ''search'')"
      and raw: "\<not> truthy (getNodeParameter ex ''useRawJsonSearch'' i (JBool False))"
      and br: "build_request ex i = Inr r"
      and add: "getAdditionalFields ex ''searchAdditionalFields'' i = Inr additional"
      and nokey: "\<not> has_key additional ''Includes''" and mem: "(p, k) \<in> set companySearch_include_flags"
  shows "(getNodeParameter ex p i (JBool False) = JBool False \<longrightarrow> \<not> has_key (get_prop (req_body r) ''Includes'') k)
       \<and> (getNodeParameter ex p i (JBool False) = JBool True
            \<longrightarrow> has_key (get_prop (req_body r) ''Includes'') k
                \<and> get_prop (get_prop (req_body r) ''Includes'') k = JBool True)"
proof -
  from company_structured_search[OF res op raw br]
  obtain b where b: "companySearchBody ex i = Inr b" and body: "req_body r = JObj b"
    by blast
  show ?thesis
    by (rule include_flag_conclusion[OF body companySearchBody_container[OF b add nokey] companySearch_includes_flags[OF mem]])
qed

lemma contactSearch_flags_request:
  assumes res: "parameters ex i ''resource'' = Some (JStr ''contact'')"
      and op: "parameters ex i ''operation'' = Some (JStr ''search'')"
      and raw: "\<not> truthy (getNodeParameter ex ''useRawJsonSearch'' i (JBool False))"
      and br: "build_request ex i = Inr r"
      and add: "getAdditionalFields ex ''searchAdditionalFields'' i = Inr additional"
      and nokey: "\<not> has_key additional k" and mem: "(p, k) \<in> set contactSearch_flags"
  shows "(getNodeParameter ex p i (JBool False) = JBool False \<longrightarrow> \<not> has_key (req_body r) k)
       \<and> (getNodeParameter ex p i (JBool False) = JBool True
            \<longrightarrow> has_key (req_body r) k \<and> get_prop (req_body r) k = JBool True)"
proof -
  from contact_structured_search[OF res op raw br]
  obtain b where b: "contactSearchBody ex i = Inr b" and body: "req_body r = JObj b"
    by blast
  show ?thesis
    by (rule flag_conclusion[OF body contactSearchBody_flags[OF b add nokey mem]])
qed



lemma dealSearch_flags_request:
  assumes res: "parameters ex i ''resource'' = Some (JStr ''deal'')"
      and op: "parameters ex i ''operation'' = Some (JStr ''search'')"
      and raw: "\<not> truthy (getNodeParameter ex ''useRawJsonSearch'' i (JBool False))"
      and br: "build_request ex i = Inr r"
      and add: "getAdditionalFields ex ''searchAdditionalFields'' i = Inr additional"
      and nokey: "\<not> has_key additional k" and mem: "(p, k) \<in> set dealSearch_flags"
  shows "(getNodeParameter ex p i (JBool False) = JBool False \<longrightarrow> \<not> has_key (req_body r) k)
       \<and> (getNodeParameter ex p i (JBool False) = JBool True
            \<longrightarrow> has_key (req_body r) k \<and> get_prop (req_body r) k = JBool True)"
proof -
  from deal_structured_search[OF res op raw br]
  obtain b where b: "dealSearchBody ex i = Inr b" and body: "req_body r = JObj b"
    by blast
  show ?thesis
    by (rule flag_conclusion[OF body dealSearchBody_flags[OF b add nokey mem]])
qed



lemma dealSearch_include_flags_request:
  assumes res: "parameters ex i ''resource'' = Some (JStr ''deal'')"
      and op: "parameters ex i ''operation'' = Some (JStr ''search'')"
      and raw: "\<not> truthy (getNodeParameter ex ''useRawJsonSearch'' i (JBool False))"
      and br: "build_request ex i = Inr r"
      and add: "getAdditionalFields ex ''searchAdditionalFields'' i = Inr additional"
      and nokey: "\<not> has_key additional ''Includes''" and mem: "(p, k) \<in> set dealSearch_include_flags"
  shows "(getNodeParameter ex p i (JBool False) = JBool False \<longrightarrow> \<not> has_key (get_prop (req_body r) ''Includes'') k)
       \<and> (getNodeParameter ex p i (JBool False) = JBool True
            \<longrightarrow> has_key (get_prop (req_body r) ''Includes'') k
                \<and> get_prop (get_prop (req_body r) ''Includes'') k = JBool True)"
proof -
  from deal_structured_search[OF res op raw br]
  obtain b where b: "dealSearchBody ex i = Inr b" and body: "req_body r = JObj b"
    by blast
  show ?thesis
    by (rule include_flag_conclusion[OF body dealSearchBody_container[OF b add nokey] dealSearch_includes_flags[OF mem]])
qed

lemma noteSearch_flags_request:
  assumes res: "parameters ex i ''resource'' = Some (JStr ''note'')"
      and op: "parameters ex i ''operation'' = Some (JStr ''search'')"
      and raw: "\<not> truthy (getNodeParameter ex ''useRawJsonSearch'' i (JBool False))"
      and br: "build_request ex i = Inr r"
      and add: "getAdditionalFields ex ''searchAdditionalFields'' i = Inr additional"
      and nokey: "\<not> has_key additional k" and mem: "(p, k) \<in> set noteSearch_flags"
  shows "(getNodeParameter ex p i (JBool False) = JBool False \<longrightarrow> \<not> has_key (req_body r) k)
       \<and> (getNodeParameter ex p i (JBool False) = JBool True
            \<longrightarrow> has_key (req_body r) k \<and> get_prop (req_body r) k = JBool True)"
proof -
  from note_structured_search[OF res op raw br]
  obtain b where b: "noteSearchBody ex i = Inr b" and body: "req_body r = JObj b"
    by blast
  show ?thesis
    by (rule flag_conclusion[OF body noteSearchBody_flags[OF b add nokey mem]])
qed


lemma noteSearch_include_flags_request:
  assumes res: "parameters ex i ''resource'' = Some (JStr ''note'')"
      and op: "parameters ex i ''operation'' = Some (JStr ''search'')"
      and raw: "\<not> truthy (getNodeParameter ex ''useRawJsonSearch'' i (JBool False))"
      and br: "build_request ex i = Inr r"
      and add: "getAdditionalFields ex ''searchAdditionalFields'' i = Inr additional"
      and nokey: "\<not> has_key additional ''Includes''" and mem: "(p, k) \<in> set noteSearch_include_flags"
  shows "(getNodeParameter ex p i (JBool False) = JBool False \<longrightarrow> \<not> has_key (get_prop (req_body r) ''Includes'') k)
       \<and> (getNodeParameter ex p i (JBool False) = JBool True
            \<longrightarrow> has_key (get_prop (req_body r) ''Includes'') k
                \<and> get_prop (get_prop (req_body r) ''Includes'') k = JBool True)"
proof -
  from note_structured_search[OF res op raw br]
  obtain b where b: "noteSearchBody ex i = Inr b" and body: "req_body r = JObj b"
    by blast
  show ?thesis
    by (rule include_flag_conclusion[OF body noteSearchBody_container[OF b add nokey] noteSearch_includes_flags[OF mem]])
qed

lemma taskSearch_flags_request:
  assumes res: "parameters ex i ''resource'' = Some (JStr ''task'')"
      and op: "parameters ex i ''operation'' = Some (JStr ''search'')"
      and raw: "\<not> truthy (getNodeParameter ex ''useRawJsonSearch'' i (JBool False))"
      and br: "build_request ex i = Inr r"
      and add: "getAdditionalFields ex ''searchAdditionalFields'' i = Inr additional"
      and nokey: "\<not> has_key additional k" and mem: "(p, k) \<in> set taskSearch_flags"
  shows "(getNodeParameter ex p i (JBool False) = JBool False \<longrightarrow> \<not> has_key (req_body r) k)
       \<and> (getNodeParameter ex p i (JBool False) = JBool True
            \<longrightarrow> has_key (req_body r) k \<and> get_prop (req_body r) k = JBool True)"
proof -
  from task_structured_search[OF res op raw br]
  obtain b where b: "taskSearchBody ex i = Inr b" and body: "req_body r = JObj b"
    by blast
  show ?thesis
    by (rule flag_conclusion[OF body taskSearchBody_flags[OF b add nokey mem]])
qed






lemma activitySearch_include_flags_request:
  assumes res: "parameters ex i ''resource'' = Some (JStr ''activity'')"
      and op: "parameters ex i ''operation'' = Some (JStr ''search'')"
      and raw: "\<not> truthy (getNodeParameter ex ''useRawJsonSearch'' i (JBool False))"
      and br: "build_request ex i = Inr r"
      and add: "getAdditionalFields ex ''searchAdditionalFields'' i = Inr additional"
      and nokey: "\<not> has_key additional ''Include''" and mem: "(p, k) \<in> set activitySearch_include_flags"
  shows "(getNodeParameter ex p i (JBool False) = JBool False \<longrightarrow> \<not> has_key (get_prop (req_body r) ''Include'') k)
       \<and> (getNodeParameter ex p i (JBool False) = JBool True
            \<longrightarrow> has_key (get_prop (req_body r) ''Include'') k
                \<and> get_prop (get_prop (req_body r) ''Include'') k = JBool True)"
proof -
  from activity_structured_search[OF res op raw br]
  obtain b where b: "activitySearchBody ex i = Inr b" and body: "req_body r = JObj b"
    by blast
  show ?thesis
    by (rule include_flag_conclusion[OF body activitySearchBody_container[OF b add nokey] activitySearch_includes_flags[OF mem]])
qed



lemma strategyDetails_flags_request:
  assumes res: "parameters ex i ''resource'' = Some (JStr ''strategy'')"
      and op: "parameters ex i ''operation'' = Some (JStr ''searchDetails'')"
      and raw: "\<not> truthy (getNodeParameter ex ''useRawJsonSearch'' i (JBool False))"
      and br: "build_request ex i = Inr r"
      and add: "getAdditionalFields ex ''searchAdditionalFields'' i = Inr additional"
      and nokey: "\<not> has_key additional k" and mem: "(p, k) \<in> set strategyDetails_flags"
  shows "(getNodeParameter ex p i (JBool False) = JBool False \<longrightarrow> \<not> has_key (req_body r) k)
       \<and> (getNodeParameter ex p i (JBool False) = JBool True
            \<longrightarrow> has_key (req_body r) k \<and> get_prop (req_body r) k = JBool True)"
proof -
  have "JStr ''searchDetails'' \<noteq> JUndefined"
    by simp
  from strategy_structured_search[OF res op this raw br]
  obtain b where b: "strategyDetailsBody ex i = Inr b" and body: "req_body r = JObj b"
    by auto
  show ?thesis
    by (rule flag_conclusion[OF body strategyDetailsBody_flags[OF b add nokey mem]])
qed




lemma strategySearch_include_flags_request:
  assumes res: "parameters ex i ''resource'' = Some (JStr ''strategy'')"
      and op: "parameters ex i ''operation'' = Some (JStr ''search'')"
      and raw: "\<not> truthy (getNodeParameter ex ''useRawJsonSearch'' i (JBool False))"
      and br: "build_request ex i = Inr r"
      and add: "getAdditionalFields ex ''searchAdditionalFields'' i = Inr additional"
      and nokey: "\<not> has_key additional ''IncludeOptions''" and mem: "(p, k) \<in> set strategySearch_include_flags"
  shows "(getNodeParameter ex p i (JBool False) = JBool False \<longrightarrow> \<not> has_key (get_prop (req_body r) ''IncludeOptions'') k)
       \<and> (getNodeParameter ex p i (JBool False) = JBool True
            \<longrightarrow> has_key (get_prop (req_body r) ''IncludeOptions'') k
                \<and> get_prop (get_prop (req_body r) ''IncludeOptions'') k = JBool True)"
proof -
  have "JStr ''search'' \<noteq> JUndefined"
    by simp
  from strategy_structured_search[OF res op this raw br]
  obtain b where b: "strategySearchBody ex i = Inr b" and body: "req_body r = JObj b"
    by auto
  show ?thesis
    by (rule include_flag_conclusion[OF body strategySearchBody_container[OF b add nokey] strategySearch_includes_flags[OF mem]])
qed

lemma externalPropertySearch_flags_request:
  assumes res: "parameters ex i ''resource'' = Some (JStr ''externalProperty'')"
      and op: "parameters ex i ''operation'' = Some (JStr ''search'')"
      and raw: "\<not> truthy (getNodeParameter ex ''useRawJsonSearch'' i (JBool False))"
      and br: "build_request ex i = Inr r"
      and add: "getAdditionalFields ex ''searchAdditionalFields'' i = Inr additional"
      and nokey: "\<not> has_key additional k" and mem: "(p, k) \<in> set externalPropertySearch_flags"
  shows "(getNodeParameter ex p i (JBool False) = JBool False \<longrightarrow> \<not> has_key (req_body r) k)
       \<and> (getNodeParameter ex p i (JBool False) = JBool True
            \<longrightarrow> has_key (req_body r) k \<and> get_prop (req_body r) k = JBool True)"
proof -
  have "JStr ''search'' \<noteq> JUndefined"
    by simp
  from externalProperty_structured_search[OF res op this raw br]
  obtain b where b: "externalPropertySearchBody ex i = Inr b" and body: "req_body r = JObj b"
    by blast
  show ?thesis
    by (rule flag_conclusion[OF body externalPropertySearchBody_flags[OF b add nokey mem]])
qed

lemma userSearch_flags_request:
  assumes res: "parameters ex i ''resource'' = Some (JStr ''user'')"
      and op: "parameters ex i ''operation'' = Some (JStr ''search'')"
      and raw: "\<not> truthy (getNodeParameter ex ''useRawJsonSearch'' i (JBool False))"
      and br: "build_request ex i = Inr r"
      and add: "getAdditionalFields ex ''searchAdditionalFields'' i = Inr additional"
      and nokey: "\<not> has_key additional k" and mem: "(p, k) \<in> set userSearch_flags"
  shows "(getNodeParameter ex p i (JBool False) = JBool False \<longrightarrow> \<not> has_key (req_body r) k)
       \<and> (getNodeParameter ex p i (JBool False) = JBool True
            \<longrightarrow> has_key (req_body r) k \<and> get_prop (req_body r) k = JBool True)"
proof -
  from user_structured_search[OF res op raw br]
  obtain b where b: "userSearchBody ex i = Inr b" and body: "req_body r = JObj b"
    by blast
  show ?thesis
    by (rule flag_conclusion[OF body userSearchBody_flags[OF b add nokey mem]])
qed



text \<open>
  Claim C4, as the code has it.  In a structured search body, for every boolean filter
  field whose key no Additional-Fields entry names: the input \<^verbatim>\<open>false\<close> (or no input) leaves
  the key out of the body and the input \<^verbatim>\<open>true\<close> puts the key in with the value
  \<^verbatim>\<open>true\<close>.  The one exception is \<^verbatim>\<open>companySearchCleanEmptyName\<close>: its value, with the
  fallback \<^verbatim>\<open>true\<close>, is written to \<^verbatim>\<open>CleanEmptyName\<close> whether it is true or false.  The
  include flags follow the rule of the other fields inside their container object.
\<close>

theorem boolean_filter_fields_written_when_true:
  assumes "parameters ex i ''resource'' = Some (JStr resource)"
      and "parameters ex i ''operation'' = Some (JStr operation)"
      and "\<not> truthy (getNodeParameter ex ''useRawJsonSearch'' i (JBool False))"
      and "build_request ex i = Inr r"
      and "getAdditionalFields ex ''searchAdditionalFields'' i = Inr additional"
  shows "(\<forall>p k. (resource, operation, p, k) \<in> set boolean_filter_fields \<and> \<not> has_key additional k
          \<longrightarrow> (getNodeParameter ex p i (JBool False) = JBool False \<longrightarrow> \<not> has_key (req_body r) k)
          \<and> (getNodeParameter ex p i (JBool False) = JBool True
               \<longrightarrow> has_key (req_body r) k \<and> get_prop (req_body r) k = JBool True))
       \<and> (resource = ''company'' \<and> operation = ''search'' \<and> \<not> has_key additional ''CleanEmptyName''
          \<longrightarrow> has_key (req_body r) ''CleanEmptyName''
          \<and> get_prop (req_body r) ''CleanEmptyName''
                = getNodeParameter ex ''companySearchCleanEmptyName'' i (JBool True))
       \<and> (\<forall>c p k. (resource, operation, c, p, k) \<in> set include_flag_fields \<and> \<not> has_key additional c
          \<longrightarrow> (getNodeParameter ex p i (JBool False) = JBool False \<longrightarrow> \<not> has_key (get_prop (req_body r) c) k)
          \<and> (getNodeParameter ex p i (JBool False) = JBool True
               \<longrightarrow> has_key (get_prop (req_body r) c) k
                   \<and> get_prop (get_prop (req_body r) c) k = JBool True))"
proof -
  have flags: "(getNodeParameter ex p i (JBool False) = JBool False \<longrightarrow> \<not> has_key (req_body r) k)
          \<and> (getNodeParameter ex p i (JBool False) = JBool True
               \<longrightarrow> has_key (req_body r) k \<and> get_prop (req_body r) k = JBool True)"
    if mem: "(resource, operation, p, k) \<in> set boolean_filter_fields"
      and nokey: "\<not> has_key additional k" for p k
  proof -
    from mem have "(resource = ''company'' \<and> operation = ''search'' \<and> (p, k) \<in> set companySearch_flags)
        \<or> (resource = ''contact'' \<and> operation = ''search'' \<and> (p, k) \<in> set contactSearch_flags)
        \<or> (resource = ''deal'' \<and> operation = ''search'' \<and> (p, k) \<in> set dealSearch_flags)
        \<or> (resource = ''note'' \<and> operation = ''search'' \<and> (p, k) \<in> set noteSearch_flags)
        \<or> (resource = ''task'' \<and> operation = ''search'' \<and> (p, k) \<in> set taskSearch_flags)
        \<or> (resource = ''strategy'' \<and> operation = ''searchDetails'' \<and> (p, k) \<in> set strategyDetails_flags)
        \<or> (resource = ''externalProperty'' \<and> operation = ''search'' \<and> (p, k) \<in> set externalPropertySearch_flags)
        \<or> (resource = ''user'' \<and> operation = ''search'' \<and> (p, k) \<in> set userSearch_flags)"
      unfolding boolean_filter_fields_def by (simp add: in_tag)
    then show ?thesis
    proof (elim disjE conjE)
      assume r: "resource = ''company''" and o: "operation = ''search''" and m: "(p, k) \<in> set companySearch_flags"
      show ?thesis
        by (rule companySearch_flags_request[OF assms(1)[unfolded r] assms(2)[unfolded o] assms(3,4,5) nokey m])
    next
      assume r: "resource = ''contact''" and o: "operation = ''search''" and m: "(p, k) \<in> set contactSearch_flags"
      show ?thesis
        by (rule contactSearch_flags_request[OF assms(1)[unfolded r] assms(2)[unfolded o] assms(3,4,5) nokey m])
    next
      assume r: "resource = ''deal''" and o: "operation = ''search''" and m: "(p, k) \<in> set dealSearch_flags"
      show ?thesis
        by (rule dealSearch_flags_request[OF assms(1)[unfolded r] assms(2)[unfolded o] assms(3,4,5) nokey m])
    next
      assume r: "resource = ''note''" and o: "operation = ''search''" and m: "(p, k) \<in> set noteSearch_flags"
      show ?thesis
        by (rule noteSearch_flags_request[OF assms(1)[unfolded r] assms(2)[unfolded o] assms(3,4,5) nokey m])
    next
      assume r: "resource = ''task''" and o: "operation = ''search''" and m: "(p, k) \<in> set taskSearch_flags"
      show ?thesis
        by (rule taskSearch_flags_request[OF assms(1)[unfolded r] assms(2)[unfolded o] assms(3,4,5) nokey m])
    next
      assume r: "resource = ''strategy''" and o: "operation = ''searchDetails''" and m: "(p, k) \<in> set strategyDetails_flags"
      show ?thesis
        by (rule strategyDetails_flags_request[OF assms(1)[unfolded r] assms(2)[unfolded o] assms(3,4,5) nokey m])
    next
      assume r: "resource = ''externalProperty''" and o: "operation = ''search''" and m: "(p, k) \<in> set externalPropertySearch_flags"
      show ?thesis
        by (rule externalPropertySearch_flags_request[OF assms(1)[unfolded r] assms(2)[unfolded o] assms(3,4,5) nokey m])
    next
      assume r: "resource = ''user''" and o: "operation = ''search''" and m: "(p, k) \<in> set userSearch_flags"
      show ?thesis
        by (rule userSearch_flags_request[OF assms(1)[unfolded r] assms(2)[unfolded o] assms(3,4,5) nokey m])
    qed
  qed
  have clean: "has_key (req_body r) ''CleanEmptyName''
          \<and> get_prop (req_body r) ''CleanEmptyName''
                = getNodeParameter ex ''companySearchCleanEmptyName'' i (JBool True)"
    if "resource = ''company''" and "operation = ''search''"
      and "\<not> has_key additional ''CleanEmptyName''"
    by (rule companySearch_CleanEmptyName_request[OF assms(1)[unfolded that(1)] assms(2)[unfolded that(2)] assms(3,4,5) that(3)])
  have incl: "(getNodeParameter ex p i (JBool False) = JBool False \<longrightarrow> \<not> has_key (get_prop (req_body r) c) k)
          \<and> (getNodeParameter ex p i (JBool False) = JBool True
               \<longrightarrow> has_key (get_prop (req_body r) c) k
                   \<and> get_prop (get_prop (req_body r) c) k = JBool True)"
    if mem: "(resource, operation, c, p, k) \<in> set include_flag_fields"
      and nokey: "\<not> has_key additional c" for c p k
  proof -
    from mem have "(resource = ''company'' \<and> operation = ''search'' \<and> c = ''Includes'' \<and> (p, k) \<in> set companySearch_include_flags)
        \<or> (resource = ''deal'' \<and> operation = ''search'' \<and> c = ''Includes'' \<and> (p, k) \<in> set dealSearch_include_flags)
        \<or> (resource = ''note'' \<and> operation = ''search'' \<and> c = ''Includes'' \<and> (p, k) \<in> set noteSearch_include_flags)
        \<or> (resource = ''activity'' \<and> operation = ''search'' \<and> c = ''Include'' \<and> (p, k) \<in> set activitySearch_include_flags)
        \<or> (resource = ''strategy'' \<and> operation = ''search'' \<and> c = ''IncludeOptions'' \<and> (p, k) \<in> set strategySearch_include_flags)"
      unfolding include_flag_fields_def by (simp add: in_tag_in)
    then show ?thesis
    proof (elim disjE conjE)
      assume r: "resource = ''company''" and o: "operation = ''search''" and c: "c = ''Includes''"
         and m: "(p, k) \<in> set companySearch_include_flags"
      show ?thesis
        unfolding c
        by (rule companySearch_include_flags_request[OF assms(1)[unfolded r] assms(2)[unfolded o] assms(3,4,5) nokey[unfolded c] m])
    next
      assume r: "resource = ''deal''" and o: "operation = ''search''" and c: "c = ''Includes''"
         and m: "(p, k) \<in> set dealSearch_include_flags"
      show ?thesis
        unfolding c
        by (rule dealSearch_include_flags_request[OF assms(1)[unfolded r] assms(2)[unfolded o] assms(3,4,5) nokey[unfolded c] m])
    next
      assume r: "resource = ''note''" and o: "operation = ''search''" and c: "c = ''Includes''"
         and m: "(p, k) \<in> set noteSearch_include_flags"
      show ?thesis
        unfolding c
        by (rule noteSearch_include_flags_request[OF assms(1)[unfolded r] assms(2)[unfolded o] assms(3,4,5) nokey[unfolded c] m])
    next
      assume r: "resource = ''activity''" and o: "operation = ''search''" and c: "c = ''Include''"
         and m: "(p, k) \<in> set activitySearch_include_flags"
      show ?thesis
        unfolding c
        by (rule activitySearch_include_flags_request[OF assms(1)[unfolded r] assms(2)[unfolded o] assms(3,4,5) nokey[unfolded c] m])
    next
      assume r: "resource = ''strategy''" and o: "operation = ''search''" and c: "c = ''IncludeOptions''"
         and m: "(p, k) \<in> set strategySearch_include_flags"
      show ?thesis
        unfolding c
        by (rule strategySearch_include_flags_request[OF assms(1)[unfolded r] assms(2)[unfolded o] assms(3,4,5) nokey[unfolded c] m])
    qed
  qed
  from flags clean incl show ?thesis
    by blast
qed

theorem boolean_filter_fields_written_when_true_witness:
  "\<exists>r. build_request
         (example_functions [(''resource'', JStr ''company''), (''operation'', JStr ''search''),
            (''companySearchNoUser'', JBool True), (''companySearchHasPhone'', JBool False),
            (''companySearchCleanEmptyName'', JBool False), (''companySearchIncludeTags'', JBool True)]) 0 = Inr r
       \<and> has_key (req_body r) ''NoUser'' \<and> get_prop (req_body r) ''NoUser'' = JBool True
       \<and> \<not> has_key (req_body r) ''HasPhone''
       \<and> has_key (req_body r) ''CleanEmptyName'' \<and> get_prop (req_body r) ''CleanEmptyName'' = JBool False
       \<and> get_prop (get_prop (req_body r) ''Includes'') ''WithTags'' = JBool True"
proof -
  let ?E = "example_functions [(''resource'', JStr ''company''), (''operation'', JStr ''search''),
            (''companySearchNoUser'', JBool True), (''companySearchHasPhone'', JBool False),
            (''companySearchCleanEmptyName'', JBool False), (''companySearchIncludeTags'', JBool True)]"
  let ?R = "\<lparr>req_method = ''POST'', req_endpoint = ''/api/v1/Accounts/search'', req_qs = JObj [],
             req_body = JObj [(''NoUser'', JBool True), (''CleanEmptyName'', JBool False),
                              (''Includes'', JObj [(''WithTags'', JBool True)]),
                              (''Pagination'', JObj [(''Limit'', JNum 50), (''Offset'', JNum 0)])]\<rparr>"
  have br: "build_request ?E 0 = Inr ?R"
    by code_simp
  have add: "getAdditionalFields ?E ''searchAdditionalFields'' 0 = Inr (JObj [])"
    by code_simp
  have res: "parameters ?E 0 ''resource'' = Some (JStr ''company'')"
    and op: "parameters ?E 0 ''operation'' = Some (JStr ''search'')"
    by (simp_all add: example_functions_def)
  have raw: "\<not> truthy (getNodeParameter ?E ''useRawJsonSearch'' 0 (JBool False))"
    by (simp add: example_functions_def getNodeParameter_def)
  have nokey: "\<not> has_key (JObj []) k" for k
    by (simp add: has_key_def)
  note fields = boolean_filter_fields_written_when_true[OF res op raw br add]
  have noUser: "getNodeParameter ?E ''companySearchNoUser'' 0 (JBool False) = JBool True"
    and hasPhone: "getNodeParameter ?E ''companySearchHasPhone'' 0 (JBool False) = JBool False"
    and tags: "getNodeParameter ?E ''companySearchIncludeTags'' 0 (JBool False) = JBool True"
    and clean: "getNodeParameter ?E ''companySearchCleanEmptyName'' 0 (JBool True) = JBool False"
    by (simp_all add: example_functions_def getNodeParameter_def)
  have m1: "(''company'', ''search'', ''companySearchNoUser'', ''NoUser'') \<in> set boolean_filter_fields"
    and m2: "(''company'', ''search'', ''companySearchHasPhone'', ''HasPhone'') \<in> set boolean_filter_fields"
    by (simp_all add: boolean_filter_fields_def in_tag companySearch_flags_def)
  have m3: "(''company'', ''search'', ''Includes'', ''companySearchIncludeTags'', ''WithTags'') \<in> set include_flag_fields"
    by (simp add: include_flag_fields_def in_tag_in companySearch_include_flags_def)
  from fields[THEN conjunct1, rule_format, of "''companySearchNoUser''" "''NoUser''"] m1 nokey noUser
  have a: "has_key (req_body ?R) ''NoUser'' \<and> get_prop (req_body ?R) ''NoUser'' = JBool True"
    by blast
  from fields[THEN conjunct1, rule_format, of "''companySearchHasPhone''" "''HasPhone''"] m2 nokey hasPhone
  have b: "\<not> has_key (req_body ?R) ''HasPhone''"
    by blast
  from fields[THEN conjunct2, THEN conjunct1] nokey clean
  have c: "has_key (req_body ?R) ''CleanEmptyName'' \<and> get_prop (req_body ?R) ''CleanEmptyName'' = JBool False"
    by simp
  from fields[THEN conjunct2, THEN conjunct2, rule_format, of "''Includes''" "''companySearchIncludeTags''" "''WithTags''"]
    m3 nokey tags
  have d: "get_prop (get_prop (req_body ?R) ''Includes'') ''WithTags'' = JBool True"
    by blast
  from a b c d br show ?thesis
    by blast
qed

text \<open>
  The claim as the spec states it fails when an Additional-Fields entry names the key of
  a boolean field: with the input \<^verbatim>\<open>false\<close> the key is in the body all the same, with the
  entry's value.
\<close>

theorem boolean_field_override_counterexample:
  "getNodeParameter
      (example_functions [(''resource'', JStr ''company''), (''operation'', JStr ''search''),
         (''companySearchNoUser'', JBool False),
         (''searchAdditionalFields'', JArr [JObj [(''field'', JStr ''NoUser''), (''value'', JStr ''no'')]])])
      ''companySearchNoUser'' 0 (JBool False) = JBool False
   \<and> build_request
      (example_functions [(''resource'', JStr ''company''), (''operation'', JStr ''search''),
         (''companySearchNoUser'', JBool False),
         (''searchAdditionalFields'', JArr [JObj [(''field'', JStr ''NoUser''), (''value'', JStr ''no'')]])]) 0
     = Inr \<lparr>req_method = ''POST'', req_endpoint = ''/api/v1/Accounts/search'', req_qs = JObj [],
            req_body = JObj [(''CleanEmptyName'', JBool True),
                             (''Pagination'', JObj [(''Limit'', JNum 50), (''Offset'', JNum 0)]),
                             (''NoUser'', JStr ''no'')]\<rparr>"
  by code_simp




end
